(* ===== verification/Prelude.thy ===== *)
theory Prelude
  imports Main "HOL-Library.Multiset"
begin

text \<open>
  Shared vocabulary of the development: the Python built-ins the sources rely on
  (\<open>range\<close> with a step, slicing, truthiness of the values that occur), the error
  values that model Python exceptions, the reference chunking of a list into batches,
  and the generic list lemmas the component theories share.
\<close>

named_theorems model_simps "characteristic equations of the model's Python built-ins"

section \<open>Python exceptions as values\<close>

text \<open>
  \<open>ValueError\<close> is what \<open>range(a, b, 0)\<close> or a malformed format string raises; \<open>KeyError\<close> is a missing key of
  \<open>str.format\<close> or of a dictionary, \<open>IndexError\<close> a positional field without positional
  arguments or an index past the end of a string, \<open>TypeError\<close> a value of the wrong type,
  \<open>AttributeError\<close> a missing attribute; \<open>APIError\<close> stands for any exception raised by
  an external service call (the OpenAI embedding or chat endpoint: rate limit,
  timeout, authentication), which the sources never catch. \<open>Unmodelled\<close> marks a
  library behaviour the model does not compute (the text \<open>str.format\<close> gives for a
  \<open>!r\<close> conversion, a format spec or a method object); no input of the program
  reaches it, which the prompt lemmas show.
\<close>

datatype py_error = ValueError | KeyError | IndexError | TypeError | AttributeError | APIError | Unmodelled

section \<open>range(start, stop, step)\<close>

text \<open>
  CPython computes the length of a range as \<open>1 + (stop - 1 - start) div step\<close> when
  \<open>start < stop\<close> and \<open>step > 0\<close> (symmetrically for a negative step), and \<open>0\<close>
  otherwise; its elements are \<open>start + step * k\<close>. A zero step raises
  \<open>ValueError\<close>.
\<close>

definition py_range_len :: "int \<Rightarrow> int \<Rightarrow> int \<Rightarrow> nat" where
  "py_range_len start stop step =
     (if 0 < step then nat ((stop - start + step - 1) div step)
      else nat ((start - stop - step - 1) div (- step)))"

definition py_range :: "int \<Rightarrow> int \<Rightarrow> int \<Rightarrow> py_error + int list" where
  "py_range start stop step =
     (if step = 0 then Inl ValueError
      else Inr (map (\<lambda>k. start + step * int k) [0..<py_range_len start stop step]))"

section \<open>Slicing xs[i:j]\<close>

text \<open>
  A slice bound is first normalised: a negative bound counts from the end and is
  clamped at \<open>0\<close>, a bound past the end is clamped to the length. Slicing never raises.
\<close>

definition py_slice_bound :: "nat \<Rightarrow> int \<Rightarrow> nat" where
  "py_slice_bound n k = (if k < 0 then nat (max 0 (int n + k)) else min (nat k) n)"

definition py_slice :: "'a list \<Rightarrow> int \<Rightarrow> int \<Rightarrow> 'a list" where
  "py_slice xs i j =
     (let a = py_slice_bound (length xs) i; b = py_slice_bound (length xs) j
      in take (b - a) (drop a xs))"

section \<open>Strings: UTF-8 text, str.strip and str.join\<close>

text \<open>
  A Python \<open>str\<close> is a sequence of code points; the model's strings are their UTF-8
  bytes, as the sources read and write them. \<open>utf8_chars\<close> cuts a byte string into
  its code points, each a lead byte with the continuation bytes \<open>0x80..0xBF\<close> after
  it, and \<open>utf8_cp\<close> decodes one. Strings are taken to be valid UTF-8.
\<close>

definition utf8_cont :: "char \<Rightarrow> bool" where
  "utf8_cont c \<longleftrightarrow> 128 \<le> (of_char c :: nat) \<and> (of_char c :: nat) < 192"

function utf8_chars :: "string \<Rightarrow> string list" where
  "utf8_chars [] = []"
| "utf8_chars (c # cs) = (c # takeWhile utf8_cont cs) # utf8_chars (dropWhile utf8_cont cs)"
  by pat_completeness auto
termination
  by (relation "measure length") (auto simp: le_imp_less_Suc length_dropWhile_le)

definition utf8_cp :: "string \<Rightarrow> nat" where
  "utf8_cp g =
     (case g of
        [] \<Rightarrow> 0
      | c # cs \<Rightarrow>
          foldl (\<lambda>a b. a * 64 + (of_char b - 128))
            (let n = of_char c in if n < 128 then n else if n < 224 then n - 192 else if n < 240 then n - 224 else n - 240)
            cs)"

text \<open>
  \<open>str.isspace\<close> of CPython 3.11 (Unicode 14.0): the code points of bidirectional
  class WS, B or S or of category Zs. \<open>strip()\<close> removes them at both ends;
  \<open>sep.join(xs)\<close> puts \<open>sep\<close> between the pieces.
\<close>

definition py_whitespace :: "nat list" where
  "py_whitespace = [9, 10, 11, 12, 13, 28, 29, 30, 31, 32, 133, 160, 5760, 8192, 8193, 8194, 8195, 8196, 8197, 8198, 8199, 8200, 8201, 8202, 8232, 8233, 8239, 8287, 12288]"

definition py_isspace :: "string \<Rightarrow> bool" where
  "py_isspace g \<longleftrightarrow> utf8_cp g \<in> set py_whitespace"

definition py_strip :: "string \<Rightarrow> string" where
  "py_strip s = concat (rev (dropWhile py_isspace (rev (dropWhile py_isspace (utf8_chars s)))))"

fun py_join :: "string \<Rightarrow> string list \<Rightarrow> string" where
  "py_join sep [] = []"
| "py_join sep [x] = x"
| "py_join sep (x # xs) = x @ sep @ py_join sep xs"

abbreviation nl :: string where
  "nl \<equiv> [CHR 0x0A]"

section \<open>Batches: the reference chunking of a list\<close>

text \<open>
  \<open>chunks b xs\<close> cuts \<open>xs\<close> into consecutive pieces of \<open>b\<close> elements, the last one
  possibly shorter. It is the abstract description of the batching loop of the
  ingestion pipeline; a zero width gives no chunks.
\<close>

function chunks :: "nat \<Rightarrow> 'a list \<Rightarrow> 'a list list" where
  "chunks b xs = (if xs = [] \<or> b = 0 then [] else take b xs # chunks b (drop b xs))"
  by pat_completeness auto
termination
  by (relation "measure (\<lambda>(b, xs). length xs)") auto

declare chunks.simps [simp del]

text \<open>Ceiling division, the number of batches of width \<open>b\<close> for \<open>n\<close> items.\<close>

definition ceil_div :: "nat \<Rightarrow> nat \<Rightarrow> nat" where
  "ceil_div n b = (n + b - 1) div b"

section \<open>Lemmas on the built-ins\<close>

lemma concat_utf8_chars [simp]: "concat (utf8_chars s) = s"
  by (induction s rule: utf8_chars.induct) simp_all

lemma py_range_len_nonneg_step [model_simps]:
  "0 < step \<Longrightarrow> 0 \<le> n \<Longrightarrow> py_range_len 0 n step = ceil_div (nat n) (nat step)"
  unfolding py_range_len_def ceil_div_def
  by (simp add: nat_div_distrib nat_add_distrib nat_diff_distrib)

lemma py_range_nonneg_step [model_simps]:
  "0 < step \<Longrightarrow> py_range start stop step =
     Inr (map (\<lambda>k. start + step * int k) [0..<py_range_len start stop step])"
  by (simp add: py_range_def)

lemma py_range_zero_step [model_simps]: "py_range start stop 0 = Inl ValueError"
  by (simp add: py_range_def)

lemma div_below_divisor_nonpos: "x < (d::int) \<Longrightarrow> 0 < d \<Longrightarrow> x div d \<le> 0"
  by (cases "x < 0") (simp_all add: pos_imp_zdiv_neg_iff less_imp_le)

lemma py_range_neg_step_empty [model_simps]:
  "step < 0 \<Longrightarrow> start \<le> stop \<Longrightarrow> py_range start stop step = Inr []"
  unfolding py_range_def py_range_len_def
  using div_below_divisor_nonpos [of "start - stop - step - 1" "- step"] by simp

lemma py_slice_nonneg [model_simps]:
  "0 \<le> i \<Longrightarrow> 0 \<le> j \<Longrightarrow> py_slice xs i j = take (nat j - nat i) (drop (nat i) xs)"
  unfolding py_slice_def py_slice_bound_def Let_def
  by (simp add: min_def)

lemma ceil_div_mult_ge: "0 < b \<Longrightarrow> n \<le> b * ceil_div n b"
proof -
  assume b: "0 < b"
  have "n + b - 1 = b * ((n + b - 1) div b) + (n + b - 1) mod b" by simp
  moreover have "(n + b - 1) mod b < b" using b by simp
  ultimately show ?thesis unfolding ceil_div_def by linarith
qed

lemma filter_take_prefix: "\<exists>m. filter P (take n xs) = take m (filter P xs)"
proof -
  have "filter P xs = filter P (take n xs) @ filter P (drop n xs)"
    by (metis append_take_drop_id filter_append)
  then show ?thesis by (metis append_eq_conv_conj)
qed

lemma those_map_Some: "those (map f xs) = Some ys \<longleftrightarrow> list_all (\<lambda>x. f x \<noteq> None) xs \<and> ys = map (\<lambda>x. the (f x)) xs"
  by (induction xs arbitrary: ys) (auto split: option.splits)

lemma those_map_None: "those (map f xs) = None \<longleftrightarrow> \<not> list_all (\<lambda>x. f x \<noteq> None) xs"
  by (induction xs) (auto split: option.splits)

lemma map_of_map_inj:
  "inj_on r (set xs) \<Longrightarrow> c \<in> set xs \<Longrightarrow> map_of (map (\<lambda>x. (r x, v x)) xs) (r c) = Some (v c)"
  by (induction xs) (auto simp: inj_on_def)

lemma map_of_frame: "c \<in> set xs \<Longrightarrow> map_of (map (\<lambda>c. (c, v c)) xs) c = Some (v c)"
  by (induction xs) auto

section \<open>Lemmas on chunks\<close>

lemma ceil_div_Suc: "0 < b \<Longrightarrow> 0 < n \<Longrightarrow> ceil_div n b = Suc (ceil_div (n - b) b)"
proof -
  assume b: "0 < b" and n: "0 < n"
  show ?thesis
  proof (cases "n \<le> b")
    case True
    then have "(n + b - 1) div b = 1" using b n
      by (intro div_nat_eqI) auto
    moreover have "(n - b + b - 1) div b = 0" using True b by simp
    ultimately show ?thesis by (simp add: ceil_div_def)
  next
    case False
    then have "n + b - 1 = (n - b + b - 1) + b" by simp
    then show ?thesis using b unfolding ceil_div_def by (metis div_add_self2 less_not_refl2 plus_1_eq_Suc add.commute)
  qed
qed

lemma less_ceil_div_iff: "0 < b \<Longrightarrow> (j < ceil_div n b) = (j * b < n)"
proof -
  assume b: "0 < b"
  have "(j < ceil_div n b) = (Suc j * b \<le> n + b - 1)"
    unfolding ceil_div_def using less_eq_div_iff_mult_less_eq [OF b, of "Suc j" "n + b - 1"]
    by (simp only: Suc_le_eq)
  also have "\<dots> = (j * b < n)" using b by auto
  finally show ?thesis .
qed

lemma ceil_div_0: "0 < b \<Longrightarrow> ceil_div 0 b = 0"
  by (simp add: ceil_div_def)

lemma concat_chunks: "concat (chunks b xs) = (if b = 0 then [] else xs)"
  by (induction b xs rule: chunks.induct) (subst chunks.simps, auto)

lemma length_chunks: "0 < b \<Longrightarrow> length (chunks b xs) = ceil_div (length xs) b"
proof (induction b xs rule: chunks.induct)
  case (1 b xs)
  then show ?case
  proof (cases "xs = []")
    case True
    then show ?thesis using 1 by (simp add: chunks.simps ceil_div_0)
  next
    case False
    then have "length (chunks b xs) = Suc (ceil_div (length (drop b xs)) b)"
      using 1 by (subst chunks.simps) simp
    also have "\<dots> = ceil_div (length xs) b"
      using 1 False ceil_div_Suc [of b "length xs"] by simp
    finally show ?thesis .
  qed
qed

lemma chunks_nonempty: "c \<in> set (chunks b xs) \<Longrightarrow> c \<noteq> [] \<and> length c \<le> b"
  by (induction b xs rule: chunks.induct) (subst (asm) chunks.simps, auto split: if_splits)

lemma chunks_as_slices:
  "0 < b \<Longrightarrow> map (\<lambda>k. take b (drop (k * b) xs)) [0..<ceil_div (length xs) b] = chunks b xs"
proof (induction b xs rule: chunks.induct)
  case (1 b xs)
  show ?case
  proof (cases "xs = []")
    case True
    then show ?thesis using 1 by (simp add: chunks.simps ceil_div_0)
  next
    case False
    have "map (\<lambda>k. take b (drop (k * b) xs)) [0..<Suc (ceil_div (length (drop b xs)) b)]
        = take b xs # map (\<lambda>k. take b (drop (k * b) (drop b xs))) [0..<ceil_div (length (drop b xs)) b]"
      by (simp add: upt_conv_Cons map_Suc_upt [symmetric] add.commute del: upt_Suc)
    also have "\<dots> = take b xs # chunks b (drop b xs)" using 1 False by simp
    finally show ?thesis using 1 False
      using ceil_div_Suc [of b "length xs"] by (subst chunks.simps) simp
  qed
qed
end
