(* ===== verification/Ingestion.thy ===== *)
theory Ingestion
  imports Prelude
begin

text \<open>
  The ingestion pipeline of \<^verbatim>\<open>src/embeddingPrograms.py\<close>: \<open>csv_loader\<close> turns the
  rows of the refined CSV into documents, \<open>create_vector_store\<close> cuts them into batches
  of \<open>batch_size\<close> (default 150), embeds each batch with one request to the embedding
  service, adds it to the Chroma collection persisted under \<^verbatim>\<open>./db\<close>, and sleeps
  61 seconds between batches. The embedding service is a parameter
  \<open>emb :: 'd \<Rightarrow> 'v option\<close> (\<open>None\<close>: the request raises); the persisted
  collection is an explicit part of the state, so that what survives a failed run is
  visible. Print statements and sleeps are recorded as events of a trace.
\<close>

section \<open>Documents: CSVLoader\<close>

text \<open>
  \<open>CSVLoader(file_path).load()\<close> yields one document per CSV row; its text is
  \<open>"\n".join(f"{k.strip()}: {v.strip()}" for k, v in row.items())\<close> and its metadata
  the file path and the row number. The CSV parsing itself is not modelled: a row is
  the list of its (header, value) pairs.
\<close>

record document =
  page_content :: string
  source :: string
  row :: nat

definition csv_row_content :: "(string \<times> string) list \<Rightarrow> string" where
  "csv_row_content r = py_join nl (map (\<lambda>(k, v). py_strip k @ '': '' @ py_strip v) r)"

definition csv_loader :: "string \<Rightarrow> (string \<times> string) list list \<Rightarrow> document list" where
  "csv_loader file_path rows =
     map (\<lambda>(i, r). \<lparr>page_content = csv_row_content r, source = file_path, row = i\<rparr>)
       (zip [0..<length rows] rows)"

section \<open>The Chroma collection\<close>

text \<open>
  A collection is the list of its entries in insertion order, each an id, an embedding
  vector and the document. \<open>add_documents\<close> (and \<open>from_documents\<close>, which opens the
  collection persisted under the directory and adds to it) gives every document a
  fresh \<open>uuid4\<close> id; fresh ids are modelled by a counter.
\<close>

record ('d, 'v) chroma =
  entries :: "(nat \<times> 'v \<times> 'd) list"
  next_id :: nat

definition chroma_add :: "('d, 'v) chroma \<Rightarrow> ('d \<times> 'v) list \<Rightarrow> ('d, 'v) chroma" where
  "chroma_add c dvs =
     c\<lparr>entries := entries c @
          map (\<lambda>(k, d, v). (k, v, d)) (zip [next_id c..<next_id c + length dvs] dvs),
       next_id := next_id c + length dvs\<rparr>"

definition docs_of :: "('d, 'v) chroma \<Rightarrow> 'd list" where
  "docs_of c = map (\<lambda>(_, _, d). d) (entries c)"

text \<open>One embedding request for a batch: it fails as a whole if any document fails.\<close>

definition embed_documents :: "('d \<Rightarrow> 'v option) \<Rightarrow> 'd list \<Rightarrow> 'v list option" where
  "embed_documents emb ds = those (map emb ds)"

section \<open>create_vector_store\<close>

datatype event =
    TotalDocs nat      \<comment> \<open>\<open>print(f"... {total_docs} ...")\<close>\<close>
  | Progress nat nat   \<comment> \<open>\<open>print(f"{i + 1} ... {i + len(batch_docs)} ...")\<close>\<close>
  | EmbedCall nat      \<comment> \<open>one embedding request carrying that many documents\<close>
  | WaitNotice         \<comment> \<open>the print before the sleep\<close>
  | Sleep nat          \<comment> \<open>\<open>time.sleep(61)\<close>\<close>

record ('d, 'v) ingest_state =
  vectorstore :: "('d, 'v) chroma option"
  db :: "('d, 'v) chroma"
  trace :: "event list"

text \<open>
  One iteration of \<open>for i in range(0, total_docs, batch_size)\<close> (lines 24--45): slice
  the batch, print, embed it and create or extend the store, persist, and sleep unless
  this was the last batch. A failed embedding request raises; the state at that point
  (what was persisted, what was printed) is returned with the error.
\<close>

definition ingest_batch ::
  "('d \<Rightarrow> 'v option) \<Rightarrow> 'd list \<Rightarrow> int \<Rightarrow> int \<Rightarrow> ('d, 'v) ingest_state \<Rightarrow>
     (py_error \<times> ('d, 'v) ingest_state) + ('d, 'v) ingest_state" where
  "ingest_batch emb docs batch_size i st =
     (let total_docs = int (length docs);
          batch_docs = py_slice docs i (i + batch_size);
          st1 = st\<lparr>trace := trace st @
                  [Progress (nat (i + 1)) (nat i + length batch_docs), EmbedCall (length batch_docs)]\<rparr>
      in case embed_documents emb batch_docs of
           None \<Rightarrow> Inl (APIError, st1)
         | Some vs \<Rightarrow>
             (let c = chroma_add (case vectorstore st of None \<Rightarrow> db st | Some v \<Rightarrow> v)
                        (zip batch_docs vs);
                  st2 = st1\<lparr>vectorstore := Some c, db := c\<rparr>
              in Inr (if i + batch_size < total_docs
                      then st2\<lparr>trace := trace st2 @ [WaitNotice, Sleep 61]\<rparr>
                      else st2)))"

fun ingest_loop ::
  "('d \<Rightarrow> 'v option) \<Rightarrow> 'd list \<Rightarrow> int \<Rightarrow> int list \<Rightarrow> ('d, 'v) ingest_state \<Rightarrow>
     (py_error \<times> ('d, 'v) ingest_state) + ('d, 'v) ingest_state" where
  "ingest_loop emb docs batch_size [] st = Inr st"
| "ingest_loop emb docs batch_size (i # is) st =
     (case ingest_batch emb docs batch_size i st of
        Inl err \<Rightarrow> Inl err
      | Inr st' \<Rightarrow> ingest_loop emb docs batch_size is st')"

definition create_vector_store ::
  "('d \<Rightarrow> 'v option) \<Rightarrow> 'd list \<Rightarrow> int \<Rightarrow> ('d, 'v) chroma \<Rightarrow>
     (py_error \<times> ('d, 'v) ingest_state) + (('d, 'v) chroma option \<times> ('d, 'v) ingest_state)" where
  "create_vector_store emb docs batch_size db0 =
     (let total_docs = length docs;
          st0 = \<lparr>vectorstore = None, db = db0, trace = [TotalDocs total_docs]\<rparr>
      in case py_range 0 (int total_docs) batch_size of
           Inl e \<Rightarrow> Inl (e, st0)
         | Inr is \<Rightarrow>
             (case ingest_loop emb docs batch_size is st0 of
                Inl err \<Rightarrow> Inl err
              | Inr st \<Rightarrow> Inr (vectorstore st, st)))"

text \<open>The script's entry point (lines 50--51), with the default batch size.\<close>

definition ingest_main ::
  "(document \<Rightarrow> 'v option) \<Rightarrow> (string \<times> string) list list \<Rightarrow> (document, 'v) chroma \<Rightarrow>
     (py_error \<times> (document, 'v) ingest_state) + ((document, 'v) chroma option \<times> (document, 'v) ingest_state)" where
  "ingest_main emb rows db0 =
     create_vector_store emb (csv_loader ''./files/refined_data.csv'' rows) 150 db0"

text \<open>The state an outcome leaves behind, whether the run returned or raised.\<close>

definition outcome_state :: "('e \<times> 's) + ('r \<times> 's) \<Rightarrow> 's" where
  "outcome_state r = (case r of Inl (_, s) \<Rightarrow> s | Inr (_, s) \<Rightarrow> s)"

section \<open>Observations on traces\<close>

text \<open>
  \<open>cooldown_ok w ready es\<close>: every embedding request of \<open>es\<close> is issued when the
  client is \<open>ready\<close>, i.e. it is the first request or a sleep of at least \<open>w\<close>
  seconds happened since the previous one.
\<close>

fun cooldown_ok :: "nat \<Rightarrow> bool \<Rightarrow> event list \<Rightarrow> bool" where
  "cooldown_ok w ready [] = True"
| "cooldown_ok w ready (EmbedCall n # es) = (ready \<and> cooldown_ok w False es)"
| "cooldown_ok w ready (Sleep t # es) = cooldown_ok w (ready \<or> w \<le> t) es"
| "cooldown_ok w ready (e # es) = cooldown_ok w ready es"

fun is_embed_call :: "event \<Rightarrow> bool" where
  "is_embed_call (EmbedCall n) = True"
| "is_embed_call e = False"

fun is_sleep :: "event \<Rightarrow> bool" where
  "is_sleep (Sleep t) = True"
| "is_sleep e = False"

definition request_sizes :: "event list \<Rightarrow> nat list" where
  "request_sizes es = [n. EmbedCall n \<leftarrow> es]"

section \<open>Abstract description of a run\<close>

text \<open>
  With a positive batch size the loop runs over the batch numbers \<open>k\<close> of
  \<open>[0..<ceil_div n b]\<close>; batch \<open>k\<close> is \<open>chunk_at docs b k\<close>. The definitions below
  describe, in these terms, what a run does: the events a batch prints and issues,
  the cooldown after it, and the state after a sequence of successful batches.
\<close>

definition chunk_at :: "'d list \<Rightarrow> nat \<Rightarrow> nat \<Rightarrow> 'd list" where
  "chunk_at docs b k = take b (drop (k * b) docs)"

definition batch_events :: "'d list \<Rightarrow> nat \<Rightarrow> nat \<Rightarrow> event list" where
  "batch_events docs b k =
     [Progress (k * b + 1) (k * b + length (chunk_at docs b k)), EmbedCall (length (chunk_at docs b k))]"

definition cooldown_events :: "nat \<Rightarrow> nat \<Rightarrow> nat \<Rightarrow> event list" where
  "cooldown_events n b k = (if k * b + b < n then [WaitNotice, Sleep 61] else [])"

definition embedded :: "('d \<Rightarrow> 'v option) \<Rightarrow> 'd list \<Rightarrow> ('d \<times> 'v) list" where
  "embedded emb ds = zip ds (map (\<lambda>d. the (emb d)) ds)"

definition store_inv :: "('d, 'v) ingest_state \<Rightarrow> bool" where
  "store_inv st \<longleftrightarrow> vectorstore st = None \<or> vectorstore st = Some (db st)"

definition after_batches ::
  "('d \<Rightarrow> 'v option) \<Rightarrow> 'd list \<Rightarrow> nat \<Rightarrow> nat list \<Rightarrow> ('d, 'v) ingest_state \<Rightarrow> ('d, 'v) ingest_state" where
  "after_batches emb docs b ks st =
     (if ks = [] then st
      else (let c = chroma_add (db st) (embedded emb (concat (map (chunk_at docs b) ks)))
            in st\<lparr>vectorstore := Some c, db := c,
                  trace := trace st @ concat (map (\<lambda>k. batch_events docs b k @ cooldown_events (length docs) b k) ks)\<rparr>))"

definition batch_ok :: "('d \<Rightarrow> 'v option) \<Rightarrow> 'd list \<Rightarrow> nat \<Rightarrow> nat \<Rightarrow> bool" where
  "batch_ok emb docs b k \<longleftrightarrow> embed_documents emb (chunk_at docs b k) \<noteq> None"

definition resume_point :: "event list \<Rightarrow> nat" where
  "resume_point es = (case rev [a. Progress a b \<leftarrow> es] of [] \<Rightarrow> 0 | a # _ \<Rightarrow> a - 1)"

text \<open>The empty collection a first run starts from.\<close>

abbreviation empty_db :: "('d, 'v) chroma" where
  "empty_db \<equiv> \<lparr>entries = [], next_id = 0\<rparr>"

section \<open>Lemmas: one batch, the loop, the whole run\<close>

lemma embed_documents_Some:
  "embed_documents emb ds \<noteq> None \<Longrightarrow> embed_documents emb ds = Some (map (\<lambda>d. the (emb d)) ds)"
  unfolding embed_documents_def by (induction ds) (auto split: option.splits)

lemma embed_documents_ok_iff:
  "(embed_documents emb ds \<noteq> None) = list_all (\<lambda>d. emb d \<noteq> None) ds"
  unfolding embed_documents_def by (induction ds) (auto split: option.splits)

lemma embedded_append: "embedded emb (xs @ ys) = embedded emb xs @ embedded emb ys"
  by (simp add: embedded_def)

lemma map_fst_embedded: "map fst (embedded emb ds) = ds"
  by (simp add: embedded_def)

lemma chroma_add_append: "chroma_add (chroma_add c xs) ys = chroma_add c (xs @ ys)"
proof -
  have "[next_id c..<next_id c + length xs + length ys] =
      [next_id c..<next_id c + length xs] @ [next_id c + length xs..<next_id c + length xs + length ys]"
    by (rule upt_add_eq_append) simp
  then show ?thesis by (simp add: chroma_add_def zip_append add.assoc)
qed

lemma docs_of_chroma_add: "docs_of (chroma_add c dvs) = docs_of c @ map fst dvs"
  by (induction dvs rule: rev_induct) (auto simp: docs_of_def chroma_add_def)

lemma ingest_batch_at:
  assumes bs: "0 < bs" and inv: "store_inv st"
  shows "ingest_batch emb docs bs (bs * int k) st =
    (case embed_documents emb (chunk_at docs (nat bs) k) of
       None \<Rightarrow> Inl (APIError, st\<lparr>trace := trace st @ batch_events docs (nat bs) k\<rparr>)
     | Some vs \<Rightarrow> Inr (after_batches emb docs (nat bs) [k] st))"
proof -
  obtain b where bb: "bs = int b" and b: "0 < b" using bs by (rule pos_int_cases)
  let ?b = "nat bs"
  have slice: "py_slice docs (bs * int k) (bs * int k + bs) = chunk_at docs ?b k"
    using bs by (simp add: py_slice_nonneg chunk_at_def nat_add_distrib nat_mult_distrib mult.commute)
  have nat1: "nat (bs * int k + 1) = k * ?b + 1" and nat0: "nat (bs * int k) = k * ?b"
    using bs by (simp_all add: nat_add_distrib nat_mult_distrib mult.commute)
  have guard: "(bs * int k + bs < int (length docs)) = (k * ?b + ?b < length docs)"
    unfolding bb by (simp flip: of_nat_mult of_nat_add add: mult.commute)
  have base: "(case vectorstore st of None \<Rightarrow> db st | Some v \<Rightarrow> v) = db st"
    using inv by (auto simp: store_inv_def)
  show ?thesis
  proof (cases "embed_documents emb (chunk_at docs ?b k)")
    case None
    then show ?thesis
      unfolding ingest_batch_def Let_def slice nat1 nat0 by (simp add: batch_events_def)
  next
    case (Some vs)
    then have "vs = map (\<lambda>d. the (emb d)) (chunk_at docs ?b k)"
      using embed_documents_Some [of emb "chunk_at docs ?b k"] by simp
    with Some show ?thesis
      unfolding ingest_batch_def Let_def slice nat1 nat0 guard base
      by (simp add: after_batches_def batch_events_def cooldown_events_def embedded_def Let_def)
  qed
qed

lemma store_inv_after_batches: "store_inv st \<Longrightarrow> store_inv (after_batches emb docs b ks st)"
  by (simp add: store_inv_def after_batches_def Let_def)

lemma after_batches_Cons:
  "after_batches emb docs b (k # ks) st = after_batches emb docs b ks (after_batches emb docs b [k] st)"
  by (cases "ks = []") (simp_all add: after_batches_def Let_def chroma_add_append embedded_append)

lemma ingest_loop_success:
  assumes "0 < bs" and "store_inv st" and "list_all (batch_ok emb docs (nat bs)) ks"
  shows "ingest_loop emb docs bs (map (\<lambda>k. bs * int k) ks) st = Inr (after_batches emb docs (nat bs) ks st)"
  using assms(2,3)
proof (induction ks arbitrary: st)
  case Nil
  then show ?case by (simp add: after_batches_def)
next
  case (Cons k ks)
  then have "ingest_batch emb docs bs (bs * int k) st = Inr (after_batches emb docs (nat bs) [k] st)"
    using ingest_batch_at [OF assms(1) Cons.prems(1), of emb docs k]
    by (auto simp: batch_ok_def split: option.splits)
  moreover have "store_inv (after_batches emb docs (nat bs) [k] st)"
    using Cons.prems(1) by (rule store_inv_after_batches)
  ultimately show ?case
    using Cons.IH Cons.prems(2) by (simp add: after_batches_Cons [of emb docs _ k ks])
qed

lemma ingest_loop_failure:
  assumes "0 < bs" and "store_inv st" and "\<not> list_all (batch_ok emb docs (nat bs)) ks"
  shows "ingest_loop emb docs bs (map (\<lambda>k. bs * int k) ks) st =
    (let st' = after_batches emb docs (nat bs) (takeWhile (batch_ok emb docs (nat bs)) ks) st
     in Inl (APIError, st'\<lparr>trace := trace st' @
               batch_events docs (nat bs) (hd (dropWhile (batch_ok emb docs (nat bs)) ks))\<rparr>))"
  using assms(2,3)
proof (induction ks arbitrary: st)
  case Nil
  then show ?case by simp
next
  case (Cons k ks)
  show ?case
  proof (cases "batch_ok emb docs (nat bs) k")
    case True
    then have "ingest_batch emb docs bs (bs * int k) st = Inr (after_batches emb docs (nat bs) [k] st)"
      using ingest_batch_at [OF assms(1) Cons.prems(1), of emb docs k]
      by (auto simp: batch_ok_def split: option.splits)
    moreover have "store_inv (after_batches emb docs (nat bs) [k] st)"
      using Cons.prems(1) by (rule store_inv_after_batches)
    ultimately show ?thesis
      using Cons.IH Cons.prems(2) True
      by (simp add: after_batches_Cons [of emb docs "nat bs" k "takeWhile (batch_ok emb docs (nat bs)) ks"] Let_def)
  next
    case False
    then show ?thesis
      using ingest_batch_at [OF assms(1) Cons.prems(1), of emb docs k]
      by (simp add: batch_ok_def after_batches_def)
  qed
qed

lemma concat_chunk_at:
  "0 < b \<Longrightarrow> concat (map (chunk_at docs b) [0..<ceil_div (length docs) b]) = docs"
  using chunks_as_slices [of b docs] concat_chunks [of b docs]
  by (simp add: chunk_at_def [abs_def])

lemma batch_ok_all_iff:
  "0 < b \<Longrightarrow> list_all (batch_ok emb docs b) [0..<ceil_div (length docs) b] = list_all (\<lambda>d. emb d \<noteq> None) docs"
proof -
  assume b: "0 < b"
  have "list_all (batch_ok emb docs b) ks = list_all (\<lambda>d. emb d \<noteq> None) (concat (map (chunk_at docs b) ks))" for ks
    by (induction ks) (simp_all add: batch_ok_def embed_documents_ok_iff del: not_None_eq)
  then show ?thesis using concat_chunk_at [OF b] by metis
qed

lemma create_vector_store_pos:
  assumes "0 < bs"
  shows "create_vector_store emb docs bs db0 =
    (let st0 = \<lparr>vectorstore = None, db = db0, trace = [TotalDocs (length docs)]\<rparr>;
         ks = [0..<ceil_div (length docs) (nat bs)]
     in if list_all (batch_ok emb docs (nat bs)) ks
        then Inr (vectorstore (after_batches emb docs (nat bs) ks st0), after_batches emb docs (nat bs) ks st0)
        else (let st' = after_batches emb docs (nat bs) (takeWhile (batch_ok emb docs (nat bs)) ks) st0
              in Inl (APIError, st'\<lparr>trace := trace st' @
                   batch_events docs (nat bs) (hd (dropWhile (batch_ok emb docs (nat bs)) ks))\<rparr>)))"
proof -
  have inv: "store_inv \<lparr>vectorstore = None, db = db0, trace = [TotalDocs (length docs)]\<rparr>"
    by (simp add: store_inv_def)
  have rng: "py_range 0 (int (length docs)) bs = Inr (map (\<lambda>k. bs * int k) [0..<ceil_div (length docs) (nat bs)])"
    using assms by (simp add: py_range_nonneg_step py_range_len_nonneg_step)
  show ?thesis
    unfolding create_vector_store_def Let_def rng
    using ingest_loop_success [OF assms inv] ingest_loop_failure [OF assms inv]
    by (simp add: Let_def)
qed

lemma ceil_div_pos_iff: "0 < b \<Longrightarrow> (0 < ceil_div n b) = (0 < n)"
  using less_ceil_div_iff [of b 0 n] by simp

lemma cooldown_events_last:
  "0 < b \<Longrightarrow> cooldown_events (length docs) b k =
     (if Suc k < ceil_div (length docs) b then [WaitNotice, Sleep 61] else [])"
  using less_ceil_div_iff [of b "Suc k" "length docs"] by (simp add: cooldown_events_def add.commute)

lemma length_chunk_at:
  "0 < b \<Longrightarrow> k < ceil_div (length docs) b \<Longrightarrow> 0 < length (chunk_at docs b k) \<and> length (chunk_at docs b k) \<le> b"
  using less_ceil_div_iff [of b k "length docs"] by (simp add: chunk_at_def)

lemma takeWhile_upt:
  assumes "\<not> list_all P [0..<m]"
  shows "\<exists>j<m. takeWhile P [0..<m] = [0..<j] \<and> hd (dropWhile P [0..<m]) = j \<and> \<not> P j \<and> list_all P [0..<j]"
proof -
  let ?j = "length (takeWhile P [0..<m])"
  have le: "?j \<le> m" using length_takeWhile_le [of P "[0..<m]"] by simp
  have ne: "?j \<noteq> m"
  proof
    assume "?j = m"
    then have "takeWhile P [0..<m] = [0..<m]"
      by (metis takeWhile_eq_take take_all length_upt diff_zero order_refl)
    then show False using assms by (metis list_all_iff set_takeWhileD)
  qed
  with le have lt: "?j < m" by simp
  have tw: "takeWhile P [0..<m] = [0..<?j]"
    using lt by (metis takeWhile_eq_take take_upt add_0 less_imp_le)
  have dw: "dropWhile P [0..<m] = [?j..<m]"
    by (metis dropWhile_eq_drop drop_upt add_0)
  have "\<not> P ([0..<m] ! ?j)"
    using lt by (intro nth_length_takeWhile) simp
  then have "\<not> P ?j" using lt by simp
  moreover have "list_all P [0..<?j]"
    using tw by (metis list_all_iff set_takeWhileD)
  moreover have "hd (dropWhile P [0..<m]) = ?j"
    unfolding dw using upt_conv_Cons [OF lt] by (metis list.sel(1))
  ultimately show ?thesis using lt tw by blast
qed

lemma request_sizes_append [simp]: "request_sizes (xs @ ys) = request_sizes xs @ request_sizes ys"
  by (simp add: request_sizes_def)

lemma request_sizes_batch [simp]: "request_sizes (batch_events docs b k) = [length (chunk_at docs b k)]"
  by (simp add: request_sizes_def batch_events_def)

lemma request_sizes_Nil [simp]: "request_sizes [] = []"
  by (simp add: request_sizes_def)

lemma request_sizes_cooldown [simp]: "request_sizes (cooldown_events n b k) = []"
  by (cases "k * b + b < n") (simp_all add: request_sizes_def cooldown_events_def)

lemma request_sizes_blocks:
  "request_sizes (concat (map (\<lambda>k. batch_events docs b k @ cooldown_events n b k) ks)) =
     map (\<lambda>k. length (chunk_at docs b k)) ks"
  by (induction ks) simp_all

lemma cooldown_blocks:
  assumes "w \<le> 61" and "\<forall>k\<in>set ks. k * b + b < length docs"
  shows "cooldown_ok w True (concat (map (\<lambda>k. batch_events docs b k @ cooldown_events (length docs) b k) ks) @ rest)
           = cooldown_ok w True rest"
  using assms(2)
  by (induction ks) (simp_all add: batch_events_def cooldown_events_def assms(1))

lemma chroma_add_Nil [simp]: "chroma_add c [] = c"
  by (simp add: chroma_add_def)

lemma embedded_Nil [simp]: "embedded emb [] = []"
  by (simp add: embedded_def)

lemma db_after_batches:
  "db (after_batches emb docs b ks st) = chroma_add (db st) (embedded emb (concat (map (chunk_at docs b) ks)))"
  by (simp add: after_batches_def Let_def)

lemma trace_after_batches:
  "trace (after_batches emb docs b ks st) =
     trace st @ concat (map (\<lambda>k. batch_events docs b k @ cooldown_events (length docs) b k) ks)"
  by (simp add: after_batches_def Let_def)

lemma concat_chunk_at_prefix: "concat (map (chunk_at docs b) [0..<j]) = take (j * b) docs"
proof (induction j)
  case 0
  then show ?case by simp
next
  case (Suc j)
  have "take (Suc j * b) docs = take (j * b) docs @ take b (drop (j * b) docs)"
    by (metis take_add mult_Suc add.commute)
  with Suc show ?case by (simp add: chunk_at_def)
qed

lemma vectorstore_after_batches:
  "ks \<noteq> [] \<Longrightarrow> vectorstore (after_batches emb docs b ks st) = Some (db (after_batches emb docs b ks st))"
  by (simp add: after_batches_def Let_def)

lemma create_vector_store_Inr:
  assumes bs: "0 < bs" and run: "create_vector_store emb docs bs db0 = Inr (r, st)"
  shows "list_all (\<lambda>d. emb d \<noteq> None) docs \<and> db st = chroma_add db0 (embedded emb docs) \<and>
    r = (if docs = [] then None else Some (db st)) \<and>
    trace st = TotalDocs (length docs) # concat (map (\<lambda>k. batch_events docs (nat bs) k @
                 cooldown_events (length docs) (nat bs) k) [0..<ceil_div (length docs) (nat bs)])"
proof -
  let ?b = "nat bs" and ?ks = "[0..<ceil_div (length docs) (nat bs)]"
  let ?st0 = "\<lparr>vectorstore = None, db = db0, trace = [TotalDocs (length docs)]\<rparr>
     :: ('a, 'b) ingest_state"
  have b: "0 < ?b" using bs by simp
  have ok: "list_all (batch_ok emb docs ?b) ?ks"
  proof (rule ccontr)
    assume "\<not> list_all (batch_ok emb docs ?b) ?ks"
    then show False using run unfolding create_vector_store_pos [OF bs] Let_def by simp
  qed
  then have "(Inr (vectorstore (after_batches emb docs ?b ?ks ?st0), after_batches emb docs ?b ?ks ?st0)
      :: (py_error \<times> ('a, 'b) ingest_state) + (('a, 'b) chroma option \<times> ('a, 'b) ingest_state)) = Inr (r, st)"
    using run unfolding create_vector_store_pos [OF bs] Let_def by (simp only: if_True)
  then have st: "st = after_batches emb docs ?b ?ks ?st0" and r: "r = vectorstore st"
    by auto
  have r': "r = (if docs = [] then None else Some (db st))"
  proof (cases "docs = []")
    case True
    then show ?thesis using r st b by (simp add: after_batches_def ceil_div_0)
  next
    case False
    then have "?ks \<noteq> []" using ceil_div_pos_iff [OF b, of "length docs"] by simp
    then show ?thesis using r st False by (simp add: vectorstore_after_batches)
  qed
  show ?thesis
    using ok r' st batch_ok_all_iff [OF b, of emb docs] concat_chunk_at [OF b, of docs]
    by (simp add: db_after_batches trace_after_batches)
qed

lemma create_vector_store_returns:
  assumes bs: "0 < bs" and ok: "list_all (\<lambda>d. emb d \<noteq> None) docs"
  shows "\<exists>r st. create_vector_store emb docs bs db0 = Inr (r, st)"
  using ok batch_ok_all_iff [of "nat bs" emb docs] bs
  by (simp add: create_vector_store_pos [OF bs] Let_def)

lemma create_vector_store_Inl:
  assumes bs: "0 < bs" and run: "create_vector_store emb docs bs db0 = Inl (e, st)"
  shows "\<exists>j<ceil_div (length docs) (nat bs). e = APIError \<and> \<not> batch_ok emb docs (nat bs) j \<and>
    db st = chroma_add db0 (embedded emb (take (j * nat bs) docs)) \<and>
    trace st = TotalDocs (length docs) # concat (map (\<lambda>k. batch_events docs (nat bs) k @
                 cooldown_events (length docs) (nat bs) k) [0..<j]) @ batch_events docs (nat bs) j"
proof -
  let ?b = "nat bs" and ?m = "ceil_div (length docs) (nat bs)"
  let ?st0 = "\<lparr>vectorstore = None, db = db0, trace = [TotalDocs (length docs)]\<rparr>
     :: ('a, 'b) ingest_state"
  from run have nok: "\<not> list_all (batch_ok emb docs ?b) [0..<?m]"
    and e: "e = APIError"
    and st: "st = (after_batches emb docs ?b (takeWhile (batch_ok emb docs ?b) [0..<?m]) ?st0)
       \<lparr>trace := trace (after_batches emb docs ?b (takeWhile (batch_ok emb docs ?b) [0..<?m]) ?st0) @
           batch_events docs ?b (hd (dropWhile (batch_ok emb docs ?b) [0..<?m]))\<rparr>"
    unfolding create_vector_store_pos [OF bs] Let_def by (simp_all split: if_splits)
  obtain j where j: "j < ?m" and tw: "takeWhile (batch_ok emb docs ?b) [0..<?m] = [0..<j]"
    and hd: "hd (dropWhile (batch_ok emb docs ?b) [0..<?m]) = j" and nj: "\<not> batch_ok emb docs ?b j"
    using takeWhile_upt [OF nok] by blast
  show ?thesis
    using j e nj st
    by (intro exI [of _ j]) (simp add: tw hd db_after_batches trace_after_batches concat_chunk_at_prefix)
qed

lemma blocks_sleep_before:
  assumes "0 < b" and "j < ceil_div (length docs) b"
  shows "\<forall>k\<in>set [0..<j]. k * b + b < length docs"
proof
  fix k assume "k \<in> set [0..<j]"
  then have "Suc k < ceil_div (length docs) b" using assms(2) by simp
  then show "k * b + b < length docs"
    using less_ceil_div_iff [OF assms(1), of "Suc k" "length docs"] by (simp add: add.commute)
qed

lemma filter_embed_blocks:
  "length (filter is_embed_call (concat (map (\<lambda>k. batch_events docs b k @ cooldown_events n b k) ks))) = length ks"
  by (induction ks) (simp_all add: batch_events_def cooldown_events_def)

lemma filter_sleep_blocks:
  "length (filter is_sleep (concat (map (\<lambda>k. batch_events docs b k @ cooldown_events n b k) ks))) =
     length (filter (\<lambda>k. k * b + b < n) ks)"
  by (induction ks) (simp_all add: batch_events_def cooldown_events_def)

lemma filter_upt_last: "filter (\<lambda>k. Suc k < m) [0..<m] = [0..<m - 1]"
  by (induction m) simp_all

lemma filter_le_upt: "length (filter P [0..<j]) \<le> j"
  using length_filter_le [of P "[0..<j]"] by simp

lemma sleeps_upto_last:
  "0 < b \<Longrightarrow> filter (\<lambda>k. k * b + b < n) [0..<ceil_div n b] = [0..<ceil_div n b - 1]"
proof -
  assume b: "0 < b"
  have "filter (\<lambda>k. k * b + b < n) [0..<ceil_div n b] = filter (\<lambda>k. Suc k < ceil_div n b) [0..<ceil_div n b]"
    using less_ceil_div_iff [OF b] by (simp add: add.commute)
  then show ?thesis by (simp add: filter_upt_last)
qed

lemma create_vector_store_trace_shape:
  "\<exists>j tl. trace (outcome_state (create_vector_store emb docs bs db0)) =
       TotalDocs (length docs) # concat (map (\<lambda>k. batch_events docs (nat bs) k @
         cooldown_events (length docs) (nat bs) k) [0..<j]) @ tl
     \<and> (\<forall>k\<in>set [0..<j]. k * nat bs + nat bs < length docs)
     \<and> j \<le> ceil_div (length docs) (nat bs)
     \<and> (tl = [] \<or> j < ceil_div (length docs) (nat bs) \<and> tl = batch_events docs (nat bs) j)"
proof -
  let ?tr = "trace (outcome_state (create_vector_store emb docs bs db0))"
  let ?pre = "\<lambda>j. TotalDocs (length docs) # concat (map (\<lambda>k. batch_events docs (nat bs) k @
         cooldown_events (length docs) (nat bs) k) [0..<j])"
  show ?thesis
  proof (cases "0 < bs")
  case False
  then have "?tr = ?pre 0 @ []"
    by (cases "bs = 0")
       (simp_all add: create_vector_store_def py_range_zero_step py_range_neg_step_empty outcome_state_def)
  then show ?thesis by (intro exI [of _ 0] exI [of _ "[]"]) simp
next
  case bs: True
  have b: "0 < nat bs" using bs by simp
  show ?thesis
  proof (cases "create_vector_store emb docs bs db0")
    case (Inl res)
    then obtain e st where run: "create_vector_store emb docs bs db0 = Inl (e, st)"
      by (cases res) auto
    then obtain j where j: "j < ceil_div (length docs) (nat bs)"
      and tr: "trace st = ?pre j @ batch_events docs (nat bs) j"
      using create_vector_store_Inl [OF bs run] by auto
    then show ?thesis using run blocks_sleep_before [OF b j]
      by (intro exI [of _ j] exI [of _ "batch_events docs (nat bs) j"]) (simp add: outcome_state_def)
  next
    case (Inr res)
    then obtain r st where run: "create_vector_store emb docs bs db0 = Inr (r, st)"
      by (cases res) auto
    let ?m = "ceil_div (length docs) (nat bs)"
    have tr: "trace st = ?pre ?m @ []"
      using create_vector_store_Inr [OF bs run] by simp
    show ?thesis
    proof (cases ?m)
      case 0
      then show ?thesis using run tr
        by (intro exI [of _ 0] exI [of _ "[]"]) (simp add: outcome_state_def)
    next
      case (Suc j)
      then have j: "j < ?m" by simp
      have "trace st = ?pre j @ batch_events docs (nat bs) j"
        using tr Suc by (simp add: cooldown_events_last [OF b])
      then show ?thesis using run j blocks_sleep_before [OF b j]
        by (intro exI [of _ j] exI [of _ "batch_events docs (nat bs) j"]) (simp add: outcome_state_def)
    qed
  qed
  qed
qed

lemmas ingest_eval = create_vector_store_def py_range_def py_range_len_def ingest_batch_def
  py_slice_def py_slice_bound_def embed_documents_def chroma_add_def upt_rec Let_def

lemma resume_point_batch_events: "resume_point (xs @ batch_events docs b j) = j * b"
  by (simp add: resume_point_def batch_events_def)

lemma request_sizes_TotalDocs [simp]: "request_sizes (TotalDocs n # es) = request_sizes es"
  by (simp add: request_sizes_def)

lemma create_vector_store_Inl_resume:
  assumes bs: "0 < batch_size" and run: "create_vector_store emb docs batch_size db0 = Inl (e, st)"
  shows "e = APIError \<and> resume_point (trace st) mod nat batch_size = 0 \<and> resume_point (trace st) < length docs \<and>
    db st = chroma_add db0 (embedded emb (take (resume_point (trace st)) docs)) \<and>
    \<not> list_all (\<lambda>d. emb d \<noteq> None) (take (nat batch_size) (drop (resume_point (trace st)) docs))"
proof -
  have b: "0 < nat batch_size" using bs by simp
  obtain j where j: "j < ceil_div (length docs) (nat batch_size)" and e: "e = APIError"
    and nok: "\<not> batch_ok emb docs (nat batch_size) j"
    and dbst: "db st = chroma_add db0 (embedded emb (take (j * nat batch_size) docs))"
    and tr: "trace st = TotalDocs (length docs) # concat (map (\<lambda>k. batch_events docs (nat batch_size) k @
                 cooldown_events (length docs) (nat batch_size) k) [0..<j]) @ batch_events docs (nat batch_size) j"
    using create_vector_store_Inl [OF bs run] by blast
  have rp: "resume_point (trace st) = j * nat batch_size"
    unfolding tr using resume_point_batch_events [of "TotalDocs (length docs) # _"] by simp
  have "j * nat batch_size < length docs" using less_ceil_div_iff [OF b] j by simp
  then show ?thesis
    using e nok dbst rp
    by (simp add: batch_ok_def chunk_at_def embed_documents_ok_iff del: not_None_eq)
qed

section \<open>Properties of the ingestion pipeline\<close>

text \<open>
  C1. With a positive batch size and an embedding service that accepts every
  document, \<open>create_vector_store\<close> returns, and the batched run is equivalent to
  one \<open>add_documents\<close> of all documents, in input order, to the persisted collection;
  it returns the store, or \<open>None\<close> when there were no documents.
\<close>

theorem create_vector_store_adds_all:
  assumes "0 < batch_size" and "list_all (\<lambda>d. emb d \<noteq> None) docs"
  shows "\<exists>st. create_vector_store emb docs batch_size db0 = Inr (if docs = [] then None else Some (db st), st)
           \<and> db st = chroma_add db0 (embedded emb docs)"
proof -
  obtain r st where run: "create_vector_store emb docs batch_size db0 = Inr (r, st)"
    using create_vector_store_returns [OF assms] by blast
  then show ?thesis using create_vector_store_Inr [OF assms(1) run] by auto
qed

theorem create_vector_store_adds_all_witness:
  "0 < (2::int) \<and> list_all (\<lambda>d. Some d \<noteq> None) [1, 2, 3 :: nat] \<and>
   (\<exists>st. create_vector_store Some [1, 2, 3 :: nat] 2 \<lparr>entries = [], next_id = 0\<rparr> = Inr (Some (db st), st)
      \<and> db st = chroma_add \<lparr>entries = [], next_id = 0\<rparr> (embedded Some [1, 2, 3]))"
  using create_vector_store_adds_all [of 2 Some "[1, 2, 3 :: nat]" "\<lparr>entries = [], next_id = 0\<rparr>"]
  by simp

text \<open>
  C2. A successful run with batch size \<open>B > 0\<close> over \<open>n\<close> documents issues exactly
  \<open>ceil(n / B)\<close> embedding requests and sleeps exactly \<open>ceil(n / B) - 1\<close> times.
\<close>

theorem create_vector_store_request_count:
  assumes "0 < batch_size" and "create_vector_store emb docs batch_size db0 = Inr (r, st)"
  shows "length (filter is_embed_call (trace st)) = ceil_div (length docs) (nat batch_size) \<and>
         length (filter is_sleep (trace st)) = ceil_div (length docs) (nat batch_size) - 1"
proof -
  have b: "0 < nat batch_size" using assms(1) by simp
  show ?thesis
    using create_vector_store_Inr [OF assms] sleeps_upto_last [OF b, of "length docs"]
    by (simp add: filter_embed_blocks filter_sleep_blocks)
qed

theorem create_vector_store_request_count_witness:
  "length (filter is_embed_call (trace (snd (projr (create_vector_store Some [1, 2, 3, 4, 5 :: nat] 2 \<lparr>entries = [], next_id = 0\<rparr>))))) = 3 \<and>
   length (filter is_sleep (trace (snd (projr (create_vector_store Some [1, 2, 3, 4, 5 :: nat] 2 \<lparr>entries = [], next_id = 0\<rparr>))))) = 2"
proof -
  obtain r st where run: "create_vector_store Some [1, 2, 3, 4, 5 :: nat] 2 \<lparr>entries = [], next_id = 0\<rparr> = Inr (r, st)"
    by (simp add: ingest_eval)
  show ?thesis
    using create_vector_store_request_count [OF _ run] run by (simp add: ceil_div_def)
qed

text \<open>
  C3. Rate limiting: in every run, whether it returns or raises, each embedding
  request after the first is preceded, since the previous request, by a sleep of at
  least 60 seconds.
\<close>

theorem create_vector_store_cooldown:
  "cooldown_ok 60 True (trace (outcome_state (create_vector_store emb docs batch_size db0)))"
proof -
  obtain j tl where tr: "trace (outcome_state (create_vector_store emb docs batch_size db0)) =
       TotalDocs (length docs) # concat (map (\<lambda>k. batch_events docs (nat batch_size) k @
         cooldown_events (length docs) (nat batch_size) k) [0..<j]) @ tl"
    and sl: "\<forall>k\<in>set [0..<j]. k * nat batch_size + nat batch_size < length docs"
    and tl: "tl = [] \<or> tl = batch_events docs (nat batch_size) j"
    using create_vector_store_trace_shape [of emb docs batch_size db0] by blast
  have "cooldown_ok 60 True tl" using tl by (auto simp: batch_events_def)
  then show ?thesis unfolding tr using cooldown_blocks [OF _ sl] by simp
qed

text \<open>
  C4. Every embedding request carries at least one and at most \<open>batch_size\<close>
  documents, in every run.
\<close>

theorem create_vector_store_request_sizes:
  "\<forall>n \<in> set (request_sizes (trace (outcome_state (create_vector_store emb docs batch_size db0)))).
     0 < n \<and> int n \<le> batch_size"
proof -
  let ?b = "nat batch_size" and ?n = "length docs"
  obtain j tl where tr: "trace (outcome_state (create_vector_store emb docs batch_size db0)) =
       TotalDocs ?n # concat (map (\<lambda>k. batch_events docs ?b k @ cooldown_events ?n ?b k) [0..<j]) @ tl"
    and jm: "j \<le> ceil_div ?n ?b"
    and tl: "tl = [] \<or> j < ceil_div ?n ?b \<and> tl = batch_events docs ?b j"
    using create_vector_store_trace_shape [of emb docs batch_size db0] by blast
  have chunk: "0 < length (chunk_at docs ?b k) \<and> int (length (chunk_at docs ?b k)) \<le> batch_size"
    if "0 < ?b" and "k < ceil_div ?n ?b" for k
    using length_chunk_at [OF that] that(1) by linarith
  have "\<forall>n\<in>set (request_sizes (concat (map (\<lambda>k. batch_events docs ?b k @ cooldown_events ?n ?b k) [0..<j]))).
      0 < n \<and> int n \<le> batch_size"
    using jm chunk by (cases "0 < ?b") (auto simp: request_sizes_blocks ceil_div_def)
  moreover have "\<forall>n\<in>set (request_sizes tl). 0 < n \<and> int n \<le> batch_size"
    using tl chunk by (cases "0 < ?b") (auto simp: ceil_div_def)
  ultimately show ?thesis unfolding tr by auto
qed

theorem create_vector_store_request_sizes_witness:
  "request_sizes (trace (outcome_state (create_vector_store Some [1, 2, 3 :: nat] 2 empty_db))) = [2, 1] \<and>
   (0 < (2::nat) \<and> int 2 \<le> (2::int)) \<and> (0 < (1::nat) \<and> int 1 \<le> (2::int))"
  using create_vector_store_request_sizes [of Some "[1, 2, 3 :: nat]" 2 empty_db]
  by (simp add: ingest_eval outcome_state_def request_sizes_def)

text \<open>
  C5. When an embedding request fails, the run raises \<open>APIError\<close>; the start of the
  failed batch is the position printed by the last progress line, it is a multiple of
  the batch size, everything before it is persisted in order, and the failed batch
  holds a document the service refused.
\<close>

theorem create_vector_store_failure:
  assumes "0 < batch_size" and "create_vector_store emb docs batch_size db0 = Inl (e, st)"
  shows "e = APIError \<and> resume_point (trace st) mod nat batch_size = 0 \<and> resume_point (trace st) < length docs \<and>
    docs_of (db st) = docs_of db0 @ take (resume_point (trace st)) docs \<and>
    \<not> list_all (\<lambda>d. emb d \<noteq> None) (take (nat batch_size) (drop (resume_point (trace st)) docs))"
  using create_vector_store_Inl_resume [OF assms] by (simp add: docs_of_chroma_add map_fst_embedded)

text \<open>
  C6. Resuming after a failure: running \<open>create_vector_store\<close> again on the documents
  from the printed position, on the persisted collection, with a service that now
  accepts them, leaves every document in the collection exactly once, in order.
\<close>

theorem create_vector_store_resume:
  assumes bs: "0 < batch_size" and run: "create_vector_store emb docs batch_size db0 = Inl (e, st)"
    and ok: "list_all (\<lambda>d. emb' d \<noteq> None) docs"
  shows "\<exists>st'. create_vector_store emb' (drop (resume_point (trace st)) docs) batch_size (db st) = Inr (Some (db st'), st')
           \<and> docs_of (db st') = docs_of db0 @ docs"
proof -
  let ?k = "resume_point (trace st)"
  have k: "?k < length docs" and dbst: "db st = chroma_add db0 (embedded emb (take ?k docs))"
    using create_vector_store_Inl_resume [OF bs run] by simp_all
  have ok': "list_all (\<lambda>d. emb' d \<noteq> None) (drop ?k docs)"
    using ok by (simp add: list_all_iff) (meson in_set_dropD)
  obtain r st' where run': "create_vector_store emb' (drop ?k docs) batch_size (db st) = Inr (r, st')"
    using create_vector_store_returns [OF bs ok'] by blast
  have "r = Some (db st')" and "db st' = chroma_add (db st) (embedded emb' (drop ?k docs))"
    using create_vector_store_Inr [OF bs run'] k by simp_all
  then show ?thesis
    using run' dbst by (simp add: docs_of_chroma_add map_fst_embedded)
qed

text \<open>
  C7. Re-running a successful ingestion on the same documents adds them a second time:
  the collection holds every document twice, because every \<open>add_documents\<close> call
  draws fresh ids.
\<close>

theorem create_vector_store_rerun_duplicates:
  assumes bs: "0 < batch_size"
    and run1: "create_vector_store emb docs batch_size db0 = Inr (r1, st1)"
    and run2: "create_vector_store emb docs batch_size (db st1) = Inr (r2, st2)"
  shows "docs_of (db st2) = docs_of db0 @ docs @ docs"
  using create_vector_store_Inr [OF bs run1] create_vector_store_Inr [OF bs run2]
  by (simp add: docs_of_chroma_add map_fst_embedded)

text \<open>
  C8. A batch size of \<open>0\<close> makes \<open>range\<close> raise \<open>ValueError\<close> before any request;
  the persisted collection is untouched.
\<close>

theorem create_vector_store_zero_batch:
  "create_vector_store emb docs 0 db0 =
     Inl (ValueError, \<lparr>vectorstore = None, db = db0, trace = [TotalDocs (length docs)]\<rparr>)"
  by (simp add: create_vector_store_def py_range_zero_step)

text \<open>
  C9. A negative batch size gives an empty \<open>range\<close>: the run returns \<open>None\<close> without
  an error, without a request and without touching the collection.
\<close>

theorem create_vector_store_negative_batch:
  "batch_size < 0 \<Longrightarrow> create_vector_store emb docs batch_size db0 =
     Inr (None, \<lparr>vectorstore = None, db = db0, trace = [TotalDocs (length docs)]\<rparr>)"
  by (simp add: create_vector_store_def py_range_neg_step_empty)

theorem create_vector_store_failure_witness:
  "\<exists>st. create_vector_store (\<lambda>d :: nat. if d = 3 then None else Some d) [1, 2, 3, 4] 2 empty_db = Inl (APIError, st)
     \<and> resume_point (trace st) = 2 \<and> docs_of (db st) = [1, 2]
     \<and> \<not> list_all (\<lambda>d. (if d = (3::nat) then None else Some d) \<noteq> None) (take 2 (drop 2 [1, 2, 3, 4]))"
proof -
  obtain st where run: "create_vector_store (\<lambda>d :: nat. if d = 3 then None else Some d) [1, 2, 3, 4] 2 empty_db
      = Inl (APIError, st)" and rp: "resume_point (trace st) = 2"
    by (simp add: ingest_eval resume_point_def)
  show ?thesis
    using create_vector_store_failure [OF _ run] run rp by (simp add: docs_of_def)
qed

theorem create_vector_store_resume_witness:
  "\<exists>st st'. create_vector_store (\<lambda>d :: nat. if d = 3 then None else Some d) [1, 2, 3, 4] 2 empty_db = Inl (APIError, st)
     \<and> create_vector_store Some (drop (resume_point (trace st)) [1, 2, 3, 4]) 2 (db st) = Inr (Some (db st'), st')
     \<and> docs_of (db st') = [1, 2, 3, 4]"
proof -
  obtain st where run: "create_vector_store (\<lambda>d :: nat. if d = 3 then None else Some d) [1, 2, 3, 4] 2 empty_db
      = Inl (APIError, st)"
    by (simp add: ingest_eval)
  show ?thesis
    using create_vector_store_resume [OF _ run, of Some] run by (simp add: docs_of_def)
qed

theorem create_vector_store_rerun_duplicates_witness:
  "\<exists>r1 st1 r2 st2. create_vector_store Some [7 :: nat] 1 empty_db = Inr (r1, st1)
     \<and> create_vector_store Some [7 :: nat] 1 (db st1) = Inr (r2, st2) \<and> docs_of (db st2) = [7, 7]"
proof -
  obtain r1 st1 where run1: "create_vector_store Some [7 :: nat] 1 empty_db = Inr (r1, st1)"
    by (simp add: ingest_eval)
  obtain r2 st2 where run2: "create_vector_store Some [7 :: nat] 1 (db st1) = Inr (r2, st2)"
    using run1 by (simp add: ingest_eval)
  show ?thesis
    using create_vector_store_rerun_duplicates [OF _ run1 run2] run1 run2 by (auto simp: docs_of_def)
qed

theorem create_vector_store_negative_batch_witness:
  "create_vector_store Some [1, 2 :: nat] (-150) empty_db =
     Inr (None, \<lparr>vectorstore = None, db = empty_db, trace = [TotalDocs 2]\<rparr>)"
  using create_vector_store_negative_batch [of "-150" Some "[1, 2 :: nat]" empty_db] by simp

text \<open>
  C10. Termination with a bound: whatever the embedding service does, a run with batch
  size \<open>B > 0\<close> ends after at most \<open>ceil(n / B)\<close> embedding requests and at most
  \<open>ceil(n / B) - 1\<close> sleeps of 61 seconds, whether it returns or raises.
\<close>

theorem create_vector_store_bounded:
  assumes bs: "0 < bs"
  shows "length (filter is_embed_call (trace (outcome_state (create_vector_store emb docs bs db0))))
           \<le> ceil_div (length docs) (nat bs) \<and>
         length (filter is_sleep (trace (outcome_state (create_vector_store emb docs bs db0))))
           \<le> ceil_div (length docs) (nat bs) - 1"
proof (cases "create_vector_store emb docs bs db0")
  case (Inl err)
  then obtain e st where run: "create_vector_store emb docs bs db0 = Inl (e, st)" by (cases err) auto
  then obtain j where j: "j < ceil_div (length docs) (nat bs)" and
    tr: "trace st = TotalDocs (length docs) # concat (map (\<lambda>k. batch_events docs (nat bs) k @
                 cooldown_events (length docs) (nat bs) k) [0..<j]) @ batch_events docs (nat bs) j"
    using create_vector_store_Inl [OF bs run] by blast
  have "length (filter (\<lambda>k. k * nat bs + nat bs < length docs) [0..<j]) \<le> j" by (rule filter_le_upt)
  moreover have "length (filter is_embed_call (batch_events docs (nat bs) j)) = 1"
    "length (filter is_sleep (batch_events docs (nat bs) j)) = 0" by (simp_all add: batch_events_def)
  ultimately show ?thesis using run tr j
    by (simp add: outcome_state_def filter_embed_blocks filter_sleep_blocks)
next
  case (Inr res)
  then obtain r st where run: "create_vector_store emb docs bs db0 = Inr (r, st)" by (cases res) auto
  have b: "0 < nat bs" using bs by simp
  show ?thesis using run create_vector_store_Inr [OF bs run] sleeps_upto_last [OF b, of "length docs"]
    by (simp add: outcome_state_def filter_embed_blocks filter_sleep_blocks)
qed

theorem create_vector_store_bounded_witness:
  "length (filter is_embed_call (trace (outcome_state (create_vector_store (\<lambda>n. if n = 3 then None else Some n)
      [1, 2, 3, 4, 5 :: nat] 2 \<lparr>entries = [], next_id = 0\<rparr>)))) \<le> 3 \<and>
   length (filter is_sleep (trace (outcome_state (create_vector_store (\<lambda>n. if n = 3 then None else Some n)
      [1, 2, 3, 4, 5 :: nat] 2 \<lparr>entries = [], next_id = 0\<rparr>)))) \<le> 2"
  using create_vector_store_bounded [of 2 "\<lambda>n. if n = 3 then None else Some n" "[1, 2, 3, 4, 5 :: nat]"
      "\<lparr>entries = [], next_id = 0\<rparr>"]
  by (simp add: ceil_div_def)

end
