(* ===== verification/Prompts.thy ===== *)
theory Prompts
  imports Prelude "HOL-Library.List_Lexorder" "HOL-Library.Char_ord"
begin

text \<open>
  Format strings and chat prompts of \<^verbatim>\<open>src/main.py\<close>. Python's format-string
  machinery is used twice there: \<open>contextualize_q_system_prompt.format(today=today)\<close>
  (line 61) is \<open>str.format\<close>, and LangChain's f-string prompt templates list a
  template's fields with \<open>string.Formatter().parse\<close> and fill them with
  \<open>StrictFormatter().format\<close>, a \<open>string.Formatter\<close>. Both run CPython 3.11's
  scanner (\<^verbatim>\<open>Objects/stringlib/unicode_format.h\<close>), modelled here on UTF-8 bytes:
  \<^item> literal text runs to the next brace; \<open>{{\<close> and \<open>}}\<close> stand for one brace, any
    other \<open>}\<close> and a final \<open>{\<close> raise \<open>ValueError\<close>;
  \<^item> a field \<open>{name!c:spec}\<close> (\<open>parse_field\<close>): the name runs to \<open>}\<close>, \<open>:\<close> or
    \<open>!\<close>, a \<open>[\<close> skipping to the next \<open>]\<close> and a \<open>{\<close> raising (\<open>name_scan\<close>);
    \<open>!\<close> takes one code point that \<open>}\<close> or \<open>:\<close> must follow; the spec runs to the
    matching \<open>}\<close>, nested braces counted (\<open>spec_scan\<close>).
  The scanner is lazy: \<open>scan_fmt\<close> gives the pieces before the first scan error and
  that error, and filling renders the pieces in order, so a field's error comes before a
  later scan error. Filling a field (\<open>field_value\<close>) looks up the part of its name before
  \<open>.\<close> or \<open>[\<close>: an empty or decimal part is a positional argument, of which the program
  passes none (\<open>IndexError\<close>), or \<open>ValueError\<close> past \<open>PY_SSIZE_T_MAX\<close>; any other
  part is a keyword (\<open>KeyError\<close> when absent). The two entry points differ on an empty
  name with a \<open>.\<close> or \<open>[\<close> part, and \<open>string.Formatter\<close> remembers an
  \<open>isdigit\<close> name, after which \<open>{}\<close> raises \<open>ValueError\<close> (\<open>formatter\<close>).
  Attribute and index access on the string value follow \<open>str\<close> (\<open>access_chain\<close>),
  then the conversion and the spec (\<open>convert_spec\<close>). The text of a method object
  (it shows a memory address), of \<open>!r\<close> and \<open>!a\<close>, and of a non-empty format spec is
  \<open>Unmodelled\<close>. The tables of decimal and digit characters are Unicode 14.0, as
  CPython 3.11 has them; LangChain versions that reject dotted or numeric template
  variables are not modelled.
\<close>

section \<open>Format strings\<close>

abbreviation lbrace :: char where "lbrace \<equiv> CHR ''{''"
abbreviation rbrace :: char where "rbrace \<equiv> CHR ''}''"

text \<open>\<open>str.isdecimal\<close> and \<open>str.isdigit\<close> of a code point; \<open>Py_UNICODE_TODECIMAL\<close>.\<close>

definition py_decimal_starts :: "nat list" where
  "py_decimal_starts =
     [48, 1632, 1776, 1984, 2406, 2534, 2662, 2790, 2918, 3046, 3174, 3302, 3430, 3558, 3664,
     3792, 3872, 4160, 4240, 6112, 6160, 6470, 6608, 6784, 6800, 6992, 7088, 7232, 7248,
     42528, 43216, 43264, 43472, 43504, 43600, 44016, 65296, 66720, 68912, 69734, 69872,
     69942, 70096, 70384, 70736, 70864, 71248, 71360, 71472, 71904, 72016, 72784, 73040,
     73120, 92768, 92864, 93008, 120782, 120792, 120802, 120812, 120822, 123200, 123632,
     125264, 130032]"

definition py_digit_ranges :: "(nat \<times> nat) list" where
  "py_digit_ranges =
     [(178, 179), (185, 185), (4969, 4977), (6618, 6618), (8304, 8304), (8308, 8313),
     (8320, 8329), (9312, 9320), (9332, 9340), (9352, 9360), (9450, 9450), (9461, 9469),
     (9471, 9471), (10102, 10110), (10112, 10120), (10122, 10130), (68160, 68163),
     (69216, 69224), (69714, 69722), (127232, 127242)]"

definition py_decimal :: "string \<Rightarrow> nat option" where
  "py_decimal g =
     (let cp = utf8_cp g
      in case find (\<lambda>s. s \<le> cp \<and> cp < s + 10) py_decimal_starts of None \<Rightarrow> None | Some s \<Rightarrow> Some (cp - s))"

definition py_isdigit :: "string \<Rightarrow> bool" where
  "py_isdigit g \<longleftrightarrow> py_decimal g \<noteq> None \<or> list_ex (\<lambda>(a, b). a \<le> utf8_cp g \<and> utf8_cp g \<le> b) py_digit_ranges"

definition str_isdigit :: "string \<Rightarrow> bool" where
  "str_isdigit s \<longleftrightarrow> s \<noteq> [] \<and> list_all py_isdigit (utf8_chars s)"

definition py_ssize_max :: nat where
  "py_ssize_max = 2 ^ 63 - 1"

text \<open>\<open>get_integer\<close>: the value of a name made of decimal digits, \<open>None\<close> for any other
  name (the empty one included), \<open>ValueError\<close> as soon as the value passes
  \<open>PY_SSIZE_T_MAX\<close>.\<close>

fun decimal_acc :: "nat \<Rightarrow> string list \<Rightarrow> py_error + nat option" where
  "decimal_acc a [] = Inr (Some a)"
| "decimal_acc a (g # gs) =
     (case py_decimal g of
        None \<Rightarrow> Inr None
      | Some d \<Rightarrow> if (py_ssize_max - d) div 10 < a then Inl ValueError else decimal_acc (a * 10 + d) gs)"

definition get_integer :: "string \<Rightarrow> py_error + nat option" where
  "get_integer s = (if s = [] then Inr None else decimal_acc 0 (utf8_chars s))"

text \<open>The field name: up to \<open>}\<close>, \<open>:\<close> or \<open>!\<close>, a \<open>[\<close> skipping to the next \<open>]\<close>.\<close>

function name_scan :: "string \<Rightarrow> string \<Rightarrow> py_error + string \<times> char \<times> string" where
  "name_scan acc [] = Inl ValueError"
| "name_scan acc (c # cs) =
     (if c = lbrace then Inl ValueError
      else if c = CHR ''['' then
        name_scan (rev (takeWhile (\<lambda>x. x \<noteq> CHR '']'') cs) @ c # acc) (dropWhile (\<lambda>x. x \<noteq> CHR '']'') cs)
      else if c = rbrace \<or> c = CHR '':'' \<or> c = CHR ''!'' then Inr (rev acc, c, cs)
      else name_scan (c # acc) cs)"
  by pat_completeness auto
termination
  by (relation "measure (\<lambda>(acc, s). length s)") (auto simp: le_imp_less_Suc length_dropWhile_le)

text \<open>The format spec: up to the \<open>}\<close> that closes the field, nested braces counted.\<close>

fun spec_scan :: "nat \<Rightarrow> string \<Rightarrow> string \<Rightarrow> py_error + string \<times> string" where
  "spec_scan n acc [] = Inl ValueError"
| "spec_scan n acc (c # cs) =
     (if c = lbrace then spec_scan (Suc n) (c # acc) cs
      else if c = rbrace then (if n = 0 then Inr (rev acc, cs) else spec_scan (n - 1) (c # acc) cs)
      else spec_scan n (c # acc) cs)"

definition utf8_len :: "char \<Rightarrow> nat" where
  "utf8_len c = (let n = of_char c :: nat in if n < 192 then 1 else if n < 224 then 2 else if n < 240 then 3 else 4)"

text \<open>A field: its name, its conversion (one code point) and its format spec.\<close>

type_synonym field = "string \<times> string option \<times> string"

definition parse_field :: "string \<Rightarrow> py_error + field \<times> string" where
  "parse_field cs =
     (case name_scan [] cs of
        Inl e \<Rightarrow> Inl e
      | Inr (name, t, r) \<Rightarrow>
          if t = rbrace then Inr ((name, None, []), r)
          else if t = CHR '':'' then
            (case spec_scan 0 [] r of Inl e \<Rightarrow> Inl e | Inr (sp, r') \<Rightarrow> Inr ((name, None, sp), r'))
          else
            (case r of
               [] \<Rightarrow> Inl ValueError
             | c # _ \<Rightarrow>
                 (case drop (utf8_len c) r of
                    [] \<Rightarrow> Inl ValueError
                  | c2 # r2 \<Rightarrow>
                      if c2 = rbrace then Inr ((name, Some (take (utf8_len c) r), []), r2)
                      else if c2 = CHR '':'' then
                        (case spec_scan 0 [] r2 of
                           Inl e \<Rightarrow> Inl e
                         | Inr (sp, r') \<Rightarrow> Inr ((name, Some (take (utf8_len c) r), sp), r'))
                      else Inl ValueError)))"

datatype piece = PLit char | PField field

definition cons_piece :: "piece \<Rightarrow> piece list \<times> py_error option \<Rightarrow> piece list \<times> py_error option" where
  "cons_piece p r = (p # fst r, snd r)"

text \<open>The markup iterator: the pieces up to the first scan error, and that error.\<close>

function scan_fmt :: "string \<Rightarrow> piece list \<times> py_error option" where
  "scan_fmt [] = ([], None)"
| "scan_fmt (c # cs) =
     (if c = lbrace \<and> cs \<noteq> [] \<and> hd cs = lbrace then cons_piece (PLit c) (scan_fmt (tl cs))
      else if c = lbrace then
        (case parse_field cs of Inl e \<Rightarrow> ([], Some e) | Inr (fld, r) \<Rightarrow> cons_piece (PField fld) (scan_fmt r))
      else if c = rbrace then
        (if cs \<noteq> [] \<and> hd cs = rbrace then cons_piece (PLit c) (scan_fmt (tl cs)) else ([], Some ValueError))
      else cons_piece (PLit c) (scan_fmt cs))"
  by pat_completeness auto
termination
proof -
  have ns: "length r < length s" if "name_scan acc s = Inr (n, t, r)" for acc s n t r
    using that
  proof (induction acc s rule: name_scan.induct)
    case (2 acc c cs)
    then show ?case
      using length_dropWhile_le [of "\<lambda>x. x \<noteq> CHR '']''" cs] by (auto split: if_splits)
  qed simp
  have ss: "length r < length s" if "spec_scan k acc s = Inr (sp, r)" for k acc s sp r
    using that by (induction k acc s rule: spec_scan.induct) (auto split: if_splits)
  have pf: "length r < length cs" if "parse_field cs = Inr (fld, r)" for cs fld r
  proof -
    have "\<exists>p. name_scan [] cs = Inr p"
      using that by (auto simp: parse_field_def split: sum.splits)
    then obtain n t r0 where n: "name_scan [] cs = Inr (n, t, r0)" by (metis prod_cases3)
    have dl: "length ys < length xs" if "drop k xs = y # ys" for k xs y ys
      using that by (metis diff_le_self impossible_Cons le_less_linear length_drop less_le_trans
          not_less_eq_eq length_Cons)
    have "length r < Suc (length r0)"
      using that n
      by (auto simp: parse_field_def split: if_splits list.splits sum.splits dest!: ss dl)
    then show ?thesis using ns [OF n] by simp
  qed
  show ?thesis by (relation "measure length") (auto dest: pf)
qed

fun field_names :: "piece list \<Rightarrow> string list" where
  "field_names [] = []"
| "field_names (PLit _ # ps) = field_names ps"
| "field_names (PField (n, _, _) # ps) = n # field_names ps"

text \<open>\<open>string.Formatter().parse\<close>, consumed whole: the field names, or the scan error.\<close>

definition parse_fmt :: "string \<Rightarrow> py_error + string list" where
  "parse_fmt s = (case scan_fmt s of (ps, None) \<Rightarrow> Inr (field_names ps) | (_, Some e) \<Rightarrow> Inl e)"

definition str_attributes :: "string list" where
  "str_attributes =
     [''__add__'', ''__class__'', ''__contains__'', ''__delattr__'', ''__dir__'',
     ''__doc__'', ''__eq__'', ''__format__'', ''__ge__'', ''__getattribute__'',
     ''__getitem__'', ''__getnewargs__'', ''__getstate__'', ''__gt__'', ''__hash__'',
     ''__init__'', ''__init_subclass__'', ''__iter__'', ''__le__'', ''__len__'', ''__lt__'',
     ''__mod__'', ''__mul__'', ''__ne__'', ''__new__'', ''__reduce__'', ''__reduce_ex__'',
     ''__repr__'', ''__rmod__'', ''__rmul__'', ''__setattr__'', ''__sizeof__'', ''__str__'',
     ''__subclasshook__'', ''capitalize'', ''casefold'', ''center'', ''count'', ''encode'',
     ''endswith'', ''expandtabs'', ''find'', ''format'', ''format_map'', ''index'',
     ''isalnum'', ''isalpha'', ''isascii'', ''isdecimal'', ''isdigit'', ''isidentifier'',
     ''islower'', ''isnumeric'', ''isprintable'', ''isspace'', ''istitle'', ''isupper'',
     ''join'', ''ljust'', ''lower'', ''lstrip'', ''maketrans'', ''partition'',
     ''removeprefix'', ''removesuffix'', ''replace'', ''rfind'', ''rindex'', ''rjust'',
     ''rpartition'', ''rsplit'', ''rstrip'', ''split'', ''splitlines'', ''startswith'',
     ''strip'', ''swapcase'', ''title'', ''translate'', ''upper'', ''zfill'']"

text \<open>\<open>.attr\<close> and \<open>[key]\<close> after the first part of a field name, applied to a string.\<close>

function access_chain :: "string \<Rightarrow> string \<Rightarrow> py_error + string" where
  "access_chain [] v = Inr v"
| "access_chain (c # cs) v =
     (if c = CHR ''.'' then
        (let a = takeWhile (\<lambda>x. x \<noteq> CHR ''.'' \<and> x \<noteq> CHR ''['') cs
         in if a = [] then Inl ValueError
            else if a \<in> set str_attributes then Inl Unmodelled else Inl AttributeError)
      else if c = CHR ''['' then
        (if CHR '']'' \<notin> set cs then Inl ValueError
         else
           (let k = takeWhile (\<lambda>x. x \<noteq> CHR '']'') cs
            in case get_integer k of
                 Inl e \<Rightarrow> Inl e
               | Inr None \<Rightarrow> if k = [] then Inl ValueError else Inl TypeError
               | Inr (Some i) \<Rightarrow>
                   if i < length (utf8_chars v)
                   then access_chain (tl (dropWhile (\<lambda>x. x \<noteq> CHR '']'') cs)) (utf8_chars v ! i)
                   else Inl IndexError))
      else Inl ValueError)"
  by pat_completeness auto
termination
  by (relation "measure (\<lambda>(s, v). length s)")
     (simp_all add: le_imp_less_Suc order_trans [OF diff_le_self length_dropWhile_le])

text \<open>The conversion and the format spec, applied to a string.\<close>

definition convert_spec :: "string option \<Rightarrow> string \<Rightarrow> string \<Rightarrow> py_error + string" where
  "convert_spec conv spec v =
     (if conv = None \<or> conv = Some ''s'' then (if spec = [] then Inr v else Inl Unmodelled)
      else if conv = Some ''r'' \<or> conv = Some ''a'' then Inl Unmodelled
      else Inl ValueError)"

text \<open>
  The entry point: \<open>str.format\<close>, or \<open>string.Formatter\<close>, whose flag records that an
  \<open>isdigit\<close> name was used (\<open>auto_arg_index = False\<close>).
\<close>

datatype formatter = StrFormat | StringFormatter

definition field_value ::
  "formatter \<Rightarrow> bool \<Rightarrow> (string \<rightharpoonup> string) \<Rightarrow> field \<Rightarrow> py_error + string \<times> bool" where
  "field_value f man kw fld =
     (case fld of
        (name, conv, spec) \<Rightarrow>
          (let first = takeWhile (\<lambda>x. x \<noteq> CHR ''.'' \<and> x \<noteq> CHR ''['') name;
               rest = dropWhile (\<lambda>x. x \<noteq> CHR ''.'' \<and> x \<noteq> CHR ''['') name
           in if f = StringFormatter \<and> name = [] then Inl (if man then ValueError else IndexError)
              else
                (case get_integer first of
                   Inl e \<Rightarrow> Inl e
                 | Inr (Some _) \<Rightarrow> Inl IndexError
                 | Inr None \<Rightarrow>
                     if f = StrFormat \<and> first = [] then Inl IndexError
                     else
                       (case kw first of
                          None \<Rightarrow> Inl KeyError
                        | Some v \<Rightarrow>
                            (case access_chain rest v of
                               Inl e \<Rightarrow> Inl e
                             | Inr v' \<Rightarrow>
                                 (case convert_spec conv spec v' of
                                    Inl e \<Rightarrow> Inl e
                                  | Inr out \<Rightarrow>
                                      Inr (out, if f = StringFormatter then man \<or> str_isdigit name else man)))))))"

definition emit :: "string \<Rightarrow> py_error + string \<Rightarrow> py_error + string" where
  "emit s r = (case r of Inl e \<Rightarrow> Inl e | Inr r' \<Rightarrow> Inr (s @ r'))"

fun render_pieces ::
  "formatter \<Rightarrow> bool \<Rightarrow> (string \<rightharpoonup> string) \<Rightarrow> piece list \<Rightarrow> py_error option \<Rightarrow> py_error + string" where
  "render_pieces f man kw [] err = (case err of None \<Rightarrow> Inr [] | Some e \<Rightarrow> Inl e)"
| "render_pieces f man kw (PLit c # ps) err = emit [c] (render_pieces f man kw ps err)"
| "render_pieces f man kw (PField fld # ps) err =
     (case field_value f man kw fld of
        Inl e \<Rightarrow> Inl e
      | Inr (v, man') \<Rightarrow> emit v (render_pieces f man' kw ps err))"

text \<open>\<open>str.format(**kw)\<close> and \<open>StrictFormatter().format(s, **kw)\<close>.\<close>

definition py_format :: "string \<Rightarrow> (string \<rightharpoonup> string) \<Rightarrow> py_error + string" where
  "py_format s kw = render_pieces StrFormat False kw (fst (scan_fmt s)) (snd (scan_fmt s))"

definition lc_format :: "string \<Rightarrow> (string \<rightharpoonup> string) \<Rightarrow> py_error + string" where
  "lc_format s kw = render_pieces StringFormatter False kw (fst (scan_fmt s)) (snd (scan_fmt s))"

definition brace_free :: "string \<Rightarrow> bool" where
  "brace_free s \<longleftrightarrow> lbrace \<notin> set s \<and> rbrace \<notin> set s"

text \<open>A field name that is a plain keyword: no brace, bracket, dot, colon or bang, and
  neither decimal nor \<open>isdigit\<close>.\<close>

definition plain_name :: "string \<Rightarrow> bool" where
  "plain_name n \<longleftrightarrow> n \<noteq> [] \<and> brace_free n \<and> list_all (\<lambda>c. c \<notin> set n) ''[].:!'' \<and>
     get_integer n = Inr None \<and> \<not> str_isdigit n"

section \<open>Chat messages and chat prompt templates\<close>

datatype msg = SystemMessage string | HumanMessage string | AIMessage string

text \<open>
  \<open>ChatPromptTemplate.from_messages([("system", t), MessagesPlaceholder(k), ("human", u)])\<close>:
  each part is a template or a placeholder for a list of messages. Formatting fills
  the templates from the string-valued inputs and splices the message lists in.
\<close>

datatype prompt_part = SystemTpl string | Placeholder string | HumanTpl string

type_synonym chat_prompt = "prompt_part list"

fun format_chat ::
  "chat_prompt \<Rightarrow> (string \<rightharpoonup> string) \<Rightarrow> (string \<rightharpoonup> msg list) \<Rightarrow> py_error + msg list" where
  "format_chat [] sv mv = Inr []"
| "format_chat (SystemTpl t # ps) sv mv =
     (case lc_format t sv of Inl e \<Rightarrow> Inl e
      | Inr s \<Rightarrow> (case format_chat ps sv mv of Inl e \<Rightarrow> Inl e | Inr ms \<Rightarrow> Inr (SystemMessage s # ms)))"
| "format_chat (HumanTpl t # ps) sv mv =
     (case lc_format t sv of Inl e \<Rightarrow> Inl e
      | Inr s \<Rightarrow> (case format_chat ps sv mv of Inl e \<Rightarrow> Inl e | Inr ms \<Rightarrow> Inr (HumanMessage s # ms)))"
| "format_chat (Placeholder k # ps) sv mv =
     (case mv k of None \<Rightarrow> Inl KeyError
      | Some hs \<Rightarrow> (case format_chat ps sv mv of Inl e \<Rightarrow> Inl e | Inr ms \<Rightarrow> Inr (hs @ ms)))"

text \<open>
  The \<open>input_variables\<close> a chat prompt template computes when it is built: the
  variables of each part (the fields of a template, the key of a placeholder), collected
  in a set and returned sorted, as \<open>ChatPromptTemplate.from_messages\<close> does. A template
  that does not parse makes the constructor raise.
\<close>

fun prompt_part_vars :: "chat_prompt \<Rightarrow> py_error + string list" where
  "prompt_part_vars [] = Inr []"
| "prompt_part_vars (SystemTpl t # ps) =
     (case parse_fmt t of Inl e \<Rightarrow> Inl e
      | Inr ns \<Rightarrow> (case prompt_part_vars ps of Inl e \<Rightarrow> Inl e | Inr vs \<Rightarrow> Inr (ns @ vs)))"
| "prompt_part_vars (HumanTpl t # ps) =
     (case parse_fmt t of Inl e \<Rightarrow> Inl e
      | Inr ns \<Rightarrow> (case prompt_part_vars ps of Inl e \<Rightarrow> Inl e | Inr vs \<Rightarrow> Inr (ns @ vs)))"
| "prompt_part_vars (Placeholder k # ps) =
     (case prompt_part_vars ps of Inl e \<Rightarrow> Inl e | Inr vs \<Rightarrow> Inr (k # vs))"

definition prompt_input_vars :: "chat_prompt \<Rightarrow> py_error + string list" where
  "prompt_input_vars p = (case prompt_part_vars p of Inl e \<Rightarrow> Inl e | Inr vs \<Rightarrow> Inr (sort (remdups vs)))"

section \<open>The prompts of initialize_components\<close>

text \<open>
  The two system prompts of \<open>initialize_components\<close> (lines 36--61 and 72--135), as
  the triple-quoted source writes them: the leading line break, the four spaces of
  indentation, the text of every line. Korean text is written as its UTF-8 bytes (ASCII
  punctuation other than a few marks as well), which compare as the Python strings do;
  the \<open>\n\<close> escapes of the second prompt are line breaks, as Python reads them.
  The replacement fields are \<open>{today}\<close> twice in the first prompt and
  \<open>{context}\<close> once, at the end, in the second.
\<close>

definition contextualize_q_system_prompt_lines :: "string list" where
  "contextualize_q_system_prompt_lines =
    ['''',
     ''    #'' @ [CHR 0xEC, CHR 0x97, CHR 0xAD, CHR 0xED, CHR 0x95, CHR 0xA0] @ '':'',
     ''    '' @ [CHR 0xEC, CHR 0xB1, CHR 0x84, CHR 0xED, CHR 0x8C, CHR 0x85] @ '' '' @ [CHR 0xEA, CHR 0xB8, CHR 0xB0, CHR 0xEB, CHR 0xA1, CHR 0x9D, CHR 0xEA, CHR 0xB3, CHR 0xBC] @ '' '' @ [CHR 0xEC, CHR 0xA7, CHR 0x88, CHR 0xEB, CHR 0xAC, CHR 0xB8, CHR 0xEC, CHR 0x9D, CHR 0x84] @ '' '' @ [CHR 0xED, CHR 0x86, CHR 0xA0, CHR 0xEB, CHR 0x8C, CHR 0x80, CHR 0xEB, CHR 0xA1, CHR 0x9C] @ '' '' @ [CHR 0xEB, CHR 0x8C, CHR 0x80, CHR 0xED, CHR 0x99, CHR 0x94] @ '' '' @ [CHR 0xEB, CHR 0x82, CHR 0xB4, CHR 0xEC, CHR 0x97, CHR 0xAD] @ '' '' @ [CHR 0xEC, CHR 0x97, CHR 0x86, CHR 0xEC, CHR 0x9D, CHR 0xB4, CHR 0xEB, CHR 0x8F, CHR 0x84] @ '' '' @ [CHR 0xEC, CHR 0x9D, CHR 0xB4, CHR 0xED, CHR 0x95, CHR 0xB4, CHR 0xED, CHR 0x95, CHR 0xA0] @ '' '' @ [CHR 0xEC, CHR 0x88, CHR 0x98] @ '' '' @ [CHR 0xEC, CHR 0x9E, CHR 0x88, CHR 0xEB, CHR 0x8A, CHR 0x94] @ '' '' @ [CHR 0xEB, CHR 0x8F, CHR 0x85, CHR 0xEB, CHR 0xA6, CHR 0xBD, CHR 0xEC, CHR 0xA0, CHR 0x81, CHR 0xEC, CHR 0x9D, CHR 0xB8] @ '' '' @ [CHR 0xEC, CHR 0xA7, CHR 0x88, CHR 0xEB, CHR 0xAC, CHR 0xB8, CHR 0xEC, CHR 0x9D, CHR 0x84] @ '' '' @ [CHR 0xEC, CHR 0x83, CHR 0x9D, CHR 0xEC, CHR 0x84, CHR 0xB1, CHR 0xED, CHR 0x95, CHR 0x98, CHR 0xEB, CHR 0x8A, CHR 0x94] @ '' '' @ [CHR 0xEB, CHR 0xB4, CHR 0x87],
     ''    '',
     ''    #'' @ [CHR 0xEC, CHR 0xA7, CHR 0x80, CHR 0xEC, CHR 0x8B, CHR 0x9C, CHR 0xEC, CHR 0x82, CHR 0xAC, CHR 0xED, CHR 0x95, CHR 0xAD] @ '':'',
     ''    '' @ [CHR 0xEB, CHR 0x8C, CHR 0x80, CHR 0xED, CHR 0x99, CHR 0x94] @ '' '' @ [CHR 0xEB, CHR 0x82, CHR 0xB4, CHR 0xEC, CHR 0x97, CHR 0xAD, CHR 0xEA, CHR 0xB3, CHR 0xBC] @ '' '' @ [CHR 0xEC, CHR 0xB5, CHR 0x9C, CHR 0xEC, CHR 0x8B, CHR 0xA0] @ '' '' @ [CHR 0xEC, CHR 0x82, CHR 0xAC, CHR 0xEC, CHR 0x9A, CHR 0xA9, CHR 0xEC, CHR 0x9E, CHR 0x90] @ '' '' @ [CHR 0xEC, CHR 0xA7, CHR 0x88, CHR 0xEB, CHR 0xAC, CHR 0xB8, CHR 0xEC, CHR 0x9D, CHR 0x84] @ '' '' @ [CHR 0xEC, CHR 0xB0, CHR 0xB8, CHR 0xEA, CHR 0xB3, CHR 0xA0, CHR 0xED, CHR 0x95, CHR 0x98, CHR 0xEC, CHR 0x97, CHR 0xAC] @ '' '' @ [CHR 0xEC, CHR 0xA7, CHR 0x88, CHR 0xEB, CHR 0xAC, CHR 0xB8] @ '' '' @ [CHR 0xEC, CHR 0x9E, CHR 0x91, CHR 0xEC, CHR 0x84, CHR 0xB1],
     ''    '' @ [CHR 0xEC, CHR 0xA7, CHR 0x88, CHR 0xEB, CHR 0xAC, CHR 0xB8, CHR 0xEC, CHR 0x97, CHR 0x90] @ '' '' @ [CHR 0xEB, CHR 0x8B, CHR 0xB5, CHR 0xEB, CHR 0xB3, CHR 0x80, CHR 0xED, CHR 0x95, CHR 0x98, CHR 0xEC, CHR 0xA7, CHR 0x80] @ '' '' @ [CHR 0xEB, CHR 0xA7, CHR 0x90, CHR 0xEA, CHR 0xB3, CHR 0xA0] @ '', '' @ [CHR 0xED, CHR 0x95, CHR 0x84, CHR 0xEC, CHR 0x9A, CHR 0x94, CHR 0xED, CHR 0x95, CHR 0x98, CHR 0xEB, CHR 0xA9, CHR 0xB4] @ '' '' @ [CHR 0xEC, CHR 0xA7, CHR 0x88, CHR 0xEB, CHR 0xAC, CHR 0xB8, CHR 0xEC, CHR 0x9D, CHR 0x84] @ '' '' @ [CHR 0xEC, CHR 0x9E, CHR 0xAC, CHR 0xEA, CHR 0xB5, CHR 0xAC, CHR 0xEC, CHR 0x84, CHR 0xB1, CHR 0xED, CHR 0x95, CHR 0x9C] @ '' '' @ [CHR 0xED, CHR 0x9B, CHR 0x84] @ '' '' @ [CHR 0xEA, CHR 0xB7, CHR 0xB8, CHR 0xEB, CHR 0x8C, CHR 0x80, CHR 0xEB, CHR 0xA1, CHR 0x9C] @ '' '' @ [CHR 0xEB, CHR 0xB0, CHR 0x98, CHR 0xED, CHR 0x99, CHR 0x98],
     ''    '' @ [CHR 0x27, CHR 0xEC, CHR 0x98, CHR 0xA4, CHR 0xEB, CHR 0x8A, CHR 0x98, CHR 0x27] @ '', '' @ [CHR 0x27, CHR 0xEC, CHR 0x9D, CHR 0xB4, CHR 0xEB, CHR 0xB2, CHR 0x88] @ '' '' @ [CHR 0xEB, CHR 0x8B, CHR 0xAC, CHR 0x27] @ '', '' @ [CHR 0x27, CHR 0xEC, CHR 0xA7, CHR 0x80, CHR 0xEA, CHR 0xB8, CHR 0x88, CHR 0x27] @ '', '' @ [CHR 0x27, CHR 0xEC, CHR 0x9D, CHR 0xB4, CHR 0xEB, CHR 0xB2, CHR 0x88, CHR 0xEC, CHR 0xA3, CHR 0xBC, CHR 0x27, CHR 0xEA, CHR 0xB3, CHR 0xBC] @ '' '' @ [CHR 0xEA, CHR 0xB0, CHR 0x99, CHR 0xEC, CHR 0x9D, CHR 0x80] @ '' '' @ [CHR 0xEC, CHR 0x83, CHR 0x81, CHR 0xEB, CHR 0x8C, CHR 0x80, CHR 0xEC, CHR 0xA0, CHR 0x81, CHR 0xEC, CHR 0x9D, CHR 0xB8] @ '' '' @ [CHR 0xEB, CHR 0x82, CHR 0xA0, CHR 0xEC, CHR 0xA7, CHR 0x9C, CHR 0xEA, CHR 0xB0, CHR 0x80] @ '' '' @ [CHR 0xEC, CHR 0x9E, CHR 0x88, CHR 0xEB, CHR 0x8B, CHR 0xA4, CHR 0xEB, CHR 0xA9, CHR 0xB4] @ '', '' @ [CHR 0x27, CHR 0xEC, CHR 0x98, CHR 0xA4, CHR 0xEB, CHR 0x8A, CHR 0x98, CHR 0x27, CHR 0xEC, CHR 0x9D, CHR 0x84] @ '' '' @ [CHR 0xEA, CHR 0xB8, CHR 0xB0, CHR 0xEC, CHR 0xA4, CHR 0x80, CHR 0xEC, CHR 0x9C, CHR 0xBC, CHR 0xEB, CHR 0xA1, CHR 0x9C] @ '' '' @ [CHR 0xEB, CHR 0xB3, CHR 0x80, CHR 0xEA, CHR 0xB2, CHR 0xBD],
     ''    '' @ [CHR 0xEC, CHR 0xA7, CHR 0x88, CHR 0xEB, CHR 0xAC, CHR 0xB8, CHR 0xEC, CHR 0x97, CHR 0x90] @ '' '' @ [CHR 0xEB, CHR 0x82, CHR 0xA0, CHR 0xEC, CHR 0xA7, CHR 0x9C, CHR 0xEA, CHR 0xB0, CHR 0x80] @ '' '' @ [CHR 0xEC, CHR 0x96, CHR 0xB8, CHR 0xEA, CHR 0xB8, CHR 0x89, CHR 0xEB, CHR 0x90, CHR 0x98, CHR 0xEC, CHR 0xA7, CHR 0x80] @ '' '' @ [CHR 0xEC, CHR 0x95, CHR 0x8A, CHR 0xEC, CHR 0x95, CHR 0x98, CHR 0xEB, CHR 0x8B, CHR 0xA4, CHR 0xEB, CHR 0xA9, CHR 0xB4] @ '', '' @ [CHR 0x27, CHR 0xEC, CHR 0x98, CHR 0xA4, CHR 0xEB, CHR 0x8A, CHR 0x98, CHR 0x27, CHR 0xEC, CHR 0x9D, CHR 0x84] @ '' '' @ [CHR 0xEA, CHR 0xB8, CHR 0xB0, CHR 0xEC, CHR 0xA4, CHR 0x80, CHR 0xEC, CHR 0x9C, CHR 0xBC, CHR 0xEB, CHR 0xA1, CHR 0x9C] @ '' '' @ [CHR 0xEC, CHR 0xB5, CHR 0x9C, CHR 0xEB, CHR 0x8C, CHR 0x80] @ '' 2'' @ [CHR 0xEB, CHR 0x8B, CHR 0xAC] @ '' '' @ [CHR 0xEC, CHR 0xA0, CHR 0x84, CHR 0xEA, CHR 0xB9, CHR 0x8C, CHR 0xEC, CHR 0xA7, CHR 0x80, CHR 0xEB, CHR 0xA5, CHR 0xBC] @ '' '' @ [CHR 0xEB, CHR 0xAC, CHR 0xB8, CHR 0xEC, CHR 0x9D, CHR 0x98, CHR 0xED, CHR 0x95, CHR 0x98, CHR 0xEC, CHR 0x84, CHR 0xB8, CHR 0xEC, CHR 0x9A, CHR 0x94] @ ''.'',
     ''    '',
     ''    #'' @ [CHR 0xEC, CHR 0x98, CHR 0xA4, CHR 0xEB, CHR 0x8A, CHR 0x98] @ '': {today}'',
     ''    '',
     ''    #'' @ [CHR 0xEC, CHR 0x98, CHR 0x88, CHR 0xEC, CHR 0x8B, CHR 0x9C] @ ''1'',
     ''    '' @ [CHR 0xEC, CHR 0xB1, CHR 0x84, CHR 0xED, CHR 0x8C, CHR 0x85, CHR 0xEA, CHR 0xB8, CHR 0xB0, CHR 0xEB, CHR 0xA1, CHR 0x9D] @ '':'',
     ''    - '' @ [CHR 0xEC, CHR 0x82, CHR 0xAC, CHR 0xEC, CHR 0x9A, CHR 0xA9, CHR 0xEC, CHR 0x9E, CHR 0x90] @ '': '' @ [CHR 0x22] @ ''2024'' @ [CHR 0xEB, CHR 0x85, CHR 0x84] @ '' 10'' @ [CHR 0xEC, CHR 0x9B, CHR 0x94] @ '' '' @ [CHR 0xED, CHR 0x8F, CHR 0x89, CHR 0xEC, CHR 0xB0, CHR 0xBD] @ '' '' @ [CHR 0xEC, CHR 0x97, CHR 0xAC, CHR 0xED, CHR 0x96, CHR 0x89, CHR 0xEC, CHR 0xA7, CHR 0x80, CHR 0xEC, CHR 0x9B, CHR 0x90, CHR 0xEA, CHR 0xB8, CHR 0x88, CHR 0xEC, CHR 0x97, CHR 0x90] @ '' '' @ [CHR 0xEB, CHR 0x8C, CHR 0x80, CHR 0xED, CHR 0x95, CHR 0xB4] @ '' '' @ [CHR 0xEC, CHR 0x95, CHR 0x8C, CHR 0xEB, CHR 0xA0, CHR 0xA4, CHR 0xEC, CHR 0xA4, CHR 0x98, CHR 0x22],
     ''    - '' @ [CHR 0xEC, CHR 0x96, CHR 0xB4, CHR 0xEC, CHR 0x8B, CHR 0x9C, CHR 0xEC, CHR 0x8A, CHR 0xA4, CHR 0xED, CHR 0x84, CHR 0xB4, CHR 0xED, CHR 0x8A, CHR 0xB8] @ '': '' @ [CHR 0x22] @ ''A, B, C '' @ [CHR 0xED, CHR 0x94, CHR 0x84, CHR 0xEB, CHR 0xA1, CHR 0x9C, CHR 0xEA, CHR 0xB7, CHR 0xB8, CHR 0xEB, CHR 0x9E, CHR 0xA8, CHR 0xEC, CHR 0x9D, CHR 0xB4] @ '' '' @ [CHR 0xEC, CHR 0x9E, CHR 0x88, CHR 0xEC, CHR 0x8A, CHR 0xB5, CHR 0xEB, CHR 0x8B, CHR 0x88, CHR 0xEB, CHR 0x8B, CHR 0xA4] @ ''.'' @ [CHR 0x22],
     ''    - '' @ [CHR 0xEC, CHR 0x82, CHR 0xAC, CHR 0xEC, CHR 0x9A, CHR 0xA9, CHR 0xEC, CHR 0x9E, CHR 0x90] @ '' : '' @ [CHR 0x22, CHR 0xEA, CHR 0xB7, CHR 0xB8] @ '' '' @ [CHR 0xEC, CHR 0xA4, CHR 0x91, CHR 0xEC, CHR 0x97, CHR 0x90, CHR 0xEC, CHR 0x84, CHR 0x9C] @ '' '' @ [CHR 0xEC, CHR 0x95, CHR 0x84, CHR 0xEC, CHR 0x9D, CHR 0xB4, CHR 0xEC, CHR 0x99, CHR 0x80] @ '' '' @ [CHR 0xED, CHR 0x95, CHR 0xA8, CHR 0xEA, CHR 0xBB, CHR 0x98] @ '' '' @ [CHR 0xED, CHR 0x95, CHR 0xA0] @ '' '' @ [CHR 0xEC, CHR 0x88, CHR 0x98] @ '' '' @ [CHR 0xEC, CHR 0x9E, CHR 0x88, CHR 0xEB, CHR 0x8A, CHR 0x94] @ '' '' @ [CHR 0xED, CHR 0x94, CHR 0x84, CHR 0xEB, CHR 0xA1, CHR 0x9C, CHR 0xEA, CHR 0xB7, CHR 0xB8, CHR 0xEB, CHR 0x9E, CHR 0xA8, CHR 0xEC, CHR 0x9D, CHR 0xB4] @ '' '' @ [CHR 0xEB, CHR 0xAD, CHR 0x90, CHR 0xEC, CHR 0x95, CHR 0xBC] @ ''?'' @ [CHR 0x22],
     ''    '',
     ''    '' @ [CHR 0xEB, CHR 0x8B, CHR 0xB5, CHR 0xEB, CHR 0xB3, CHR 0x80] @ '': '' @ [CHR 0x22] @ ''A, B, C '' @ [CHR 0xED, CHR 0x94, CHR 0x84, CHR 0xEB, CHR 0xA1, CHR 0x9C, CHR 0xEA, CHR 0xB7, CHR 0xB8, CHR 0xEB, CHR 0x9E, CHR 0xA8] @ '' '' @ [CHR 0xEC, CHR 0xA4, CHR 0x91, CHR 0xEC, CHR 0x97, CHR 0x90, CHR 0xEC, CHR 0x84, CHR 0x9C] @ '' '' @ [CHR 0xEC, CHR 0x95, CHR 0x84, CHR 0xEC, CHR 0x9D, CHR 0xB4, CHR 0xEC, CHR 0x99, CHR 0x80] @ '' '' @ [CHR 0xED, CHR 0x95, CHR 0xA8, CHR 0xEA, CHR 0xBB, CHR 0x98] @ '' '' @ [CHR 0xED, CHR 0x95, CHR 0xA0] @ '' '' @ [CHR 0xEC, CHR 0x88, CHR 0x98] @ '' '' @ [CHR 0xEC, CHR 0x9E, CHR 0x88, CHR 0xEB, CHR 0x8A, CHR 0x94] @ '' '' @ [CHR 0xED, CHR 0x94, CHR 0x84, CHR 0xEB, CHR 0xA1, CHR 0x9C, CHR 0xEA, CHR 0xB7, CHR 0xB8, CHR 0xEB, CHR 0x9E, CHR 0xA8, CHR 0xEC, CHR 0x9D, CHR 0x80] @ '' '' @ [CHR 0xEB, CHR 0xAC, CHR 0xB4, CHR 0xEC, CHR 0x97, CHR 0x87, CHR 0xEC, CHR 0x9D, CHR 0xB8, CHR 0xEA, CHR 0xB0, CHR 0x80, CHR 0xEC, CHR 0x9A, CHR 0x94] @ ''?'' @ [CHR 0x22],
     ''    '',
     ''    #'' @ [CHR 0xEC, CHR 0x98, CHR 0x88, CHR 0xEC, CHR 0x8B, CHR 0x9C] @ ''2'',
     ''    '' @ [CHR 0xEC, CHR 0xB1, CHR 0x84, CHR 0xED, CHR 0x8C, CHR 0x85, CHR 0xEA, CHR 0xB8, CHR 0xB0, CHR 0xEB, CHR 0xA1, CHR 0x9D] @ '':'',
     ''    - '' @ [CHR 0xEC, CHR 0x82, CHR 0xAC, CHR 0xEC, CHR 0x9A, CHR 0xA9, CHR 0xEC, CHR 0x9E, CHR 0x90] @ '': '' @ [CHR 0x22, CHR 0xEC, CHR 0xA0, CHR 0x84, CHR 0xEB, CHR 0x9D, CHR 0xBC, CHR 0xEB, CHR 0x8F, CHR 0x84] @ '' '' @ [CHR 0xEC, CHR 0x97, CHR 0xAC, CHR 0xED, CHR 0x96, CHR 0x89, CHR 0xEC, CHR 0xA7, CHR 0x80, CHR 0xEC, CHR 0x9B, CHR 0x90, CHR 0xEA, CHR 0xB8, CHR 0x88, CHR 0xEC, CHR 0x97, CHR 0x90] @ '' '' @ [CHR 0xEB, CHR 0x8C, CHR 0x80, CHR 0xED, CHR 0x95, CHR 0xB4] @ '' '' @ [CHR 0xEC, CHR 0x95, CHR 0x8C, CHR 0xEB, CHR 0xA0, CHR 0xA4, CHR 0xEC, CHR 0xA4, CHR 0x98, CHR 0x22],
     ''    '',
     ''    '' @ [CHR 0xEB, CHR 0x8B, CHR 0xB5, CHR 0xEB, CHR 0xB3, CHR 0x80] @ '': '' @ [CHR 0x22] @ ''{today} '' @ [CHR 0xEC, CHR 0x97, CHR 0x90] @ '' '' @ [CHR 0xEA, CHR 0xB0, CHR 0x88] @ '' '' @ [CHR 0xEC, CHR 0x88, CHR 0x98] @ '' '' @ [CHR 0xEC, CHR 0x9E, CHR 0x88, CHR 0xEB, CHR 0x8A, CHR 0x94] @ '' '' @ [CHR 0xEC, CHR 0xA0, CHR 0x84, CHR 0xEB, CHR 0x9D, CHR 0xBC, CHR 0xEB, CHR 0x8F, CHR 0x84] @ '' '' @ [CHR 0xEC, CHR 0x97, CHR 0xAC, CHR 0xED, CHR 0x96, CHR 0x89, CHR 0xEC, CHR 0xA7, CHR 0x80, CHR 0xEC, CHR 0x9B, CHR 0x90, CHR 0xEA, CHR 0xB8, CHR 0x88, CHR 0xEC, CHR 0x97, CHR 0x90] @ '' '' @ [CHR 0xEB, CHR 0x8C, CHR 0x80, CHR 0xED, CHR 0x95, CHR 0xB4] @ '' '' @ [CHR 0xEC, CHR 0x95, CHR 0x8C, CHR 0xEB, CHR 0xA0, CHR 0xA4, CHR 0xEC, CHR 0xA3, CHR 0xBC, CHR 0xEC, CHR 0x84, CHR 0xB8, CHR 0xEC, CHR 0x9A, CHR 0x94] @ ''.'' @ [CHR 0x22] @ ''    '',
     ''    '']"

definition contextualize_q_system_prompt :: string where
  "contextualize_q_system_prompt = py_join nl contextualize_q_system_prompt_lines"

definition qa_system_prompt_lines :: "string list" where
  "qa_system_prompt_lines =
    ['''',
     ''    #'' @ [CHR 0xEC, CHR 0x97, CHR 0xAD, CHR 0xED, CHR 0x95, CHR 0xA0] @ '':'',
     ''    '' @ [CHR 0xEC, CHR 0xA7, CHR 0x88, CHR 0xEB, CHR 0xAC, CHR 0xB8, CHR 0xEC, CHR 0x97, CHR 0x90] @ '' '' @ [CHR 0xEB, CHR 0x8C, CHR 0x80, CHR 0xED, CHR 0x95, CHR 0xB4] @ '' '' @ [CHR 0xEC, CHR 0x97, CHR 0xAC, CHR 0xED, CHR 0x96, CHR 0x89, CHR 0xEC, CHR 0xA7, CHR 0x80, CHR 0xEC, CHR 0x9B, CHR 0x90, CHR 0xEA, CHR 0xB8, CHR 0x88] @ '' '' @ [CHR 0xED, CHR 0x94, CHR 0x84, CHR 0xEB, CHR 0xA1, CHR 0x9C, CHR 0xEA, CHR 0xB7, CHR 0xB8, CHR 0xEB, CHR 0x9E, CHR 0xA8, CHR 0xEC, CHR 0x9D, CHR 0x84] @ '' '' @ [CHR 0xEC, CHR 0xB0, CHR 0xBE, CHR 0xEC, CHR 0x95, CHR 0x84, CHR 0xEC, CHR 0xA3, CHR 0xBC, CHR 0xEB, CHR 0x8A, CHR 0x94] @ '' '' @ [CHR 0xEB, CHR 0xB4, CHR 0x87],
     ''    '',
     ''    #'' @ [CHR 0xEC, CHR 0xA7, CHR 0x80, CHR 0xEC, CHR 0x8B, CHR 0x9C, CHR 0xEC, CHR 0x82, CHR 0xAC, CHR 0xED, CHR 0x95, CHR 0xAD] @ '':'',
     ''    - '' @ [CHR 0xEB, CHR 0x8B, CHR 0xB5, CHR 0xEB, CHR 0xB3, CHR 0x80, CHR 0xEC, CHR 0x9D, CHR 0x80] @ '' '' @ [CHR 0xEC, CHR 0x95, CHR 0x84, CHR 0xEB, CHR 0x9E, CHR 0x98, CHR 0xEC, CHR 0x9D, CHR 0x98] @ '' '' @ [CHR 0x27, CHR 0xEB, CHR 0x8B, CHR 0xB5, CHR 0xEB, CHR 0xB3, CHR 0x80] @ '' '' @ [CHR 0xED, CHR 0x98, CHR 0x95, CHR 0xEC, CHR 0x8B, CHR 0x9D, CHR 0x27, CHR 0xEC, CHR 0x97, CHR 0x90] @ '' '' @ [CHR 0xEB, CHR 0xA7, CHR 0x9E, CHR 0xEC, CHR 0xB6, CHR 0x94, CHR 0xEC, CHR 0x96, CHR 0xB4] @ '' '' @ [CHR 0xEC, CHR 0x9E, CHR 0x91, CHR 0xEC, CHR 0x84, CHR 0xB1, CHR 0xED, CHR 0x95, CHR 0x98, CHR 0xEC, CHR 0x8B, CHR 0xAD, CHR 0xEC, CHR 0x8B, CHR 0x9C, CHR 0xEC, CHR 0x98, CHR 0xA4] @ ''. '' @ [CHR 0xEB, CHR 0x8B, CHR 0xA8] @ '', '' @ [CHR 0xED, CHR 0x94, CHR 0x84, CHR 0xEB, CHR 0xA1, CHR 0x9C, CHR 0xEA, CHR 0xB7, CHR 0xB8, CHR 0xEB, CHR 0x9E, CHR 0xA8, CHR 0xEC, CHR 0x97, CHR 0x90] @ '' '' @ [CHR 0xEB, CHR 0x8C, CHR 0x80, CHR 0xED, CHR 0x95, CHR 0xB4] @ '' '' @ [CHR 0xEC, CHR 0x84, CHR 0xA4, CHR 0xEB, CHR 0xAA, CHR 0x85, CHR 0xED, CHR 0x95, CHR 0xB4, CHR 0xEB, CHR 0x8B, CHR 0xAC, CHR 0xEB, CHR 0x9D, CHR 0xBC, CHR 0xEB, CHR 0x8A, CHR 0x94] @ '' '' @ [CHR 0xEC, CHR 0xA7, CHR 0x88, CHR 0xEB, CHR 0xAC, CHR 0xB8, CHR 0xEC, CHR 0x9D, CHR 0xB4] @ '' '' @ [CHR 0xEC, CHR 0x9E, CHR 0x88, CHR 0xEC, CHR 0x9D, CHR 0x84] @ '' '' @ [CHR 0xEA, CHR 0xB2, CHR 0xBD, CHR 0xEC, CHR 0x9A, CHR 0xB0] @ '', '' @ [CHR 0xEB, CHR 0x8B, CHR 0xB5, CHR 0xEB, CHR 0xB3, CHR 0x80] @ '' '' @ [CHR 0xED, CHR 0x98, CHR 0x95, CHR 0xEC, CHR 0x8B, CHR 0x9D, CHR 0xEC, CHR 0x9D, CHR 0x84] @ '' '' @ [CHR 0xEB, CHR 0xAC, CHR 0xB4, CHR 0xEC, CHR 0x8B, CHR 0x9C, CHR 0xED, CHR 0x95, CHR 0x98, CHR 0xEA, CHR 0xB3, CHR 0xA0] @ '' '' @ [CHR 0xED, CHR 0x95, CHR 0xB4, CHR 0xEB, CHR 0x8B, CHR 0xB9] @ '' '' @ [CHR 0xED, CHR 0x94, CHR 0x84, CHR 0xEB, CHR 0xA1, CHR 0x9C, CHR 0xEA, CHR 0xB7, CHR 0xB8, CHR 0xEB, CHR 0x9E, CHR 0xA8, CHR 0xEC, CHR 0x97, CHR 0x90] @ '' '' @ [CHR 0xEB, CHR 0x8C, CHR 0x80, CHR 0xED, CHR 0x95, CHR 0x9C] @ '' '' @ [CHR 0xEC, CHR 0x84, CHR 0xA4, CHR 0xEB, CHR 0xAA, CHR 0x85, CHR 0xEC, CHR 0x9D, CHR 0x84] @ '' '' @ [CHR 0xED, CHR 0x95, CHR 0xB4, CHR 0xEC, CHR 0xA3, CHR 0xBC, CHR 0xEC, CHR 0x8B, CHR 0xAD, CHR 0xEC, CHR 0x8B, CHR 0x9C, CHR 0xEC, CHR 0x98, CHR 0xA4] @ ''.'',
     ''    - '' @ [CHR 0xEB, CHR 0x8B, CHR 0xA4, CHR 0xEC, CHR 0x9D, CHR 0x8C, CHR 0xEC, CHR 0x9D, CHR 0x98] @ '' '' @ [CHR 0xEC, CHR 0xB0, CHR 0xB8, CHR 0xEA, CHR 0xB3, CHR 0xA0, CHR 0xED, CHR 0x95, CHR 0xA0] @ '' '' @ [CHR 0xED, CHR 0x94, CHR 0x84, CHR 0xEB, CHR 0xA1, CHR 0x9C, CHR 0xEA, CHR 0xB7, CHR 0xB8, CHR 0xEB, CHR 0x9E, CHR 0xA8] @ '' '' @ [CHR 0xEC, CHR 0xA0, CHR 0x95, CHR 0xEB, CHR 0xB3, CHR 0xB4, CHR 0xEB, CHR 0xA5, CHR 0xBC] @ '' '' @ [CHR 0xEC, CHR 0x82, CHR 0xAC, CHR 0xEC, CHR 0x9A, CHR 0xA9, CHR 0xED, CHR 0x95, CHR 0x98, CHR 0xEC, CHR 0x97, CHR 0xAC] @ '' '' @ [CHR 0xEC, CHR 0xA7, CHR 0x88, CHR 0xEB, CHR 0xAC, CHR 0xB8, CHR 0xEC, CHR 0x97, CHR 0x90] @ '' '' @ [CHR 0xEB, CHR 0x8B, CHR 0xB5, CHR 0xED, CHR 0x95, CHR 0x98, CHR 0xEC, CHR 0x8B, CHR 0xAD, CHR 0xEC, CHR 0x8B, CHR 0x9C, CHR 0xEC, CHR 0x98, CHR 0xA4] @ ''.'',
     ''    - '' @ [CHR 0xEC, CHR 0xA7, CHR 0x88, CHR 0xEB, CHR 0xAC, CHR 0xB8, CHR 0xEA, CHR 0xB3, CHR 0xBC] @ '' '' @ [CHR 0xEC, CHR 0xA3, CHR 0xBC, CHR 0xEC, CHR 0x96, CHR 0xB4, CHR 0xEC, CHR 0xA7, CHR 0x84] @ '' context '' @ [CHR 0xEC, CHR 0x9D, CHR 0x98] @ '' '' @ [CHR 0xEC, CHR 0xA7, CHR 0x80, CHR 0xEC, CHR 0x97, CHR 0xAD] @ ''('' @ [CHR 0xEA, CHR 0xB4, CHR 0x91, CHR 0xEC, CHR 0x97, CHR 0xAD, CHR 0xEC, CHR 0x8B, CHR 0x9C] @ ''/'' @ [CHR 0xEB, CHR 0x8F, CHR 0x84] @ '', '' @ [CHR 0xEC, CHR 0x8B, CHR 0x9C] @ ''/'' @ [CHR 0xEA, CHR 0xB5, CHR 0xB0] @ ''/'' @ [CHR 0xEA, CHR 0xB5, CHR 0xAC] @ '')'' @ [CHR 0xEC, CHR 0x9D, CHR 0xB4] @ '' '' @ [CHR 0xEB, CHR 0x8B, CHR 0xA4, CHR 0xEB, CHR 0xA5, CHR 0xB8] @ '' '' @ [CHR 0xEA, CHR 0xB2, CHR 0xBD, CHR 0xEC, CHR 0x9A, CHR 0xB0] @ '' '' @ [CHR 0xEC, CHR 0xA7, CHR 0x88, CHR 0xEB, CHR 0xAC, CHR 0xB8, CHR 0xEC, CHR 0x9D, CHR 0x98] @ '' '' @ [CHR 0xEB, CHR 0x8B, CHR 0xB5, CHR 0xEC, CHR 0x9C, CHR 0xBC, CHR 0xEB, CHR 0xA1, CHR 0x9C] @ '' '' @ [CHR 0xEC, CHR 0x82, CHR 0xAC, CHR 0xEC, CHR 0x9A, CHR 0xA9, CHR 0xED, CHR 0x95, CHR 0x98, CHR 0xEC, CHR 0xA7, CHR 0x80] @ '' '' @ [CHR 0xEB, CHR 0xA7, CHR 0x88, CHR 0xEC, CHR 0x8B, CHR 0xAD, CHR 0xEC, CHR 0x8B, CHR 0x9C, CHR 0xEC, CHR 0x98, CHR 0xA4] @ ''.'',
     ''    - '' @ [CHR 0xEC, CHR 0xA7, CHR 0x80, CHR 0xEC, CHR 0x97, CHR 0xAD, CHR 0xEC, CHR 0x9D, CHR 0xB4] @ '' '' @ [CHR 0xEB, CHR 0xAA, CHR 0x85, CHR 0xEC, CHR 0x8B, CHR 0x9C, CHR 0xEB, CHR 0x90, CHR 0x98, CHR 0xEC, CHR 0xA7, CHR 0x80] @ '' '' @ [CHR 0xEC, CHR 0x95, CHR 0x8A, CHR 0xEC, CHR 0x9D, CHR 0x80] @ '' '' @ [CHR 0xEA, CHR 0xB2, CHR 0xBD, CHR 0xEC, CHR 0x9A, CHR 0xB0] @ '' '' @ [CHR 0xEB, CHR 0xAA, CHR 0xA8, CHR 0xEB, CHR 0x93, CHR 0xA0] @ '' context '' @ [CHR 0xEB, CHR 0xA5, CHR 0xBC] @ '' '' @ [CHR 0xEC, CHR 0xA7, CHR 0x88, CHR 0xEB, CHR 0xAC, CHR 0xB8, CHR 0xEC, CHR 0x9D, CHR 0x98] @ '' '' @ [CHR 0xEB, CHR 0x8B, CHR 0xB5, CHR 0xEC, CHR 0x9C, CHR 0xBC, CHR 0xEB, CHR 0xA1, CHR 0x9C] @ '' '' @ [CHR 0xED, CHR 0x99, CHR 0x9C, CHR 0xEC, CHR 0x9A, CHR 0xA9, CHR 0xED, CHR 0x95, CHR 0x98, CHR 0xEC, CHR 0x8B, CHR 0xAD, CHR 0xEC, CHR 0x8B, CHR 0x9C, CHR 0xEC, CHR 0x98, CHR 0xA4] @ ''. '',
     ''    - '' @ [CHR 0xEB, CHR 0x8C, CHR 0x80, CHR 0xEB, CHR 0x8B, CHR 0xB5, CHR 0xEC, CHR 0x9D, CHR 0x80] @ '' '' @ [CHR 0xED, CHR 0x95, CHR 0x9C, CHR 0xEA, CHR 0xB5, CHR 0xAD, CHR 0xEC, CHR 0x96, CHR 0xB4, CHR 0xEB, CHR 0xA1, CHR 0x9C] @ '' '' @ [CHR 0xED, CHR 0x95, CHR 0x98, CHR 0xEA, CHR 0xB3, CHR 0xA0] @ '', '' @ [CHR 0xEC, CHR 0xA1, CHR 0xB4, CHR 0xEB, CHR 0x8C, CHR 0x93, CHR 0xEB, CHR 0xA7, CHR 0x90, CHR 0xEC, CHR 0x9D, CHR 0x84] @ '' '' @ [CHR 0xEC, CHR 0x82, CHR 0xAC, CHR 0xEC, CHR 0x9A, CHR 0xA9, CHR 0xED, CHR 0x95, CHR 0x98, CHR 0xEC, CHR 0x8B, CHR 0xAD, CHR 0xEC, CHR 0x8B, CHR 0x9C, CHR 0xEC, CHR 0x98, CHR 0xA4] @ ''.'',
     ''    - '' @ [CHR 0xEC, CHR 0xA7, CHR 0x88, CHR 0xEB, CHR 0xAC, CHR 0xB8, CHR 0xEC, CHR 0x97, CHR 0x90] @ '' '' @ [CHR 0xEB, CHR 0x8C, CHR 0x80, CHR 0xED, CHR 0x95, CHR 0x9C] @ '' '' @ [CHR 0xEB, CHR 0x8B, CHR 0xB5, CHR 0xEB, CHR 0xB3, CHR 0x80, CHR 0xEC, CHR 0x9D, CHR 0xB4] @ '' '' @ [CHR 0xEC, CHR 0x9E, CHR 0x88, CHR 0xEB, CHR 0x8B, CHR 0xA4, CHR 0xEB, CHR 0xA9, CHR 0xB4] @ '' '' @ [CHR 0xEB, CHR 0x8B, CHR 0xB5, CHR 0xEB, CHR 0xB3, CHR 0x80, CHR 0xEC, CHR 0x9D, CHR 0x98] @ '' '' @ [CHR 0xEB, CHR 0xA7, CHR 0x88, CHR 0xEC, CHR 0xA7, CHR 0x80, CHR 0xEB, CHR 0xA7, CHR 0x89, CHR 0xEC, CHR 0x97, CHR 0x90] @ '' '' @ [CHR 0x27, CHR 0xEC, CHR 0x9E, CHR 0x90, CHR 0xEC, CHR 0x84, CHR 0xB8, CHR 0xED, CHR 0x95, CHR 0x9C] @ '' '' @ [CHR 0xEC, CHR 0x82, CHR 0xAC, CHR 0xED, CHR 0x95, CHR 0xAD, CHR 0xEC, CHR 0x9D, CHR 0x80] @ '' '' @ [CHR 0xEB, CHR 0xA7, CHR 0x81, CHR 0xED, CHR 0x81, CHR 0xAC, CHR 0xEB, CHR 0xA5, CHR 0xBC] @ '' '' @ [CHR 0xED, CHR 0x86, CHR 0xB5, CHR 0xED, CHR 0x95, CHR 0xB4] @ '' '' @ [CHR 0xED, CHR 0x99, CHR 0x95, CHR 0xEC, CHR 0x9D, CHR 0xB8, CHR 0xED, CHR 0x95, CHR 0x98, CHR 0xEC, CHR 0x84, CHR 0xB8, CHR 0xEC, CHR 0x9A, CHR 0x94, CHR 0x27] @ '' '' @ [CHR 0xEB, CHR 0xAC, CHR 0xB8, CHR 0xEA, CHR 0xB5, CHR 0xAC, CHR 0xEC, CHR 0x99, CHR 0x80] @ '' '' @ [CHR 0xEC, CHR 0x9D, CHR 0xB4, CHR 0xEB, CHR 0xAA, CHR 0xA8, CHR 0xEC, CHR 0xA7, CHR 0x80, CHR 0xEB, CHR 0xA5, CHR 0xBC] @ '' '' @ [CHR 0xEC, CHR 0xB6, CHR 0x94, CHR 0xEA, CHR 0xB0, CHR 0x80, CHR 0xED, CHR 0x95, CHR 0x98, CHR 0xEC, CHR 0x84, CHR 0xB8, CHR 0xEC, CHR 0x9A, CHR 0x94] @ ''.'',
     ''    - '' @ [CHR 0xEC, CHR 0xA7, CHR 0x88, CHR 0xEB, CHR 0xAC, CHR 0xB8, CHR 0xEC, CHR 0x97, CHR 0x90] @ '' '' @ [CHR 0xEB, CHR 0x8C, CHR 0x80, CHR 0xED, CHR 0x95, CHR 0x9C] @ '' '' @ [CHR 0xEB, CHR 0x8B, CHR 0xB5, CHR 0xEB, CHR 0xB3, CHR 0x80, CHR 0xEC, CHR 0x9D, CHR 0xB4] @ '' '' @ [CHR 0xEC, CHR 0x97, CHR 0x86, CHR 0xEB, CHR 0x8B, CHR 0xA4, CHR 0xEB, CHR 0xA9, CHR 0xB4] @ '' '' @ [CHR 0xEB, CHR 0x8B, CHR 0xB5, CHR 0xEB, CHR 0xB3, CHR 0x80, CHR 0xEC, CHR 0x9D, CHR 0x98] @ '' '' @ [CHR 0xEB, CHR 0xA7, CHR 0x88, CHR 0xEC, CHR 0xA7, CHR 0x80, CHR 0xEB, CHR 0xA7, CHR 0x89, CHR 0xEC, CHR 0x97, CHR 0x90] @ '' '' @ [CHR 0xEB, CHR 0xA7, CHR 0x81, CHR 0xED, CHR 0x81, CHR 0xAC, CHR 0xEB, CHR 0xA5, CHR 0xBC] @ '' '' @ [CHR 0xEC, CHR 0xB6, CHR 0x94, CHR 0xEA, CHR 0xB0, CHR 0x80, CHR 0xED, CHR 0x95, CHR 0x98, CHR 0xEC, CHR 0xA7, CHR 0x80] @ '' '' @ [CHR 0xEB, CHR 0xA7, CHR 0x88, CHR 0xEC, CHR 0x84, CHR 0xB8, CHR 0xEC, CHR 0x9A, CHR 0x94] @ ''.'',
     ''    '',
     ''    #'' @ [CHR 0xEC, CHR 0xA0, CHR 0x9C, CHR 0xEC, CHR 0x95, CHR 0xBD] @ '':'',
     ''    - '' @ [CHR 0xED, CHR 0x8A, CHR 0xB9, CHR 0xEC, CHR 0xA0, CHR 0x95] @ '' '' @ [CHR 0xEB, CHR 0x82, CHR 0xA0, CHR 0xEC, CHR 0xA7, CHR 0x9C, CHR 0xEA, CHR 0xB0, CHR 0x80] @ '' '' @ [CHR 0xEB, CHR 0x82, CHR 0x98, CHR 0xEC, CHR 0x98, CHR 0xA4, CHR 0xEB, CHR 0xA9, CHR 0xB4] @ '' '' @ [CHR 0xED, CHR 0x99, CHR 0x9C, CHR 0xEB, CHR 0x8F, CHR 0x99] @ '' '' @ [CHR 0xEC, CHR 0x8B, CHR 0x9C, CHR 0xEC, CHR 0x9E, CHR 0x91] @ '' '' @ [CHR 0xEC, CHR 0x8B, CHR 0x9C, CHR 0xEA, CHR 0xB0, CHR 0x84] @ '' ~ '' @ [CHR 0xED, CHR 0x99, CHR 0x9C, CHR 0xEB, CHR 0x8F, CHR 0x99] @ '' '' @ [CHR 0xEC, CHR 0xA2, CHR 0x85, CHR 0xEB, CHR 0xA3, CHR 0x8C] @ '' '' @ [CHR 0xEC, CHR 0x8B, CHR 0x9C, CHR 0xEA, CHR 0xB0, CHR 0x84, CHR 0xEC, CHR 0x9C, CHR 0xBC, CHR 0xEB, CHR 0xA1, CHR 0x9C] @ '' '' @ [CHR 0xED, CHR 0x8C, CHR 0x90, CHR 0xEB, CHR 0x8B, CHR 0xA8, CHR 0xED, CHR 0x95, CHR 0x98, CHR 0xEC, CHR 0x8B, CHR 0xAD, CHR 0xEC, CHR 0x8B, CHR 0x9C, CHR 0xEC, CHR 0x98, CHR 0xA4] @ ''.'',
     ''    - '' @ [CHR 0x27, CHR 0xEB, CHR 0x8B, CHR 0xB5, CHR 0xEB, CHR 0xB3, CHR 0x80] @ '' '' @ [CHR 0xED, CHR 0x98, CHR 0x95, CHR 0xEC, CHR 0x8B, CHR 0x9D] @ ''1'' @ [CHR 0x27, CHR 0xEC, CHR 0x9D, CHR 0x80] @ '' '' @ [CHR 0xEC, CHR 0xB5, CHR 0x9C, CHR 0xEB, CHR 0x8C, CHR 0x80] @ '' 3'' @ [CHR 0xEA, CHR 0xB0, CHR 0x9C] @ '' '' @ [CHR 0xED, CHR 0x94, CHR 0x84, CHR 0xEB, CHR 0xA1, CHR 0x9C, CHR 0xEA, CHR 0xB7, CHR 0xB8, CHR 0xEB, CHR 0x9E, CHR 0xA8, CHR 0xEC, CHR 0x9C, CHR 0xBC, CHR 0xEB, CHR 0xA1, CHR 0x9C] @ '' '' @ [CHR 0xEC, CHR 0x9E, CHR 0x91, CHR 0xEC, CHR 0x84, CHR 0xB1, CHR 0xED, CHR 0x95, CHR 0x98, CHR 0xEC, CHR 0x8B, CHR 0xAD, CHR 0xEC, CHR 0x8B, CHR 0x9C, CHR 0xEC, CHR 0x98, CHR 0xA4] @ ''.'',
     ''    - '' @ [CHR 0xEC, CHR 0x97, CHR 0xB0, CHR 0xEA, CHR 0xB4, CHR 0x80, CHR 0xEB, CHR 0x90, CHR 0x9C] @ '' '' @ [CHR 0xED, CHR 0x94, CHR 0x84, CHR 0xEB, CHR 0xA1, CHR 0x9C, CHR 0xEA, CHR 0xB7, CHR 0xB8, CHR 0xEB, CHR 0x9E, CHR 0xA8, CHR 0xEC, CHR 0x9D, CHR 0xB4] @ '' 2'' @ [CHR 0xEA, CHR 0xB0, CHR 0x9C] @ '' '' @ [CHR 0xEC, CHR 0x9D, CHR 0xB4, CHR 0xEC, CHR 0x83, CHR 0x81, CHR 0xEC, CHR 0x9D, CHR 0xB4, CHR 0xEB, CHR 0x9D, CHR 0xBC, CHR 0xEB, CHR 0xA9, CHR 0xB4] @ '' 2'' @ [CHR 0xEA, CHR 0xB0, CHR 0x9C] @ '' '' @ [CHR 0xEC, CHR 0x9D, CHR 0xB4, CHR 0xEC, CHR 0x83, CHR 0x81] @ '' '' @ [CHR 0xEB, CHR 0xAA, CHR 0xA8, CHR 0xEB, CHR 0x91, CHR 0x90] @ '' '' @ [CHR 0xEC, CHR 0x9E, CHR 0x91, CHR 0xEC, CHR 0x84, CHR 0xB1, CHR 0xED, CHR 0x95, CHR 0x98, CHR 0xEC, CHR 0x8B, CHR 0xAD, CHR 0xEC, CHR 0x8B, CHR 0x9C, CHR 0xEC, CHR 0x98, CHR 0xA4] @ ''.'',
     ''    - '' @ [CHR 0xED, CHR 0x94, CHR 0x84, CHR 0xEB, CHR 0xA1, CHR 0x9C, CHR 0xEA, CHR 0xB7, CHR 0xB8, CHR 0xEB, CHR 0x9E, CHR 0xA8, CHR 0xEC, CHR 0x9D, CHR 0x98] @ '' '' @ [CHR 0xEC, CHR 0x84, CHR 0xB8, CHR 0xEB, CHR 0xB6, CHR 0x80, CHR 0xEC, CHR 0x82, CHR 0xAC, CHR 0xED, CHR 0x95, CHR 0xAD, CHR 0xEC, CHR 0x9D, CHR 0xB4] @ '' '' @ [CHR 0xEB, CHR 0x8B, CHR 0xA4, CHR 0xEB, CHR 0xA5, CHR 0xB4, CHR 0xEB, CHR 0x8B, CHR 0xA4, CHR 0xEB, CHR 0xA9, CHR 0xB4] @ '' '' @ [CHR 0xED, CHR 0x95, CHR 0xB4, CHR 0xEB, CHR 0x8B, CHR 0xB9] @ '' '' @ [CHR 0xED, CHR 0x94, CHR 0x84, CHR 0xEB, CHR 0xA1, CHR 0x9C, CHR 0xEA, CHR 0xB7, CHR 0xB8, CHR 0xEB, CHR 0x9E, CHR 0xA8, CHR 0xEC, CHR 0x9D, CHR 0x84] @ '' '' @ [CHR 0xEB, CHR 0x8B, CHR 0xB5, CHR 0xEB, CHR 0xB3, CHR 0x80, CHR 0xEC, CHR 0x9C, CHR 0xBC, CHR 0xEB, CHR 0xA1, CHR 0x9C] @ '' '' @ [CHR 0xEC, CHR 0x82, CHR 0xAC, CHR 0xEC, CHR 0x9A, CHR 0xA9, CHR 0xED, CHR 0x95, CHR 0x98, CHR 0xEC, CHR 0xA7, CHR 0x80] @ '' '' @ [CHR 0xEB, CHR 0xA7, CHR 0x88, CHR 0xEC, CHR 0x8B, CHR 0xAD, CHR 0xEC, CHR 0x8B, CHR 0x9C, CHR 0xEC, CHR 0x98, CHR 0xA4] @ ''. '' @ [CHR 0xEC, CHR 0x98, CHR 0x88, CHR 0xEB, CHR 0xA5, CHR 0xBC] @ '' '' @ [CHR 0xEB, CHR 0x93, CHR 0xA4, CHR 0xEC, CHR 0x96, CHR 0xB4, CHR 0xEC, CHR 0x84, CHR 0x9C] @ '' '' @ [CHR 0xEC, CHR 0x95, CHR 0x84, CHR 0xEC, CHR 0x9D, CHR 0xB4, CHR 0xEC, CHR 0x99, CHR 0x80] @ '' '' @ [CHR 0xEA, CHR 0xB0, CHR 0x88] @ '' '' @ [CHR 0xEC, CHR 0x88, CHR 0x98] @ '' '' @ [CHR 0xEC, CHR 0x9E, CHR 0x88, CHR 0xEB, CHR 0x8A, CHR 0x94] @ '' '' @ [CHR 0xED, CHR 0x94, CHR 0x84, CHR 0xEB, CHR 0xA1, CHR 0x9C, CHR 0xEA, CHR 0xB7, CHR 0xB8, CHR 0xEB, CHR 0x9E, CHR 0xA8, CHR 0xEC, CHR 0x9D, CHR 0x84] @ '' '' @ [CHR 0xEB, CHR 0xAC, CHR 0xBC, CHR 0xEC, CHR 0x96, CHR 0xB4, CHR 0xEB, CHR 0xB4, CHR 0xA4, CHR 0xEC, CHR 0x9D, CHR 0x84] @ '' '' @ [CHR 0xEB, CHR 0x95, CHR 0x8C] @ '' '' @ [CHR 0x27, CHR 0xEC, CHR 0x95, CHR 0x84, CHR 0xEC, CHR 0x9D, CHR 0xB4] @ '' '' @ [CHR 0xEB, CHR 0x8F, CHR 0x99, CHR 0xEB, CHR 0xB0, CHR 0x98] @ '' '' @ [CHR 0xEC, CHR 0x97, CHR 0xAC, CHR 0xEB, CHR 0xB6, CHR 0x80, CHR 0x27, CHR 0xEB, CHR 0x8A, CHR 0x94] @ '' '' @ [CHR 0xEA, CHR 0xB0, CHR 0x80, CHR 0xEB, CHR 0x8A, CHR 0xA5, CHR 0xEC, CHR 0x9D, CHR 0xB4, CHR 0xEC, CHR 0x97, CHR 0xAC, CHR 0xEC, CHR 0x95, CHR 0xBC] @ '' '' @ [CHR 0xED, CHR 0x95, CHR 0xA9, CHR 0xEB, CHR 0x8B, CHR 0x88, CHR 0xEB, CHR 0x8B, CHR 0xA4] @ ''.'',
     ''    - '' @ [CHR 0xEC, CHR 0x95, CHR 0x8C, CHR 0xEB, CHR 0xA7, CHR 0x9E, CHR 0xEC, CHR 0x9D, CHR 0x80] @ '' '' @ [CHR 0xED, CHR 0x94, CHR 0x84, CHR 0xEB, CHR 0xA1, CHR 0x9C, CHR 0xEA, CHR 0xB7, CHR 0xB8, CHR 0xEB, CHR 0x9E, CHR 0xA8, CHR 0xEC, CHR 0x9D, CHR 0xB4] @ '' '' @ [CHR 0xEC, CHR 0x97, CHR 0x86, CHR 0xEB, CHR 0x8A, CHR 0x94] @ '' '' @ [CHR 0xEA, CHR 0xB2, CHR 0xBD, CHR 0xEC, CHR 0x9A, CHR 0xB0] @ '', '' @ [CHR 0xED, CHR 0x95, CHR 0xB4, CHR 0xEB, CHR 0x8B, CHR 0xB9, CHR 0xED, CHR 0x95, CHR 0x98, CHR 0xEB, CHR 0x8A, CHR 0x94] @ '' '' @ [CHR 0xED, CHR 0x94, CHR 0x84, CHR 0xEB, CHR 0xA1, CHR 0x9C, CHR 0xEA, CHR 0xB7, CHR 0xB8, CHR 0xEB, CHR 0x9E, CHR 0xA8, CHR 0xEC, CHR 0x9D, CHR 0xB4] @ '' '' @ [CHR 0xEC, CHR 0x97, CHR 0x86, CHR 0xEB, CHR 0x8B, CHR 0xA4, CHR 0xEA, CHR 0xB3, CHR 0xA0] @ '' '' @ [CHR 0xEB, CHR 0x8B, CHR 0xB5, CHR 0xEB, CHR 0xB3, CHR 0x80, CHR 0xED, CHR 0x95, CHR 0x98, CHR 0xEC, CHR 0x8B, CHR 0xAD, CHR 0xEC, CHR 0x8B, CHR 0x9C, CHR 0xEC, CHR 0x98, CHR 0xA4] @ ''.'',
     ''    '',
     ''    #'' @ [CHR 0xEC, CHR 0xA3, CHR 0xBC, CHR 0xEC, CHR 0x9A, CHR 0x94] @ '' key '' @ [CHR 0xED, CHR 0x95, CHR 0xB4, CHR 0xEC, CHR 0x84, CHR 0x9D],
     ''    '' @ [CHR 0xED, CHR 0x99, CHR 0x9C, CHR 0xEB, CHR 0x8F, CHR 0x99] @ '' '' @ [CHR 0xEC, CHR 0x8B, CHR 0x9C, CHR 0xEC, CHR 0x9E, CHR 0x91] @ '' '' @ [CHR 0xEC, CHR 0x8B, CHR 0x9C, CHR 0xEA, CHR 0xB0, CHR 0x84] @ '': '' @ [CHR 0xEC, CHR 0x97, CHR 0xAC, CHR 0xED, CHR 0x96, CHR 0x89] @ '', '' @ [CHR 0xED, CHR 0x99, CHR 0x9C, CHR 0xEB, CHR 0x8F, CHR 0x99, CHR 0xEC, CHR 0x9D, CHR 0x84] @ '' '' @ [CHR 0xEC, CHR 0x8B, CHR 0x9C, CHR 0xEC, CHR 0x9E, CHR 0x91, CHR 0xED, CHR 0x95, CHR 0x98, CHR 0xEB, CHR 0x8A, CHR 0x94] @ '' '' @ [CHR 0xEB, CHR 0x82, CHR 0xA0, CHR 0xEC, CHR 0xA7, CHR 0x9C, CHR 0xEC, CHR 0x9E, CHR 0x85, CHR 0xEB, CHR 0x8B, CHR 0x88, CHR 0xEB, CHR 0x8B, CHR 0xA4] @ ''.'',
     ''    '' @ [CHR 0xED, CHR 0x99, CHR 0x9C, CHR 0xEB, CHR 0x8F, CHR 0x99] @ '' '' @ [CHR 0xEC, CHR 0xA2, CHR 0x85, CHR 0xEB, CHR 0xA3, CHR 0x8C] @ '' '' @ [CHR 0xEC, CHR 0x8B, CHR 0x9C, CHR 0xEA, CHR 0xB0, CHR 0x84] @ '': '' @ [CHR 0xEC, CHR 0x97, CHR 0xAC, CHR 0xED, CHR 0x96, CHR 0x89] @ '', '' @ [CHR 0xED, CHR 0x99, CHR 0x9C, CHR 0xEB, CHR 0x8F, CHR 0x99, CHR 0xEC, CHR 0x9D, CHR 0x84] @ '' '' @ [CHR 0xEC, CHR 0xA2, CHR 0x85, CHR 0xEB, CHR 0xA3, CHR 0x8C, CHR 0xED, CHR 0x95, CHR 0x98, CHR 0xEB, CHR 0x8A, CHR 0x94] @ '' '' @ [CHR 0xEB, CHR 0x82, CHR 0xA0, CHR 0xEC, CHR 0xA7, CHR 0x9C, CHR 0xEC, CHR 0x9E, CHR 0x85, CHR 0xEB, CHR 0x8B, CHR 0x88, CHR 0xEB, CHR 0x8B, CHR 0xA4] @ ''.'',
     ''    '' @ [CHR 0xEC, CHR 0xB5, CHR 0x9C, CHR 0xEB, CHR 0x8C, CHR 0x80] @ '' '' @ [CHR 0xED, CHR 0x99, CHR 0x9C, CHR 0xEB, CHR 0x8F, CHR 0x99] @ ''('' @ [CHR 0xEC, CHR 0x97, CHR 0xAC, CHR 0xED, CHR 0x96, CHR 0x89] @ '')'' @ [CHR 0xEC, CHR 0x9D, CHR 0xBC, CHR 0xEC, CHR 0x88, CHR 0x98] @ '': '' @ [CHR 0xEC, CHR 0x97, CHR 0xAC, CHR 0xED, CHR 0x96, CHR 0x89] @ '', '' @ [CHR 0xED, CHR 0x99, CHR 0x9C, CHR 0xEB, CHR 0x8F, CHR 0x99, CHR 0xEC, CHR 0x9D, CHR 0x84] @ '' '' @ [CHR 0xEC, CHR 0xB5, CHR 0x9C, CHR 0xEB, CHR 0x8C, CHR 0x80, CHR 0xEB, CHR 0xA1, CHR 0x9C] @ '' '' @ [CHR 0xED, CHR 0x95, CHR 0xA0] @ '' '' @ [CHR 0xEC, CHR 0x88, CHR 0x98] @ '' '' @ [CHR 0xEC, CHR 0x9E, CHR 0x88, CHR 0xEB, CHR 0x8A, CHR 0x94] @ '' '' @ [CHR 0xEC, CHR 0x9D, CHR 0xBC, CHR 0xEC, CHR 0x88, CHR 0x98, CHR 0xEC, CHR 0x9E, CHR 0x85, CHR 0xEB, CHR 0x8B, CHR 0x88, CHR 0xEB, CHR 0x8B, CHR 0xA4] @ ''.'',
     ''    '' @ [CHR 0xEC, CHR 0xB5, CHR 0x9C, CHR 0xEC, CHR 0x86, CHR 0x8C] @ '' '' @ [CHR 0xED, CHR 0x99, CHR 0x9C, CHR 0xEB, CHR 0x8F, CHR 0x99] @ ''('' @ [CHR 0xEC, CHR 0x97, CHR 0xAC, CHR 0xED, CHR 0x96, CHR 0x89] @ '')'' @ [CHR 0xEC, CHR 0x9D, CHR 0xBC, CHR 0xEC, CHR 0x88, CHR 0x98] @ '': '' @ [CHR 0xEC, CHR 0x97, CHR 0xAC, CHR 0xED, CHR 0x96, CHR 0x89] @ '', '' @ [CHR 0xED, CHR 0x99, CHR 0x9C, CHR 0xEB, CHR 0x8F, CHR 0x99, CHR 0xEC, CHR 0x9D, CHR 0x84] @ '' '' @ [CHR 0xEC, CHR 0xB5, CHR 0x9C, CHR 0xEC, CHR 0x86, CHR 0x8C, CHR 0xEB, CHR 0xA1, CHR 0x9C] @ '' '' @ [CHR 0xED, CHR 0x95, CHR 0xA0] @ '' '' @ [CHR 0xEC, CHR 0x88, CHR 0x98] @ '' '' @ [CHR 0xEC, CHR 0x9E, CHR 0x88, CHR 0xEB, CHR 0x8A, CHR 0x94] @ '' '' @ [CHR 0xEC, CHR 0x9D, CHR 0xBC, CHR 0xEC, CHR 0x88, CHR 0x98, CHR 0xEC, CHR 0x9E, CHR 0x85, CHR 0xEB, CHR 0x8B, CHR 0x88, CHR 0xEB, CHR 0x8B, CHR 0xA4] @ ''.'',
     ''    '' @ [CHR 0xEA, CHR 0xB3, CHR 0xB5, CHR 0xEA, CHR 0xB3, CHR 0xA0] @ ''('' @ [CHR 0xEC, CHR 0xA7, CHR 0x80, CHR 0xEC, CHR 0x9B, CHR 0x90] @ '') '' @ [CHR 0xEB, CHR 0xA7, CHR 0x88, CHR 0xEA, CHR 0xB0, CHR 0x90] @ '' '' @ [CHR 0xEC, CHR 0x8B, CHR 0x9C, CHR 0xEA, CHR 0xB0, CHR 0x84] @ '': '' @ [CHR 0xEC, CHR 0x82, CHR 0xAC, CHR 0xEC, CHR 0x9A, CHR 0xA9, CHR 0xEC, CHR 0x9E, CHR 0x90, CHR 0xEA, CHR 0xB0, CHR 0x80] @ '' '' @ [CHR 0xED, CHR 0x94, CHR 0x84, CHR 0xEB, CHR 0xA1, CHR 0x9C, CHR 0xEA, CHR 0xB7, CHR 0xB8, CHR 0xEB, CHR 0x9E, CHR 0xA8, CHR 0xEC, CHR 0x97, CHR 0x90] @ '' '' @ [CHR 0xEC, CHR 0xA7, CHR 0x80, CHR 0xEC, CHR 0x9B, CHR 0x90, CHR 0xED, CHR 0x95, CHR 0x98, CHR 0xEB, CHR 0x8A, CHR 0x94] @ '' '' @ [CHR 0xEB, CHR 0xA7, CHR 0x88, CHR 0xEA, CHR 0xB0, CHR 0x90] @ '' '' @ [CHR 0xEC, CHR 0x8B, CHR 0x9C, CHR 0xEA, CHR 0xB0, CHR 0x84, CHR 0xEC, CHR 0x9E, CHR 0x85, CHR 0xEB, CHR 0x8B, CHR 0x88, CHR 0xEB, CHR 0x8B, CHR 0xA4] @ ''.'',
     ''    '' @ [CHR 0xEA, CHR 0xB3, CHR 0xB5, CHR 0xEA, CHR 0xB3, CHR 0xA0] @ ''('' @ [CHR 0xEC, CHR 0xA7, CHR 0x80, CHR 0xEC, CHR 0x9B, CHR 0x90] @ '') '' @ [CHR 0xEC, CHR 0x8B, CHR 0x9C, CHR 0xEC, CHR 0x9E, CHR 0x91] @ '' '' @ [CHR 0xEC, CHR 0x8B, CHR 0x9C, CHR 0xEA, CHR 0xB0, CHR 0x84] @ '': '' @ [CHR 0xEC, CHR 0x82, CHR 0xAC, CHR 0xEC, CHR 0x9A, CHR 0xA9, CHR 0xEC, CHR 0x9E, CHR 0x90, CHR 0xEA, CHR 0xB0, CHR 0x80] @ '' '' @ [CHR 0xED, CHR 0x94, CHR 0x84, CHR 0xEB, CHR 0xA1, CHR 0x9C, CHR 0xEA, CHR 0xB7, CHR 0xB8, CHR 0xEB, CHR 0x9E, CHR 0xA8, CHR 0xEC, CHR 0x97, CHR 0x90] @ '' '' @ [CHR 0xEC, CHR 0xA7, CHR 0x80, CHR 0xEC, CHR 0x9B, CHR 0x90, CHR 0xED, CHR 0x95, CHR 0x98, CHR 0xEB, CHR 0x8A, CHR 0x94] @ '' '' @ [CHR 0xEC, CHR 0x8B, CHR 0x9C, CHR 0xEC, CHR 0x9E, CHR 0x91] @ '' '' @ [CHR 0xEC, CHR 0x8B, CHR 0x9C, CHR 0xEA, CHR 0xB0, CHR 0x84, CHR 0xEC, CHR 0x9E, CHR 0x85, CHR 0xEB, CHR 0x8B, CHR 0x88, CHR 0xEB, CHR 0x8B, CHR 0xA4] @ ''.'',
     ''    '' @ [CHR 0xEC, CHR 0x95, CHR 0x84, CHR 0xEC, CHR 0x9D, CHR 0xB4] @ '' '' @ [CHR 0xEB, CHR 0x8F, CHR 0x99, CHR 0xEB, CHR 0xB0, CHR 0x98] @ '' '' @ [CHR 0xEA, CHR 0xB0, CHR 0x80, CHR 0xEB, CHR 0x8A, CHR 0xA5] @ ''('' @ [CHR 0xEC, CHR 0x95, CHR 0x84, CHR 0xEC, CHR 0x9D, CHR 0xB4] @ '' '' @ [CHR 0xED, CHR 0x95, CHR 0xA8, CHR 0xEA, CHR 0xBB, CHR 0x98] @ '' '' @ [CHR 0xEA, CHR 0xB0, CHR 0x80, CHR 0xEA, CHR 0xB8, CHR 0xB0] @ ''): '' @ [CHR 0xEC, CHR 0x95, CHR 0x84, CHR 0xEC, CHR 0x9D, CHR 0xB4, CHR 0xEC, CHR 0x99, CHR 0x80] @ '' '' @ [CHR 0xED, CHR 0x95, CHR 0xA8, CHR 0xEA, CHR 0xBB, CHR 0x98] @ '' '' @ [CHR 0xEC, CHR 0x97, CHR 0xAC, CHR 0xED, CHR 0x96, CHR 0x89, CHR 0xEC, CHR 0x9D, CHR 0x84] @ '' '' @ [CHR 0xED, CHR 0x95, CHR 0xA0] @ '' '' @ [CHR 0xEC, CHR 0x88, CHR 0x98] @ '' '' @ [CHR 0xEC, CHR 0x9E, CHR 0x88, CHR 0xEB, CHR 0x8A, CHR 0x94, CHR 0xEC, CHR 0xA7, CHR 0x80] @ '' '' @ [CHR 0xEC, CHR 0x97, CHR 0xAC, CHR 0xEB, CHR 0xB6, CHR 0x80, CHR 0xEC, CHR 0x9E, CHR 0x85, CHR 0xEB, CHR 0x8B, CHR 0x88, CHR 0xEB, CHR 0x8B, CHR 0xA4] @ ''.'',
     ''    '' @ [CHR 0xEC, CHR 0x95, CHR 0x84, CHR 0xEC, CHR 0x9D, CHR 0xB4] @ '' '' @ [CHR 0xEC, CHR 0xA7, CHR 0x80, CHR 0xEC, CHR 0x9B, CHR 0x90, CHR 0xEA, CHR 0xB8, CHR 0x88] @ '' '' @ [CHR 0xEC, CHR 0xA7, CHR 0x80, CHR 0xEC, CHR 0x9B, CHR 0x90] @ '' '' @ [CHR 0xEC, CHR 0x97, CHR 0xAC, CHR 0xEB, CHR 0xB6, CHR 0x80] @ '': '' @ [CHR 0xED, CHR 0x94, CHR 0x84, CHR 0xEB, CHR 0xA1, CHR 0x9C, CHR 0xEA, CHR 0xB7, CHR 0xB8, CHR 0xEB, CHR 0x9E, CHR 0xA8, CHR 0xEC, CHR 0x97, CHR 0x90, CHR 0xEC, CHR 0x84, CHR 0x9C] @ '' '' @ [CHR 0xEC, CHR 0x95, CHR 0x84, CHR 0xEC, CHR 0x9D, CHR 0xB4, CHR 0xEC, CHR 0x97, CHR 0x90, CHR 0xEA, CHR 0xB2, CHR 0x8C] @ '' '' @ [CHR 0xEC, CHR 0xA7, CHR 0x80, CHR 0xEC, CHR 0x9B, CHR 0x90, CHR 0xEA, CHR 0xB8, CHR 0x88, CHR 0xEC, CHR 0x9D, CHR 0x84] @ '' '' @ [CHR 0xEC, CHR 0xA7, CHR 0x80, CHR 0xEC, CHR 0x9B, CHR 0x90, CHR 0xED, CHR 0x95, CHR 0x98, CHR 0xEB, CHR 0x8A, CHR 0x94, CHR 0xEC, CHR 0xA7, CHR 0x80] @ '' '' @ [CHR 0xEC, CHR 0x97, CHR 0xAC, CHR 0xEB, CHR 0xB6, CHR 0x80, CHR 0xEC, CHR 0x9E, CHR 0x85, CHR 0xEB, CHR 0x8B, CHR 0x88, CHR 0xEB, CHR 0x8B, CHR 0xA4] @ ''.'',
     ''    '' @ [CHR 0xEB, CHR 0xB0, CHR 0x98, CHR 0xEB, CHR 0xA0, CHR 0xA4, CHR 0xEB, CHR 0x8F, CHR 0x99, CHR 0xEB, CHR 0xAC, CHR 0xBC] @ '' '' @ [CHR 0xEB, CHR 0x8F, CHR 0x99, CHR 0xEB, CHR 0xB0, CHR 0x98] @ '' '' @ [CHR 0xEA, CHR 0xB0, CHR 0x80, CHR 0xEB, CHR 0x8A, CHR 0xA5] @ '' '' @ [CHR 0xEC, CHR 0x97, CHR 0xAC, CHR 0xEB, CHR 0xB6, CHR 0x80] @ '': '' @ [CHR 0xEB, CHR 0xB0, CHR 0x98, CHR 0xEB, CHR 0xA0, CHR 0xA4, CHR 0xEB, CHR 0x8F, CHR 0x99, CHR 0xEB, CHR 0xAC, CHR 0xBC, CHR 0xEC, CHR 0x9D, CHR 0x84] @ '' '' @ [CHR 0xEB, CHR 0x8F, CHR 0x99, CHR 0xEB, CHR 0xB0, CHR 0x98, CHR 0xED, CHR 0x95, CHR 0xA0] @ '' '' @ [CHR 0xEC, CHR 0x88, CHR 0x98] @ '' '' @ [CHR 0xEC, CHR 0x9E, CHR 0x88, CHR 0xEB, CHR 0x8A, CHR 0x94, CHR 0xEC, CHR 0xA7, CHR 0x80] @ '' '' @ [CHR 0xEC, CHR 0x97, CHR 0xAC, CHR 0xEB, CHR 0xB6, CHR 0x80, CHR 0xEC, CHR 0x9E, CHR 0x85, CHR 0xEB, CHR 0x8B, CHR 0x88, CHR 0xEB, CHR 0x8B, CHR 0xA4] @ ''.'',
     ''    '' @ [CHR 0xEC, CHR 0x9C, CHR 0xA0, CHR 0xEB, CHR 0xA3, CHR 0x8C] @ '' '' @ [CHR 0xED, CHR 0x94, CHR 0x84, CHR 0xEB, CHR 0xA1, CHR 0x9C, CHR 0xEA, CHR 0xB7, CHR 0xB8, CHR 0xEB, CHR 0x9E, CHR 0xA8] @ '' '' @ [CHR 0xEC, CHR 0x97, CHR 0xAC, CHR 0xEB, CHR 0xB6, CHR 0x80] @ '': '' @ [CHR 0xED, CHR 0x94, CHR 0x84, CHR 0xEB, CHR 0xA1, CHR 0x9C, CHR 0xEA, CHR 0xB7, CHR 0xB8, CHR 0xEB, CHR 0x9E, CHR 0xA8, CHR 0xEC, CHR 0x9D, CHR 0xB4] @ '' '' @ [CHR 0xEC, CHR 0x9C, CHR 0xA0, CHR 0xEB, CHR 0xA3, CHR 0x8C, CHR 0xEC, CHR 0x9D, CHR 0xB8, CHR 0xEC, CHR 0xA7, CHR 0x80] @ '' '' @ [CHR 0xEC, CHR 0x97, CHR 0xAC, CHR 0xEB, CHR 0xB6, CHR 0x80, CHR 0xEC, CHR 0x9E, CHR 0x85, CHR 0xEB, CHR 0x8B, CHR 0x88, CHR 0xEB, CHR 0x8B, CHR 0xA4] @ ''. '' @ [CHR 0xEC, CHR 0x9C, CHR 0xA0, CHR 0xEB, CHR 0xA3, CHR 0x8C, CHR 0xEC, CHR 0x9D, CHR 0xB8] @ '' '' @ [CHR 0xEA, CHR 0xB2, CHR 0xBD, CHR 0xEC, CHR 0x9A, CHR 0xB0] @ '', '' @ [CHR 0xEC, CHR 0xB0, CHR 0xB8, CHR 0xEA, CHR 0xB0, CHR 0x80, CHR 0xEB, CHR 0xB9, CHR 0x84, CHR 0xEA, CHR 0xB0, CHR 0x80] @ '' '' @ [CHR 0xED, CHR 0x95, CHR 0x84, CHR 0xEC, CHR 0x9A, CHR 0x94, CHR 0xED, CHR 0x95, CHR 0xA9, CHR 0xEB, CHR 0x8B, CHR 0x88, CHR 0xEB, CHR 0x8B, CHR 0xA4] @ ''.'',
     ''    '' @ [CHR 0xEC, CHR 0x84, CHR 0xA0, CHR 0xEC, CHR 0xB0, CHR 0xA9, CHR 0xEC, CHR 0x88, CHR 0x9C] @ '' '' @ [CHR 0xEC, CHR 0x97, CHR 0xAC, CHR 0xEB, CHR 0xB6, CHR 0x80] @ '': '' @ [CHR 0xED, CHR 0x94, CHR 0x84, CHR 0xEB, CHR 0xA1, CHR 0x9C, CHR 0xEA, CHR 0xB7, CHR 0xB8, CHR 0xEB, CHR 0x9E, CHR 0xA8, CHR 0xEC, CHR 0x9D, CHR 0x84] @ '' '' @ [CHR 0xEC, CHR 0xA7, CHR 0x80, CHR 0xEC, CHR 0x9B, CHR 0x90, CHR 0xED, CHR 0x95, CHR 0xA0] @ '' '' @ [CHR 0xEB, CHR 0x95, CHR 0x8C] @ '' '' @ [CHR 0xEC, CHR 0x84, CHR 0xA0, CHR 0xEC, CHR 0xB0, CHR 0xA9, CHR 0xEC, CHR 0x88, CHR 0x9C, CHR 0xEC, CHR 0x9D, CHR 0xB8, CHR 0xEC, CHR 0xA7, CHR 0x80] @ '' '' @ [CHR 0xED, CHR 0x99, CHR 0x95, CHR 0xEC, CHR 0x9D, CHR 0xB8, CHR 0xED, CHR 0x95, CHR 0xA9, CHR 0xEB, CHR 0x8B, CHR 0x88, CHR 0xEB, CHR 0x8B, CHR 0xA4] @ ''.'',
     ''    '' @ [CHR 0xEC, CHR 0xA0, CHR 0x84, CHR 0xEC, CHR 0x95, CHR 0xA1] @ '' '' @ [CHR 0xEC, CHR 0xA7, CHR 0x80, CHR 0xEC, CHR 0x9B, CHR 0x90] @ '' '' @ [CHR 0xEC, CHR 0x97, CHR 0xAC, CHR 0xEB, CHR 0xB6, CHR 0x80] @ '': '' @ [CHR 0xED, CHR 0x94, CHR 0x84, CHR 0xEB, CHR 0xA1, CHR 0x9C, CHR 0xEA, CHR 0xB7, CHR 0xB8, CHR 0xEB, CHR 0x9E, CHR 0xA8, CHR 0xEC, CHR 0x9D, CHR 0x84] @ '' '' @ [CHR 0xEC, CHR 0xA0, CHR 0x84, CHR 0xEC, CHR 0x95, CHR 0xA1] @ '' '' @ [CHR 0xEC, CHR 0xA7, CHR 0x80, CHR 0xEC, CHR 0x9B, CHR 0x90, CHR 0xED, CHR 0x95, CHR 0x98, CHR 0xEB, CHR 0x8A, CHR 0x94, CHR 0xEC, CHR 0xA7, CHR 0x80] @ '' '' @ [CHR 0xEC, CHR 0x97, CHR 0xAC, CHR 0xEB, CHR 0xB6, CHR 0x80, CHR 0xEC, CHR 0x9E, CHR 0x85, CHR 0xEB, CHR 0x8B, CHR 0x88, CHR 0xEB, CHR 0x8B, CHR 0xA4] @ ''. '' @ [CHR 0xEC, CHR 0xA7, CHR 0x80, CHR 0xEC, CHR 0x9B, CHR 0x90, CHR 0xEA, CHR 0xB8, CHR 0x88] @ '' '' @ [CHR 0xEB, CHR 0x86, CHR 0x92, CHR 0xEC, CHR 0x9D, CHR 0x80] @ '' '' @ [CHR 0xEC, CHR 0x88, CHR 0x9C, CHR 0xEC, CHR 0x9D, CHR 0x84] @ '' '' @ [CHR 0xEC, CHR 0xA7, CHR 0x88, CHR 0xEB, CHR 0xAC, CHR 0xB8, CHR 0xED, CHR 0x95, CHR 0xA0] @ '' '' @ [CHR 0xEB, CHR 0x95, CHR 0x8C] @ '' '' @ [CHR 0xED, CHR 0x95, CHR 0xAD, CHR 0xEC, CHR 0x83, CHR 0x81] @ '' '' @ [CHR 0xEC, CHR 0xA0, CHR 0x84, CHR 0xEC, CHR 0x95, CHR 0xA1] @ '' '' @ [CHR 0xEC, CHR 0xA7, CHR 0x80, CHR 0xEC, CHR 0x9B, CHR 0x90, CHR 0xEC, CHR 0x9D, CHR 0xB4] @ '' '' @ [CHR 0xEC, CHR 0x9A, CHR 0xB0, CHR 0xEC, CHR 0x84, CHR 0xA0, CHR 0xED, CHR 0x95, CHR 0xA9, CHR 0xEB, CHR 0x8B, CHR 0x88, CHR 0xEB, CHR 0x8B, CHR 0xA4] @ ''.'',
     ''   '',
     ''    #'' @ [CHR 0xEB, CHR 0x8B, CHR 0xB5, CHR 0xEB, CHR 0xB3, CHR 0x80] @ '' '' @ [CHR 0xED, CHR 0x98, CHR 0x95, CHR 0xEC, CHR 0x8B, CHR 0x9D] @ '':'',
     '''',
     ''    - 1'' @ [CHR 0xEB, CHR 0xB2, CHR 0x88] @ '' '' @ [CHR 0xED, CHR 0x94, CHR 0x84, CHR 0xEB, CHR 0xA1, CHR 0x9C, CHR 0xEA, CHR 0xB7, CHR 0xB8, CHR 0xEB, CHR 0x9E, CHR 0xA8],
     '''',
     ''      - '' @ [CHR 0xED, CHR 0x94, CHR 0x84, CHR 0xEB, CHR 0xA1, CHR 0x9C, CHR 0xEA, CHR 0xB7, CHR 0xB8, CHR 0xEB, CHR 0x9E, CHR 0xA8] @ '' '' @ [CHR 0xEC, CHR 0xA0, CHR 0x9C, CHR 0xEB, CHR 0xAA, CHR 0xA9] @ '': 00 '' @ [CHR 0xED, CHR 0x95, CHR 0x9C, CHR 0xEB, CHR 0x8B, CHR 0xAC, CHR 0xEC, CHR 0x82, CHR 0xB4, CHR 0xEA, CHR 0xB8, CHR 0xB0],
     '''',
     ''      - '' @ [CHR 0xED, CHR 0x94, CHR 0x84, CHR 0xEB, CHR 0xA1, CHR 0x9C, CHR 0xEA, CHR 0xB7, CHR 0xB8, CHR 0xEB, CHR 0x9E, CHR 0xA8] @ '' '' @ [CHR 0xEB, CHR 0x82, CHR 0xB4, CHR 0xEC, CHR 0x9A, CHR 0xA9] @ '': 00'' @ [CHR 0xEC, CHR 0x97, CHR 0x90, CHR 0xEC, CHR 0x84, CHR 0x9C] @ '' '' @ [CHR 0xED, CHR 0x95, CHR 0x9C, CHR 0xEB, CHR 0x8B, CHR 0xAC, CHR 0xEC, CHR 0x82, CHR 0xB4, CHR 0xEA, CHR 0xB8, CHR 0xB0, CHR 0xEB, CHR 0xA5, CHR 0xBC] @ '' '' @ [CHR 0xED, CHR 0x95, CHR 0x98, CHR 0xEB, CHR 0x8A, CHR 0x94] @ '' '' @ [CHR 0xED, CHR 0x94, CHR 0x84, CHR 0xEB, CHR 0xA1, CHR 0x9C, CHR 0xEA, CHR 0xB7, CHR 0xB8, CHR 0xEB, CHR 0x9E, CHR 0xA8, CHR 0xEC, CHR 0x9E, CHR 0x85, CHR 0xEB, CHR 0x8B, CHR 0x88, CHR 0xEB, CHR 0x8B, CHR 0xA4] @ ''. '' @ [CHR 0xEC, CHR 0x88, CHR 0x99, CHR 0xEB, CHR 0xB0, CHR 0x95, CHR 0xEB, CHR 0xB9, CHR 0x84, CHR 0xEA, CHR 0xB0, CHR 0x80] @ '' '' @ [CHR 0xEC, CHR 0xA7, CHR 0x80, CHR 0xEC, CHR 0x9B, CHR 0x90, CHR 0xEB, CHR 0x90, CHR 0xA9, CHR 0xEB, CHR 0x8B, CHR 0x88, CHR 0xEB, CHR 0x8B, CHR 0xA4] @ ''.'',
     '''',
     ''      - '' @ [CHR 0xED, CHR 0x99, CHR 0x9C, CHR 0xEB, CHR 0x8F, CHR 0x99] @ '' '' @ [CHR 0xEC, CHR 0x8B, CHR 0x9C, CHR 0xEC, CHR 0x9E, CHR 0x91] @ '' '' @ [CHR 0xEC, CHR 0x8B, CHR 0x9C, CHR 0xEA, CHR 0xB0, CHR 0x84] @ '': 2024-01-26'',
     '''',
     ''      - '' @ [CHR 0xED, CHR 0x99, CHR 0x9C, CHR 0xEB, CHR 0x8F, CHR 0x99] @ '' '' @ [CHR 0xEC, CHR 0xA2, CHR 0x85, CHR 0xEB, CHR 0xA3, CHR 0x8C] @ '' '' @ [CHR 0xEC, CHR 0x8B, CHR 0x9C, CHR 0xEA, CHR 0xB0, CHR 0x84] @ '': 2024-02-10'',
     '''',
     ''      - '' @ [CHR 0xEA, CHR 0xB3, CHR 0xB5, CHR 0xEA, CHR 0xB3, CHR 0xA0] @ ''('' @ [CHR 0xEC, CHR 0xA7, CHR 0x80, CHR 0xEC, CHR 0x9B, CHR 0x90] @ '') '' @ [CHR 0xEC, CHR 0x8B, CHR 0x9C, CHR 0xEC, CHR 0x9E, CHR 0x91] @ '' '' @ [CHR 0xEC, CHR 0x8B, CHR 0x9C, CHR 0xEA, CHR 0xB0, CHR 0x84] @ '': 2024-01-01'',
     '''',
     ''      - '' @ [CHR 0xEA, CHR 0xB3, CHR 0xB5, CHR 0xEA, CHR 0xB3, CHR 0xA0] @ ''('' @ [CHR 0xEC, CHR 0xA7, CHR 0x80, CHR 0xEC, CHR 0x9B, CHR 0x90] @ '') '' @ [CHR 0xEB, CHR 0xA7, CHR 0x88, CHR 0xEA, CHR 0xB0, CHR 0x90] @ '' '' @ [CHR 0xEC, CHR 0x8B, CHR 0x9C, CHR 0xEA, CHR 0xB0, CHR 0x84] @ '': 2024-01-10'',
     '''',
     ''      - '' @ [CHR 0xED, CHR 0x95, CHR 0x9C, CHR 0xEB, CHR 0x8B, CHR 0xAC, CHR 0xEC, CHR 0x82, CHR 0xB4, CHR 0xEB, CHR 0x9F, CHR 0xAC] @ '' '' @ [CHR 0xEB, CHR 0xA7, CHR 0x81, CHR 0xED, CHR 0x81, CHR 0xAC] @ '': https://www.monthler.kr/programs/12'',
     '''',
     ''    ---'',
     '''',
     ''    - 2'' @ [CHR 0xEB, CHR 0xB2, CHR 0x88] @ '' '' @ [CHR 0xED, CHR 0x94, CHR 0x84, CHR 0xEB, CHR 0xA1, CHR 0x9C, CHR 0xEA, CHR 0xB7, CHR 0xB8, CHR 0xEB, CHR 0x9E, CHR 0xA8],
     '''',
     ''      - '' @ [CHR 0xED, CHR 0x94, CHR 0x84, CHR 0xEB, CHR 0xA1, CHR 0x9C, CHR 0xEA, CHR 0xB7, CHR 0xB8, CHR 0xEB, CHR 0x9E, CHR 0xA8] @ '' '' @ [CHR 0xEC, CHR 0xA0, CHR 0x9C, CHR 0xEB, CHR 0xAA, CHR 0xA9] @ '': 2024 00 '' @ [CHR 0xEC, CHR 0x8A, CHR 0xA4, CHR 0xED, CHR 0x83, CHR 0xAC, CHR 0xED, CHR 0x94, CHR 0x84] @ '' '' @ [CHR 0xED, CHR 0x88, CHR 0xAC, CHR 0xEC, CHR 0x96, CHR 0xB4],
     '''',
     ''      - '' @ [CHR 0xED, CHR 0x94, CHR 0x84, CHR 0xEB, CHR 0xA1, CHR 0x9C, CHR 0xEA, CHR 0xB7, CHR 0xB8, CHR 0xEB, CHR 0x9E, CHR 0xA8] @ '' '' @ [CHR 0xEB, CHR 0x82, CHR 0xB4, CHR 0xEC, CHR 0x9A, CHR 0xA9] @ '': 00'' @ [CHR 0xEC, CHR 0x97, CHR 0x90, CHR 0xEC, CHR 0x84, CHR 0x9C] @ '' '' @ [CHR 0xEC, CHR 0x8A, CHR 0xA4, CHR 0xED, CHR 0x83, CHR 0xAC, CHR 0xED, CHR 0x94, CHR 0x84] @ '' '' @ [CHR 0xED, CHR 0x88, CHR 0xAC, CHR 0xEC, CHR 0x96, CHR 0xB4, CHR 0xEB, CHR 0xA5, CHR 0xBC] @ '' '' @ [CHR 0xED, CHR 0x95, CHR 0x98, CHR 0xEA, CHR 0xB3, CHR 0xA0] @ '' '' @ [CHR 0xEC, CHR 0xA7, CHR 0x80, CHR 0xEC, CHR 0x9B, CHR 0x90, CHR 0xEA, CHR 0xB8, CHR 0x88, CHR 0xEC, CHR 0x9D, CHR 0x84] @ '' '' @ [CHR 0xEB, CHR 0xB0, CHR 0x9B, CHR 0xEC, CHR 0x9C, CHR 0xBC, CHR 0xEC, CHR 0x84, CHR 0xB8, CHR 0xEC, CHR 0x9A, CHR 0x94] @ ''.'',
     '''',
     ''      - '' @ [CHR 0xED, CHR 0x99, CHR 0x9C, CHR 0xEB, CHR 0x8F, CHR 0x99] @ '' '' @ [CHR 0xEC, CHR 0x8B, CHR 0x9C, CHR 0xEC, CHR 0x9E, CHR 0x91] @ '' '' @ [CHR 0xEC, CHR 0x8B, CHR 0x9C, CHR 0xEA, CHR 0xB0, CHR 0x84] @ '': 2024-03-01'',
     '''',
     ''      - '' @ [CHR 0xED, CHR 0x99, CHR 0x9C, CHR 0xEB, CHR 0x8F, CHR 0x99] @ '' '' @ [CHR 0xEC, CHR 0xA2, CHR 0x85, CHR 0xEB, CHR 0xA3, CHR 0x8C] @ '' '' @ [CHR 0xEC, CHR 0x8B, CHR 0x9C, CHR 0xEA, CHR 0xB0, CHR 0x84] @ '': 2024-04-20'',
     '''',
     ''      - '' @ [CHR 0xEA, CHR 0xB3, CHR 0xB5, CHR 0xEA, CHR 0xB3, CHR 0xA0] @ ''('' @ [CHR 0xEC, CHR 0xA7, CHR 0x80, CHR 0xEC, CHR 0x9B, CHR 0x90] @ '') '' @ [CHR 0xEC, CHR 0x8B, CHR 0x9C, CHR 0xEC, CHR 0x9E, CHR 0x91] @ '' '' @ [CHR 0xEC, CHR 0x8B, CHR 0x9C, CHR 0xEA, CHR 0xB0, CHR 0x84] @ '': 2024-02-01'',
     '''',
     ''      - '' @ [CHR 0xEA, CHR 0xB3, CHR 0xB5, CHR 0xEA, CHR 0xB3, CHR 0xA0] @ ''('' @ [CHR 0xEC, CHR 0xA7, CHR 0x80, CHR 0xEC, CHR 0x9B, CHR 0x90] @ '') '' @ [CHR 0xEB, CHR 0xA7, CHR 0x88, CHR 0xEA, CHR 0xB0, CHR 0x90] @ '' '' @ [CHR 0xEC, CHR 0x8B, CHR 0x9C, CHR 0xEA, CHR 0xB0, CHR 0x84] @ '': 2024-02-15'',
     '''',
     ''      - '' @ [CHR 0xED, CHR 0x95, CHR 0x9C, CHR 0xEB, CHR 0x8B, CHR 0xAC, CHR 0xEC, CHR 0x82, CHR 0xB4, CHR 0xEB, CHR 0x9F, CHR 0xAC] @ '' '' @ [CHR 0xEB, CHR 0xA7, CHR 0x81, CHR 0xED, CHR 0x81, CHR 0xAC] @ '': https://www.monthler.kr/programs/672'',
     '''',
     ''    ---'',
     '''',
     ''    - 3'' @ [CHR 0xEB, CHR 0xB2, CHR 0x88] @ '' '' @ [CHR 0xED, CHR 0x94, CHR 0x84, CHR 0xEB, CHR 0xA1, CHR 0x9C, CHR 0xEA, CHR 0xB7, CHR 0xB8, CHR 0xEB, CHR 0x9E, CHR 0xA8],
     '''',
     ''      - '' @ [CHR 0xED, CHR 0x94, CHR 0x84, CHR 0xEB, CHR 0xA1, CHR 0x9C, CHR 0xEA, CHR 0xB7, CHR 0xB8, CHR 0xEB, CHR 0x9E, CHR 0xA8] @ '' '' @ [CHR 0xEC, CHR 0xA0, CHR 0x9C, CHR 0xEB, CHR 0xAA, CHR 0xA9] @ '': 00'' @ [CHR 0xEC, CHR 0x97, CHR 0x90, CHR 0xEC, CHR 0x84, CHR 0x9C] @ '' '' @ [CHR 0xEC, CHR 0xBA, CHR 0xA0, CHR 0xED, CHR 0x95, CHR 0x91, CHR 0xED, CHR 0x95, CHR 0x98, CHR 0xEC, CHR 0x9E, CHR 0x90],
     '''',
     ''      - '' @ [CHR 0xED, CHR 0x94, CHR 0x84, CHR 0xEB, CHR 0xA1, CHR 0x9C, CHR 0xEA, CHR 0xB7, CHR 0xB8, CHR 0xEB, CHR 0x9E, CHR 0xA8] @ '' '' @ [CHR 0xEB, CHR 0x82, CHR 0xB4, CHR 0xEC, CHR 0x9A, CHR 0xA9] @ '': 00'' @ [CHR 0xEC, CHR 0x97, CHR 0x90, CHR 0xEC, CHR 0x84, CHR 0x9C] @ '' '' @ [CHR 0xEC, CHR 0xBA, CHR 0xA0, CHR 0xED, CHR 0x95, CHR 0x91, CHR 0xEC, CHR 0x9D, CHR 0x84] @ '' '' @ [CHR 0xED, CHR 0x95, CHR 0x98, CHR 0xEA, CHR 0xB3, CHR 0xA0] @ '' '' @ [CHR 0xEC, CHR 0xA7, CHR 0x80, CHR 0xEC, CHR 0x9B, CHR 0x90, CHR 0xEA, CHR 0xB8, CHR 0x88, CHR 0xEC, CHR 0x9D, CHR 0x84] @ '' '' @ [CHR 0xEB, CHR 0xB0, CHR 0x9B, CHR 0xEC, CHR 0x9C, CHR 0xBC, CHR 0xEC, CHR 0x84, CHR 0xB8, CHR 0xEC, CHR 0x9A, CHR 0x94] @ ''.'',
     '''',
     ''      - '' @ [CHR 0xED, CHR 0x99, CHR 0x9C, CHR 0xEB, CHR 0x8F, CHR 0x99] @ '' '' @ [CHR 0xEC, CHR 0x8B, CHR 0x9C, CHR 0xEC, CHR 0x9E, CHR 0x91] @ '' '' @ [CHR 0xEC, CHR 0x8B, CHR 0x9C, CHR 0xEA, CHR 0xB0, CHR 0x84] @ '': 2024-05-01'',
     '''',
     ''      - '' @ [CHR 0xED, CHR 0x99, CHR 0x9C, CHR 0xEB, CHR 0x8F, CHR 0x99] @ '' '' @ [CHR 0xEC, CHR 0xA2, CHR 0x85, CHR 0xEB, CHR 0xA3, CHR 0x8C] @ '' '' @ [CHR 0xEC, CHR 0x8B, CHR 0x9C, CHR 0xEA, CHR 0xB0, CHR 0x84] @ '': 2024-05-10'',
     '''',
     ''      - '' @ [CHR 0xEA, CHR 0xB3, CHR 0xB5, CHR 0xEA, CHR 0xB3, CHR 0xA0] @ ''('' @ [CHR 0xEC, CHR 0xA7, CHR 0x80, CHR 0xEC, CHR 0x9B, CHR 0x90] @ '') '' @ [CHR 0xEC, CHR 0x8B, CHR 0x9C, CHR 0xEC, CHR 0x9E, CHR 0x91] @ '' '' @ [CHR 0xEC, CHR 0x8B, CHR 0x9C, CHR 0xEA, CHR 0xB0, CHR 0x84] @ '': 2024-04-01'',
     '''',
     ''      - '' @ [CHR 0xEA, CHR 0xB3, CHR 0xB5, CHR 0xEA, CHR 0xB3, CHR 0xA0] @ ''('' @ [CHR 0xEC, CHR 0xA7, CHR 0x80, CHR 0xEC, CHR 0x9B, CHR 0x90] @ '') '' @ [CHR 0xEB, CHR 0xA7, CHR 0x88, CHR 0xEA, CHR 0xB0, CHR 0x90] @ '' '' @ [CHR 0xEC, CHR 0x8B, CHR 0x9C, CHR 0xEA, CHR 0xB0, CHR 0x84] @ '': 2024-04-15'',
     '''',
     ''      - '' @ [CHR 0xED, CHR 0x95, CHR 0x9C, CHR 0xEB, CHR 0x8B, CHR 0xAC, CHR 0xEC, CHR 0x82, CHR 0xB4, CHR 0xEB, CHR 0x9F, CHR 0xAC] @ '' '' @ [CHR 0xEB, CHR 0xA7, CHR 0x81, CHR 0xED, CHR 0x81, CHR 0xAC] @ '': https://www.monthler.kr/programs/45'',
     '''',
     ''   '',
     ''    #'' @ [CHR 0xEC, CHR 0xB0, CHR 0xB8, CHR 0xEA, CHR 0xB3, CHR 0xA0, CHR 0xED, CHR 0x95, CHR 0xA0] @ '' '' @ [CHR 0xED, CHR 0x94, CHR 0x84, CHR 0xEB, CHR 0xA1, CHR 0x9C, CHR 0xEA, CHR 0xB7, CHR 0xB8, CHR 0xEB, CHR 0x9E, CHR 0xA8] @ '' '' @ [CHR 0xEC, CHR 0xA0, CHR 0x95, CHR 0xEB, CHR 0xB3, CHR 0xB4] @ '':'',
     ''    {context}'']"

definition qa_system_prompt :: string where
  "qa_system_prompt = py_join nl qa_system_prompt_lines"

text \<open>
  The two chat prompts (lines 63--69 and 136--142). The first is built from the system
  prompt after \<open>.format(today=today)\<close>; a failure of that call would abort
  \<open>initialize_components\<close>.
\<close>

text \<open>The text of the answer prompt before its one field \<open>{context}\<close>.\<close>

definition qa_system_prompt_head :: string where
  "qa_system_prompt_head = py_join nl (butlast qa_system_prompt_lines) @ nl @ ''    ''"

definition contextualize_q_prompt :: "string \<Rightarrow> py_error + chat_prompt" where
  "contextualize_q_prompt today =
     (case py_format contextualize_q_system_prompt [''today'' \<mapsto> today] of
        Inl e \<Rightarrow> Inl e
      | Inr sys \<Rightarrow> Inr [SystemTpl sys, Placeholder ''history'', HumanTpl ''{input}''])"

definition qa_prompt :: chat_prompt where
  "qa_prompt = [SystemTpl qa_system_prompt, Placeholder ''history'', HumanTpl ''{input}'']"

section \<open>Lemmas: the format-string scanner\<close>

declare scan_fmt.simps(2) [simp del] render_pieces.simps(3) [simp del]

lemma emit_emit: "emit a (emit b r) = emit (a @ b) r"
  by (simp add: emit_def split: sum.splits)

lemma emit_Nil [simp]: "emit [] r = r"
  by (simp add: emit_def split: sum.splits)

lemma name_scan_plain:
  "brace_free n \<Longrightarrow> CHR ''['' \<notin> set n \<Longrightarrow> CHR '':'' \<notin> set n \<Longrightarrow> CHR ''!'' \<notin> set n \<Longrightarrow>
     name_scan acc (n @ rbrace # rest) = Inr (rev acc @ n, rbrace, rest)"
  by (induction n arbitrary: acc) (auto simp: brace_free_def)

text \<open>Literal text without braces is one literal piece per byte.\<close>

lemma scan_fmt_lits:
  "brace_free s \<Longrightarrow> scan_fmt (s @ rest) = (map PLit s @ fst (scan_fmt rest), snd (scan_fmt rest))"
proof (induction s)
  case Nil
  then show ?case by simp
next
  case (Cons c s)
  then have "c \<noteq> lbrace" "c \<noteq> rbrace" "brace_free s" by (auto simp: brace_free_def)
  with Cons.IH show ?case by (simp add: scan_fmt.simps cons_piece_def)
qed

lemma scan_fmt_brace_free: "brace_free s \<Longrightarrow> scan_fmt s = (map PLit s, None)"
  using scan_fmt_lits [of s "[]"] by simp

lemma parse_field_plain:
  "plain_name n \<Longrightarrow> parse_field (n @ rbrace # rest) = Inr ((n, None, []), rest)"
  using name_scan_plain [of n "[]" rest] by (simp add: plain_name_def parse_field_def)

text \<open>A field \<open>{n}\<close> with a plain keyword name is one field piece.\<close>

lemma scan_fmt_field:
  "plain_name n \<Longrightarrow>
     scan_fmt (lbrace # n @ rbrace # rest) = (PField (n, None, []) # fst (scan_fmt rest), snd (scan_fmt rest))"
proof -
  assume p: "plain_name n"
  then have "n \<noteq> []" "lbrace \<notin> set n" by (auto simp: plain_name_def brace_free_def)
  then have "\<not> (n @ rbrace # rest \<noteq> [] \<and> hd (n @ rbrace # rest) = lbrace)" by (cases n) auto
  then show ?thesis using parse_field_plain [OF p] by (simp add: scan_fmt.simps cons_piece_def)
qed

lemma render_lits:
  "render_pieces f m kw (map PLit s @ ps) err = emit s (render_pieces f m kw ps err)"
  by (induction s) (simp_all add: emit_emit)

lemma render_brace_free: "render_pieces f m kw (map PLit s) None = Inr s"
  using render_lits [of f m kw s "[]" None] by (simp add: emit_def)

lemma field_value_plain:
  "plain_name n \<Longrightarrow> field_value f m kw (n, None, []) = (case kw n of None \<Rightarrow> Inl KeyError | Some v \<Rightarrow> Inr (v, m))"
proof -
  assume p: "plain_name n"
  then have ne: "n \<noteq> []" and gi: "get_integer n = Inr None" and nd: "\<not> str_isdigit n"
    and nodot: "CHR ''.'' \<notin> set n" and nobr: "CHR ''['' \<notin> set n"
    by (simp_all add: plain_name_def)
  have t: "takeWhile (\<lambda>x. x \<noteq> CHR ''.'' \<and> x \<noteq> CHR ''['') n = n"
    using nodot nobr by (auto simp: takeWhile_eq_all_conv)
  have d: "dropWhile (\<lambda>x. x \<noteq> CHR ''.'' \<and> x \<noteq> CHR ''['') n = []"
    using nodot nobr by (auto simp: dropWhile_eq_Nil_conv)
  have cs: "convert_spec None [] v = Inr v" for v by (simp add: convert_spec_def)
  show ?thesis
    by (cases f; cases "kw n") (simp_all only: field_value_def Let_def t d gi ne nd cs prod.case sum.case
        option.case access_chain.simps(1) formatter.distinct simp_thms if_True if_False)
qed

lemma render_field:
  "plain_name n \<Longrightarrow>
     render_pieces f m kw (PField (n, None, []) # ps) err =
       (case kw n of None \<Rightarrow> Inl KeyError | Some v \<Rightarrow> emit v (render_pieces f m kw ps err))"
  by (simp add: field_value_plain render_pieces.simps(3) split: option.split)

lemma brace_free_Nil [simp]: "brace_free []"
  by (simp add: brace_free_def)

lemma brace_free_append [simp]: "brace_free (xs @ ys) = (brace_free xs \<and> brace_free ys)"
  by (auto simp: brace_free_def)

lemma field_names_lits: "field_names (map PLit s @ ps) = field_names ps"
  by (induction s) simp_all

lemma field_names_lits_only: "field_names (map PLit s) = []"
  by (induction s) simp_all

lemma parse_fmt_brace_free: "brace_free s \<Longrightarrow> parse_fmt s = Inr []"
  by (simp add: parse_fmt_def scan_fmt_brace_free field_names_lits_only)

text \<open>A template of brace-free text around one plain field \<open>{n}\<close>: its only variable is
  \<open>n\<close>, and either formatter fills it with the value of \<open>n\<close>.\<close>

lemma scan_fmt_one_field:
  "brace_free a \<Longrightarrow> plain_name n \<Longrightarrow> brace_free b \<Longrightarrow>
     scan_fmt (a @ lbrace # n @ rbrace # b) = (map PLit a @ PField (n, None, []) # map PLit b, None)"
  by (simp only: scan_fmt_lits scan_fmt_field scan_fmt_brace_free fst_conv snd_conv)

lemma parse_fmt_one_field:
  "brace_free a \<Longrightarrow> plain_name n \<Longrightarrow> brace_free b \<Longrightarrow> parse_fmt (a @ lbrace # n @ rbrace # b) = Inr [n]"
  by (simp add: parse_fmt_def scan_fmt_one_field field_names_lits field_names_lits_only)

section \<open>The prompts of initialize_components: lemmas\<close>

lemma qa_system_prompt_split:
  "qa_system_prompt = qa_system_prompt_head @ lbrace # ''context'' @ [rbrace]"
  by (simp add: qa_system_prompt_def qa_system_prompt_head_def qa_system_prompt_lines_def)

lemma qa_head_brace_free: "brace_free qa_system_prompt_head"
  by (simp add: qa_system_prompt_head_def qa_system_prompt_lines_def brace_free_def)

text \<open>The first prompt around its two fields; the offsets count UTF-8 bytes.\<close>

lemma ctx_pieces:
  "\<exists>A B C. contextualize_q_system_prompt = A @ lbrace # ''today'' @ rbrace # B @ lbrace # ''today'' @ rbrace # C \<and>
     brace_free A \<and> brace_free B \<and> brace_free C"
proof -
  let ?s = contextualize_q_system_prompt
  have "?s = take 593 ?s @ lbrace # ''today'' @ rbrace # take 500 (drop 600 ?s) @ lbrace # ''today'' @ rbrace # drop 1107 ?s"
    by (simp add: contextualize_q_system_prompt_def contextualize_q_system_prompt_lines_def)
  moreover have "brace_free (take 593 ?s)" "brace_free (take 500 (drop 600 ?s))" "brace_free (drop 1107 ?s)"
    by (simp_all add: contextualize_q_system_prompt_def contextualize_q_system_prompt_lines_def brace_free_def)
  ultimately show ?thesis by blast
qed

lemma brace_free_nl [simp]: "brace_free nl"
  by (simp add: brace_free_def)

lemma brace_free_today [simp]: "brace_free ''today''" "brace_free ''context''" "brace_free ''input''"
  by (simp_all add: brace_free_def)


lemma plain_name_fields [simp]: "plain_name ''today''" "plain_name ''context''" "plain_name ''input''"
  by (simp_all add: plain_name_def brace_free_def get_integer_def utf8_cont_def utf8_cp_def py_decimal_def
      py_decimal_starts_def str_isdigit_def py_isdigit_def py_digit_ranges_def)

lemma qa_prompt_part_vars: "prompt_part_vars qa_prompt = Inr [''context'', ''history'', ''input'']"
proof -
  have "parse_fmt qa_system_prompt = Inr [''context'']"
    unfolding qa_system_prompt_split
    using parse_fmt_one_field [OF qa_head_brace_free plain_name_fields(2) brace_free_Nil] by simp
  moreover have "parse_fmt (lbrace # ''input'' @ [rbrace]) = Inr [''input'']"
    using parse_fmt_one_field [OF brace_free_Nil plain_name_fields(3) brace_free_Nil] by simp
  ultimately show ?thesis by (simp add: qa_prompt_def)
qed

text \<open>Formatting the first prompt around its two fields, for any value of \<open>today\<close>.\<close>

lemma ctx_format_pieces:
  assumes split: "contextualize_q_system_prompt = A @ lbrace # ''today'' @ rbrace # B @ lbrace # ''today'' @ rbrace # C"
    and bA: "brace_free A" and bB: "brace_free B" and bC: "brace_free C"
  shows "py_format contextualize_q_system_prompt [''today'' \<mapsto> d] = Inr (A @ d @ B @ d @ C)"
proof -
  have sc: "scan_fmt contextualize_q_system_prompt =
      (map PLit A @ PField (''today'', None, []) # map PLit B @ PField (''today'', None, []) # map PLit C, None)"
    unfolding split
    by (simp only: scan_fmt_lits [OF bA] scan_fmt_field [OF plain_name_fields(1)] scan_fmt_lits [OF bB]
        scan_fmt_brace_free [OF bC] fst_conv snd_conv)
  have lk: "[''today'' \<mapsto> d] ''today'' = Some d" by simp
  show ?thesis
    unfolding py_format_def sc
    by (simp only: fst_conv snd_conv render_lits render_field [OF plain_name_fields(1)] render_brace_free
        lk option.case emit_def sum.case)
qed

lemma ctx_format_brace_free:
  assumes d: "brace_free d"
  shows "\<exists>s. py_format contextualize_q_system_prompt [''today'' \<mapsto> d] = Inr s \<and> brace_free s"
proof -
  obtain A B C where split: "contextualize_q_system_prompt = A @ lbrace # ''today'' @ rbrace # B @ lbrace # ''today'' @ rbrace # C"
    and bA: "brace_free A" and bB: "brace_free B" and bC: "brace_free C"
    using ctx_pieces by blast
  have "brace_free (A @ d @ B @ d @ C)"
    using bA bB bC d by (simp only: brace_free_append simp_thms)
  then show ?thesis using ctx_format_pieces [OF split bA bB bC] by blast
qed

text \<open>
  When today's date contains no brace, formatting the question-rewriting system
  prompt succeeds, and the resulting chat prompt asks for exactly the inputs
  \<open>history\<close> and \<open>input\<close>: the date is fixed into the text when the chain is built.
\<close>

lemma contextualize_q_prompt_vars:
  "brace_free today \<Longrightarrow>
     \<exists>p. contextualize_q_prompt today = Inr p \<and> prompt_input_vars p = Inr [''history'', ''input'']"
proof -
  assume d: "brace_free today"
  then obtain s where f: "py_format contextualize_q_system_prompt [''today'' \<mapsto> today] = Inr s"
    and bs: "brace_free s"
    using ctx_format_brace_free by blast
  have i: "parse_fmt ''{input}'' = Inr [''input'']"
    using parse_fmt_one_field [OF brace_free_Nil plain_name_fields(3) brace_free_Nil] by simp
  have "prompt_part_vars [SystemTpl s, Placeholder ''history'', HumanTpl ''{input}''] = Inr [''history'', ''input'']"
    using i parse_fmt_brace_free [OF bs] by simp
  then show ?thesis using f
    by (simp add: contextualize_q_prompt_def prompt_input_vars_def less_char_def less_eq_char_def)
qed

text \<open>
  The answer prompt asks for the inputs \<open>context\<close>, \<open>history\<close> and \<open>input\<close>,
  sorted as LangChain sorts them; \<open>context\<close> is the variable the stuff-documents chain
  fills with the retrieved documents.
\<close>

lemma qa_prompt_vars: "prompt_input_vars qa_prompt = Inr [''context'', ''history'', ''input'']"
  using qa_prompt_part_vars by (simp add: prompt_input_vars_def less_char_def less_eq_char_def)

lemma lc_format_qa_system_prompt:
  "lc_format qa_system_prompt env =
     (case env ''context'' of None \<Rightarrow> Inl KeyError | Some c \<Rightarrow> Inr (qa_system_prompt_head @ c))"
proof -
  have sc: "scan_fmt qa_system_prompt = (map PLit qa_system_prompt_head @ [PField (''context'', None, [])], None)"
    unfolding qa_system_prompt_split
    using scan_fmt_one_field [OF qa_head_brace_free plain_name_fields(2) brace_free_Nil]
    by (simp only: list.map(1))
  show ?thesis
    unfolding lc_format_def sc fst_conv snd_conv render_lits render_field [OF plain_name_fields(2)]
    by (cases "env ''context''") (simp_all add: emit_def)
qed

lemma lc_format_input:
  "lc_format ''{input}'' env = (case env ''input'' of None \<Rightarrow> Inl KeyError | Some v \<Rightarrow> Inr v)"
proof -
  have sc: "scan_fmt ''{input}'' = ([PField (''input'', None, [])], None)"
    using scan_fmt_one_field [OF brace_free_Nil plain_name_fields(3) brace_free_Nil] by simp
  show ?thesis
    unfolding lc_format_def sc fst_conv snd_conv render_field [OF plain_name_fields(3)]
    by (cases "env ''input''") (simp_all add: emit_def)
qed


section \<open>Properties of the program's prompts\<close>

text \<open>
  C14. \<open>contextualize_q_system_prompt.format(today=today)\<close> (line 61) never raises,
  whatever the string \<open>today\<close>: the prompt has exactly two replacement fields, both
  \<open>{today}\<close>, and the call replaces each by \<open>today\<close> verbatim (the value is not scanned
  again) and copies every other byte of the source text, the Korean lines included.
\<close>

theorem contextualize_q_system_prompt_format:
  "\<exists>A B C. contextualize_q_system_prompt = A @ lbrace # ''today'' @ rbrace # B @ lbrace # ''today'' @ rbrace # C \<and>
     brace_free A \<and> brace_free B \<and> brace_free C \<and>
     (\<forall>d. py_format contextualize_q_system_prompt [''today'' \<mapsto> d] = Inr (A @ d @ B @ d @ C))"
proof -
  obtain A B C where split: "contextualize_q_system_prompt = A @ lbrace # ''today'' @ rbrace # B @ lbrace # ''today'' @ rbrace # C"
    and bA: "brace_free A" and bB: "brace_free B" and bC: "brace_free C"
    using ctx_pieces by blast
  show ?thesis using split bA bB bC ctx_format_pieces [OF split bA bB bC] by blast
qed


section \<open>Examples: fields the program's prompts do not use\<close>

text \<open>As CPython 3.11 computes them: a numeric field asks for a positional argument,
  an attribute missing from \<open>str\<close> raises, an empty first part differs between
  \<open>str.format\<close> and \<open>string.Formatter\<close>, an index selects a code point, and
  \<open>Formatter().parse\<close> lists the field names as written.\<close>

lemma py_format_positional: "py_format ''{0}'' [''0'' \<mapsto> ''x''] = Inl IndexError"
  by (simp add: py_format_def scan_fmt.simps parse_field_def cons_piece_def render_pieces.simps field_value_def
      get_integer_def utf8_cont_def py_decimal_def utf8_cp_def py_decimal_starts_def py_ssize_max_def)

lemma py_format_attribute: "py_format ''{a.b}'' [''a'' \<mapsto> ''xy''] = Inl AttributeError"
  by (simp add: py_format_def scan_fmt.simps parse_field_def cons_piece_def render_pieces.simps field_value_def
      get_integer_def utf8_cont_def py_decimal_def utf8_cp_def py_decimal_starts_def str_attributes_def)

lemma format_empty_first:
  "py_format ''{.x}'' [[] \<mapsto> ''E''] = Inl IndexError \<and> lc_format ''{.x}'' [[] \<mapsto> ''E''] = Inl AttributeError"
  by (simp add: py_format_def lc_format_def scan_fmt.simps parse_field_def cons_piece_def render_pieces.simps
      field_value_def get_integer_def utf8_cont_def py_decimal_def utf8_cp_def py_decimal_starts_def str_attributes_def)

lemma py_format_index: "py_format ''{a[1]}'' [''a'' \<mapsto> ''xy''] = Inr ''y''"
  by (simp add: py_format_def scan_fmt.simps parse_field_def cons_piece_def render_pieces.simps field_value_def
      get_integer_def utf8_cont_def py_decimal_def utf8_cp_def py_decimal_starts_def convert_spec_def
      py_ssize_max_def emit_def)

lemma parse_fmt_names: "parse_fmt ''{}{0}{a.b}'' = Inr [[], ''0'', ''a.b'']"
  by (simp add: parse_fmt_def scan_fmt.simps parse_field_def cons_piece_def)

end
