(* ===== verification/Dates.thy ===== *)
theory Dates
  imports Prompts
begin

text \<open>
  Today's date as \<open>initialize_components\<close> writes it into the rewriting prompt:
  \<open>datetime.today().strftime('%Y-%m-%d')\<close> (line 34 of \<^verbatim>\<open>src/main.py\<close>). A date
  is a year, a month and a day; \<open>%Y\<close> is the year in decimal (the C library does not
  pad years below 1000), \<open>%m\<close> and \<open>%d\<close> are two digits with a leading zero.
\<close>

record date =
  year :: nat
  month :: nat
  day :: nat

definition is_leap :: "nat \<Rightarrow> bool" where
  "is_leap y \<longleftrightarrow> (4 dvd y \<and> \<not> 100 dvd y) \<or> 400 dvd y"

definition days_in_month :: "nat \<Rightarrow> nat \<Rightarrow> nat" where
  "days_in_month y m =
     (if m = 2 then (if is_leap y then 29 else 28)
      else if m \<in> {4, 6, 9, 11} then 30 else 31)"

text \<open>The dates \<open>datetime.date\<close> admits: years \<open>1..9999\<close> (\<open>MINYEAR\<close>, \<open>MAXYEAR\<close>).\<close>

definition valid_date :: "date \<Rightarrow> bool" where
  "valid_date d \<longleftrightarrow> 1 \<le> year d \<and> year d \<le> 9999 \<and> 1 \<le> month d \<and> month d \<le> 12 \<and>
     1 \<le> day d \<and> day d \<le> days_in_month (year d) (month d)"

definition digit_char :: "nat \<Rightarrow> char" where
  "digit_char n = ''0123456789'' ! n"

fun digits :: "nat \<Rightarrow> string" where
  "digits n = (if n < 10 then [digit_char n] else digits (n div 10) @ [digit_char (n mod 10)])"

declare digits.simps [simp del]

definition pad2 :: "nat \<Rightarrow> string" where
  "pad2 n = (if n < 10 then CHR ''0'' # digits n else digits n)"

definition strftime_ymd :: "date \<Rightarrow> string" where
  "strftime_ymd d = digits (year d) @ ''-'' @ pad2 (month d) @ ''-'' @ pad2 (day d)"

section \<open>Lemmas\<close>

lemma digit_char_digit: "n < 10 \<Longrightarrow> digit_char n \<in> set ''0123456789''"
  unfolding digit_char_def by (rule nth_mem) simp

lemma digits_digit: "set (digits n) \<subseteq> set ''0123456789''"
proof (induction n rule: digits.induct)
  case (1 n)
  show ?case
  proof (cases "n < 10")
    case True
    then show ?thesis using digit_char_digit [of n] by (subst digits.simps) (simp only: if_True set_simps empty_subsetI insert_subset simp_thms)
  next
    case False
    then show ?thesis using "1" [OF False] digit_char_digit [of "n mod 10"]
      by (subst digits.simps) (simp only: if_False set_append set_simps Un_subset_iff empty_subsetI insert_subset simp_thms)
  qed
qed

lemma digit_set_sub: "set ''0123456789'' \<subseteq> set ''0123456789-''"
  by (simp only: set_simps) blast

lemma pad2_digit: "set (pad2 n) \<subseteq> set ''0123456789''"
proof -
  have z: "CHR ''0'' \<in> set ''0123456789''" by (simp only: set_simps insert_iff simp_thms)
  show ?thesis using digits_digit [of n] z unfolding pad2_def
    by (cases "n < 10") (simp_all only: if_True if_False set_simps insert_subset simp_thms)
qed

lemma strftime_ymd_chars: "set (strftime_ymd d) \<subseteq> set ''0123456789-''"
proof -
  have "set (digits (year d)) \<subseteq> set ''0123456789-''" "set (pad2 (month d)) \<subseteq> set ''0123456789-''"
       "set (pad2 (day d)) \<subseteq> set ''0123456789-''" "set ''-'' \<subseteq> set ''0123456789-''"
    using digits_digit pad2_digit digit_set_sub by (blast, blast, blast, simp)
  then show ?thesis unfolding strftime_ymd_def set_append by blast
qed
lemma brace_free_strftime_ymd: "brace_free (strftime_ymd d)"
proof -
  have "lbrace \<notin> set ''0123456789-''" "rbrace \<notin> set ''0123456789-''" by simp_all
  then show ?thesis using strftime_ymd_chars [of d] unfolding brace_free_def by blast
qed

lemma digits_less_10 [simp]: "n < 10 \<Longrightarrow> digits n = [digit_char n]"
  by (subst digits.simps) simp

lemma digits_ge_10 [simp]: "\<not> n < 10 \<Longrightarrow> digits n = digits (n div 10) @ [digit_char (n mod 10)]"
  by (subst digits.simps) simp

lemma length_digits_pow: "10 ^ k \<le> n \<Longrightarrow> n < 10 ^ Suc k \<Longrightarrow> length (digits n) = Suc k"
proof (induction k arbitrary: n)
  case 0
  then show ?case by simp
next
  case (Suc k)
  have p: "(1::nat) \<le> 10 ^ k" by simp
  have n10: "\<not> n < 10" using Suc.prems(1) p by (simp only: power_Suc)
  have lo: "10 ^ k \<le> n div 10" using Suc.prems(1) by (simp add: less_eq_div_iff_mult_less_eq mult.commute)
  have hi: "n div 10 < 10 ^ Suc k" using Suc.prems(2) by (simp add: div_less_iff_less_mult mult.commute)
  show ?case using Suc.IH [OF lo hi] n10 by simp
qed

lemma length_pad2: "n < 100 \<Longrightarrow> length (pad2 n) = 2"
proof (cases "n < 10")
  case True
  then show ?thesis by (simp add: pad2_def)
next
  case False
  assume "n < 100"
  then have "n < 10 ^ Suc 1" by simp
  moreover have "10 ^ 1 \<le> n" using False by simp
  ultimately have "length (digits n) = Suc 1" by (intro length_digits_pow)
  then show ?thesis using False by (simp add: pad2_def del: digits_ge_10)
qed

lemma days_in_month_le: "days_in_month y m \<le> 31"
  by (simp add: days_in_month_def)

text \<open>
  C18. Every valid date from the year 1000 on is printed in the ten characters
  \<open>YYYY-MM-DD\<close>; the date text contains only digits and dashes, hence no brace that
  \<open>str.format\<close> or a prompt template could read.
\<close>

theorem strftime_ymd_shape:
  "valid_date d \<Longrightarrow> 1000 \<le> year d \<Longrightarrow>
     length (strftime_ymd d) = 10 \<and> set (strftime_ymd d) \<subseteq> set ''0123456789-''"
proof -
  assume v: "valid_date d" and y: "1000 \<le> year d"
  have a: "10 ^ 3 \<le> year d" using y by simp
  have b: "year d < 10 ^ Suc 3" using v by (simp add: valid_date_def)
  have l4: "length (digits (year d)) = 4" using length_digits_pow [OF a b] by simp
  have "month d < 100" "day d < 100"
    using v days_in_month_le [of "year d" "month d"] by (simp_all add: valid_date_def)
  then show ?thesis using l4 length_pad2 [of "month d"] length_pad2 [of "day d"] strftime_ymd_chars [of d]
    by (simp add: strftime_ymd_def del: digits_ge_10)
qed

theorem strftime_ymd_shape_witness:
  "valid_date \<lparr>year = 2024, month = 2, day = 29\<rparr> \<and> strftime_ymd \<lparr>year = 2024, month = 2, day = 29\<rparr> = ''2024-02-29'' \<and>
   length ''2024-02-29'' = 10"
proof -
  have v: "valid_date \<lparr>year = 2024, month = 2, day = 29\<rparr>"
    by (simp add: valid_date_def days_in_month_def is_leap_def)
  have s: "strftime_ymd \<lparr>year = 2024, month = 2, day = 29\<rparr> = ''2024-02-29''"
    by (simp add: strftime_ymd_def pad2_def digit_char_def)
  show ?thesis using strftime_ymd_shape [OF v] v s by simp
qed

end
