(* ===== verification/Config.thy ===== *)
theory Config
  imports Prelude "HOL-Library.AList"
begin

text \<open>
  The configuration \<^verbatim>\<open>src/main.py\<close> reads when its module body runs (lines 16--30):
  \<open>load_dotenv()\<close> copies the variables of the \<^verbatim>\<open>.env\<close> file into \<open>os.environ\<close>
  without overriding a variable that is already set, and the two OpenAI clients built at
  module level, \<open>OpenAIEmbeddings\<close> inside \<open>get_retriever()\<close> (line 29) and
  \<open>ChatOpenAI\<close> (line 30), read the API key from the environment. The process
  environment is a map from variable names to values; the \<^verbatim>\<open>.env\<close> file is given
  as python-dotenv parses and interpolates it, a list of bindings in file order, a line
  without \<open>=\<close> binding the value \<open>None\<close>.
\<close>

type_synonym environ = "string \<rightharpoonup> string"

type_synonym dotenv_bindings = "(string \<times> string option) list"

text \<open>
  \<open>DotEnv.dict()\<close>: the bindings collected into an ordered dictionary; a key bound
  twice keeps its first position and its last value, as \<open>AList.update\<close> does.
\<close>

definition dotenv_dict :: "dotenv_bindings \<Rightarrow> dotenv_bindings" where
  "dotenv_dict binds = foldl (\<lambda>d (k, v). AList.update k v d) [] binds"

text \<open>
  \<open>DotEnv.set_as_environment_variables()\<close> with \<open>override=False\<close>: an empty dictionary
  returns \<open>False\<close>; otherwise each name already in \<open>os.environ\<close> is skipped, each
  value that is not \<open>None\<close> is stored, and the result is \<open>True\<close>.
\<close>

definition set_as_environment_variables :: "dotenv_bindings \<Rightarrow> environ \<Rightarrow> bool \<times> environ" where
  "set_as_environment_variables d env =
     (if d = [] then (False, env)
      else (True, foldl (\<lambda>e (k, v). case e k of
                                       Some _ \<Rightarrow> e
                                     | None \<Rightarrow> (case v of None \<Rightarrow> e | Some x \<Rightarrow> e(k \<mapsto> x))) env d))"

text \<open>\<open>load_dotenv()\<close> (line 16; also line 14 of \<^verbatim>\<open>src/embeddingPrograms.py\<close>).\<close>

definition load_dotenv :: "dotenv_bindings \<Rightarrow> environ \<Rightarrow> bool \<times> environ" where
  "load_dotenv binds env = set_as_environment_variables (dotenv_dict binds) env"

definition openai_api_key :: string where
  "openai_api_key = ''OPENAI_API_KEY''"

text \<open>
  \<open>OpenAIEmbeddings(model='text-embedding-3-small')\<close> as imported from
  \<open>langchain.embeddings\<close>: its validator reads the key with \<open>get_from_dict_or_env\<close>,
  which raises \<open>ValueError\<close> when the variable is absent or empty.
\<close>

definition openai_embeddings_init :: "environ \<Rightarrow> py_error + unit" where
  "openai_embeddings_init env =
     (case env openai_api_key of None \<Rightarrow> Inl ValueError | Some k \<Rightarrow> if k = [] then Inl ValueError else Inr ())"

text \<open>
  \<open>ChatOpenAI(model="gpt-4o-mini")\<close> of \<open>langchain_openai\<close>: the OpenAI client it builds
  raises \<open>OpenAIError\<close> (an \<open>APIError\<close> here) when the variable is absent; an empty
  value is accepted at construction.
\<close>

definition chat_openai_init :: "environ \<Rightarrow> py_error + unit" where
  "chat_openai_init env = (case env openai_api_key of None \<Rightarrow> Inl APIError | Some _ \<Rightarrow> Inr ())"

text \<open>
  The module body before \<open>initialize_components\<close> is defined (lines 16--30):
  load the \<^verbatim>\<open>.env\<close> file, build the retriever (its embedding client) and the chat
  model. \<open>Chroma(persist_directory="./db")\<close> opens the persisted collection and is
  taken to succeed. The environment is returned whether or not a client raised: it is
  the process's and outlives the run.
\<close>

definition main_module :: "dotenv_bindings \<Rightarrow> environ \<Rightarrow> (py_error + unit) \<times> environ" where
  "main_module binds env =
     (let env1 = snd (load_dotenv binds env)
      in ((case openai_embeddings_init env1 of
             Inl e \<Rightarrow> Inl e
           | Inr _ \<Rightarrow> chat_openai_init env1), env1))"

text \<open>
  What python-dotenv promises without \<open>override\<close>: a variable already set keeps its
  value; an unset one takes the last value the \<^verbatim>\<open>.env\<close> file gives it, unless that
  binding has no value.
\<close>

definition dotenv_environ :: "dotenv_bindings \<Rightarrow> environ \<Rightarrow> environ" where
  "dotenv_environ binds env =
     (\<lambda>k. case env k of
            Some v \<Rightarrow> Some v
          | None \<Rightarrow> (case map_of (rev binds) k of Some (Some v) \<Rightarrow> Some v | _ \<Rightarrow> None))"

text \<open>The environment after loading supplies a non-empty API key.\<close>

definition key_supplied :: "dotenv_bindings \<Rightarrow> environ \<Rightarrow> bool" where
  "key_supplied binds env =
     (case dotenv_environ binds env openai_api_key of Some k \<Rightarrow> k \<noteq> [] | None \<Rightarrow> False)"

section \<open>Lemmas\<close>

lemma dotenv_dict_snoc:
  "dotenv_dict (binds @ [(k, v)]) = AList.update k v (dotenv_dict binds)"
  by (simp add: dotenv_dict_def)

lemma map_of_dotenv_dict: "map_of (dotenv_dict binds) = map_of (rev binds)"
proof (induction binds rule: rev_induct)
  case Nil
  then show ?case by (simp add: dotenv_dict_def)
next
  case (snoc b binds)
  then show ?case by (cases b) (simp add: dotenv_dict_snoc update_conv')
qed

lemma distinct_dotenv_dict: "distinct (map fst (dotenv_dict binds))"
  by (induction binds rule: rev_induct) (auto simp: dotenv_dict_def distinct_update)

lemma dotenv_dict_Nil_iff: "dotenv_dict binds = [] \<longleftrightarrow> binds = []"
proof -
  have "dom (map_of (dotenv_dict binds)) = dom (map_of (rev binds))" by (simp add: map_of_dotenv_dict)
  then show ?thesis by (auto simp: dom_map_of_conv_image_fst)
qed

text \<open>Over a dictionary with distinct keys the loop of \<open>set_as_environment_variables\<close>
  sets every unset key to its value.\<close>

lemma set_env_loop:
  "distinct (map fst d) \<Longrightarrow>
   foldl (\<lambda>e (k, v). case e k of Some _ \<Rightarrow> e | None \<Rightarrow> (case v of None \<Rightarrow> e | Some x \<Rightarrow> e(k \<mapsto> x))) env d =
   (\<lambda>k. case env k of Some v \<Rightarrow> Some v
        | None \<Rightarrow> (case map_of d k of Some (Some v) \<Rightarrow> Some v | _ \<Rightarrow> None))"
proof (induction d arbitrary: env)
  case Nil
  then show ?case by (auto split: option.split)
next
  case (Cons b d)
  obtain k v where b: "b = (k, v)" by (cases b)
  have nk: "map_of d k = None" using Cons.prems b by (simp add: map_of_eq_None_iff)
  show ?case using Cons b nk by (auto split: option.split)
qed


lemma snd_load_dotenv [simp]: "snd (load_dotenv binds env) = dotenv_environ binds env"
proof (cases "binds = []")
  case True
  then show ?thesis
    by (auto simp: load_dotenv_def set_as_environment_variables_def dotenv_dict_def dotenv_environ_def
        fun_eq_iff split: option.split)
next
  case False
  then show ?thesis using set_env_loop [OF distinct_dotenv_dict, of env binds]
    unfolding map_of_dotenv_dict
    by (simp add: load_dotenv_def set_as_environment_variables_def dotenv_dict_Nil_iff dotenv_environ_def)
qed

lemma fst_load_dotenv [simp]: "fst (load_dotenv binds env) \<longleftrightarrow> binds \<noteq> []"
  by (simp add: load_dotenv_def set_as_environment_variables_def dotenv_dict_Nil_iff)

lemma dotenv_environ_idem: "dotenv_environ binds (dotenv_environ binds env) = dotenv_environ binds env"
  by (rule ext) (simp add: dotenv_environ_def split: option.split)

lemma dotenv_environ_key [simp]:
  "dotenv_environ binds env openai_api_key =
     (case env openai_api_key of Some v \<Rightarrow> Some v
      | None \<Rightarrow> (case map_of (rev binds) openai_api_key of Some (Some v) \<Rightarrow> Some v | _ \<Rightarrow> None))"
  by (simp add: dotenv_environ_def)

lemma main_module_key:
  "key_supplied binds env \<Longrightarrow> main_module binds env = (Inr (), dotenv_environ binds env)"
  by (simp add: main_module_def key_supplied_def openai_embeddings_init_def chat_openai_init_def
      split: option.split_asm)

lemma main_module_no_key:
  "\<not> key_supplied binds env \<Longrightarrow> main_module binds env = (Inl ValueError, dotenv_environ binds env)"
  by (simp add: main_module_def key_supplied_def openai_embeddings_init_def split: option.split_asm)

lemma key_supplied_reload: "key_supplied binds (dotenv_environ binds env) = key_supplied binds env"
  by (simp add: key_supplied_def dotenv_environ_idem)

text \<open>
  C16. \<open>load_dotenv\<close> is python-dotenv's documented behaviour without \<open>override\<close>:
  it reports whether the \<^verbatim>\<open>.env\<close> file had any binding, keeps every variable already
  set, and gives every unset variable the last value the file binds it to (none if that
  binding has no value); the loop over the dictionary equals this per-variable rule.
\<close>

theorem load_dotenv_equiv:
  "load_dotenv binds env =
     (binds \<noteq> [],
      \<lambda>k. case env k of
            Some v \<Rightarrow> Some v
          | None \<Rightarrow> (case map_of (rev binds) k of Some (Some v) \<Rightarrow> Some v | _ \<Rightarrow> None))"
  by (rule prod_eqI) (simp_all only: fst_conv snd_conv fst_load_dotenv snd_load_dotenv dotenv_environ_def)

end
