(* ===== verification/Chain.thy ===== *)
theory Chain
  imports Ingestion Prompts Dates
begin

text \<open>
  The question-answering chain of \<^verbatim>\<open>src/main.py\<close>: the retriever of
  \<open>get_retriever\<close> (Chroma similarity search, \<open>k = 5\<close>), the history-aware retriever,
  the stuff-documents answer chain and the retrieval chain that composes them
  (\<open>initialize_components\<close>), and the \<open>RunnableWithMessageHistory\<close> wrapper that feeds
  the chat history in and appends a turn to it. LangChain passes a dictionary between
  the runnables; it is a map from keys to the values that occur (\<open>pyval\<close>). The
  embedding service \<open>emb\<close>, the distance \<open>dist\<close> of the collection and the chat model
  \<open>llm\<close> (a list of messages to the text of its reply, \<open>None\<close> when the request
  raises) are parameters.
\<close>

section \<open>Values of the chain's dictionaries\<close>

datatype pyval = VStr string | VMsgs "msg list" | VDocs "document list"

type_synonym pydict = "string \<rightharpoonup> pyval"

text \<open>Python truthiness of the values: an empty string or list is false.\<close>

fun py_truthy :: "pyval \<Rightarrow> bool" where
  "py_truthy (VStr s) = (s \<noteq> [])"
| "py_truthy (VMsgs ms) = (ms \<noteq> [])"
| "py_truthy (VDocs ds) = (ds \<noteq> [])"

text \<open>\<open>x.get(k, False)\<close> read as a condition.\<close>

definition get_truthy :: "pydict \<Rightarrow> string \<Rightarrow> bool" where
  "get_truthy x k = (case x k of None \<Rightarrow> False | Some v \<Rightarrow> py_truthy v)"

text \<open>
  The string- and message-valued entries of a dictionary, as a prompt template reads
  them: its fields are filled from strings, its placeholders from message lists.
\<close>

definition str_vars :: "pydict \<Rightarrow> string \<rightharpoonup> string" where
  "str_vars x k = (case x k of Some (VStr s) \<Rightarrow> Some s | _ \<Rightarrow> None)"

definition msg_vars :: "pydict \<Rightarrow> string \<rightharpoonup> msg list" where
  "msg_vars x k = (case x k of Some (VMsgs ms) \<Rightarrow> Some ms | _ \<Rightarrow> None)"

section \<open>The retriever: similarity search with k = 5\<close>

text \<open>
  \<open>vectorstore.as_retriever(search_kwargs={"k": 5})\<close> answers a query with
  \<open>similarity_search(query, k=5)\<close>: the query is embedded (the request may raise, an
  \<open>APIError\<close> here), and the \<open>k\<close> entries of the collection nearest to it are returned.
  Chroma answers from an approximate (HNSW) index whose internals are not modelled: the
  search is given as the index contract of the spec (section 4.2), the exact \<open>k\<close>
  nearest entries, nearest first, ties in insertion order. The properties proved below of
  the chain and the app do not depend on which documents the search returns.
\<close>

definition nearest :: "('v \<Rightarrow> 'v \<Rightarrow> 'r::linorder) \<Rightarrow> 'v \<Rightarrow> nat \<Rightarrow> (nat \<times> 'v \<times> 'd) list \<Rightarrow> (nat \<times> 'v \<times> 'd) list" where
  "nearest dist u k es = take k (sort_key (\<lambda>(_, v, _). dist u v) es)"

definition similarity_search ::
  "(string \<Rightarrow> 'v option) \<Rightarrow> ('v \<Rightarrow> 'v \<Rightarrow> 'r::linorder) \<Rightarrow> ('d, 'v) chroma \<Rightarrow> nat \<Rightarrow> string \<Rightarrow> py_error + 'd list" where
  "similarity_search emb dist c k q =
     (case emb q of None \<Rightarrow> Inl APIError
      | Some u \<Rightarrow> Inr (map (\<lambda>(_, _, d). d) (nearest dist u k (entries c))))"

definition get_retriever ::
  "(string \<Rightarrow> 'v option) \<Rightarrow> ('v \<Rightarrow> 'v \<Rightarrow> 'r::linorder) \<Rightarrow> ('d, 'v) chroma \<Rightarrow> string \<Rightarrow> py_error + 'd list" where
  "get_retriever emb dist c = similarity_search emb dist c 5"

section \<open>The history-aware retriever\<close>

text \<open>
  \<open>create_history_aware_retriever(llm, retriever, prompt)\<close> refuses a prompt without
  the variable \<open>input\<close> and builds a branch: when \<open>x.get("chat_history", False)\<close> is
  false, the retriever gets \<open>x["input"]\<close> unchanged; otherwise the prompt is filled
  from \<open>x\<close>, the chat model rewrites the question and the retriever gets its reply.
\<close>

definition history_aware_retrieve ::
  "(msg list \<Rightarrow> string option) \<Rightarrow> chat_prompt \<Rightarrow> (string \<Rightarrow> py_error + document list) \<Rightarrow>
     pydict \<Rightarrow> py_error + document list" where
  "history_aware_retrieve llm prompt retr x =
     (if \<not> get_truthy x ''chat_history'' then
        (case x ''input'' of None \<Rightarrow> Inl KeyError
         | Some (VStr q) \<Rightarrow> retr q
         | Some _ \<Rightarrow> Inl TypeError)
      else
        (case format_chat prompt (str_vars x) (msg_vars x) of Inl e \<Rightarrow> Inl e
         | Inr ms \<Rightarrow> (case llm ms of None \<Rightarrow> Inl APIError | Some q \<Rightarrow> retr q)))"

section \<open>The answer chain: create_stuff_documents_chain\<close>

text \<open>
  The documents under \<open>context\<close> are formatted with the default document prompt
  \<open>{page_content}\<close> and joined with \<open>"\n\n"\<close>; the prompt is filled with the
  dictionary in which \<open>context\<close> is that text, and the chat model's reply is the answer.
\<close>

definition format_docs :: "document list \<Rightarrow> string" where
  "format_docs ds = py_join (nl @ nl) (map page_content ds)"

definition stuff_documents_chain ::
  "(msg list \<Rightarrow> string option) \<Rightarrow> chat_prompt \<Rightarrow> pydict \<Rightarrow> py_error + string" where
  "stuff_documents_chain llm prompt x =
     (case x ''context'' of None \<Rightarrow> Inl KeyError
      | Some (VDocs ds) \<Rightarrow>
          (let x' = x(''context'' \<mapsto> VStr (format_docs ds))
           in case format_chat prompt (str_vars x') (msg_vars x') of Inl e \<Rightarrow> Inl e
              | Inr ms \<Rightarrow> (case llm ms of None \<Rightarrow> Inl APIError | Some a \<Rightarrow> Inr a))
      | Some _ \<Rightarrow> Inl TypeError)"

section \<open>The retrieval chain and initialize_components\<close>

text \<open>
  \<open>create_retrieval_chain\<close>: \<open>RunnablePassthrough.assign(context=...)\<close> adds the
  retrieved documents under \<open>context\<close>, then \<open>.assign(answer=...)\<close> adds the answer.
\<close>

definition retrieval_chain ::
  "(pydict \<Rightarrow> py_error + document list) \<Rightarrow> (pydict \<Rightarrow> py_error + string) \<Rightarrow> pydict \<Rightarrow> py_error + pydict" where
  "retrieval_chain retrieve combine x =
     (case retrieve x of Inl e \<Rightarrow> Inl e
      | Inr ds \<Rightarrow>
          (let x1 = x(''context'' \<mapsto> VDocs ds)
           in case combine x1 of Inl e \<Rightarrow> Inl e | Inr a \<Rightarrow> Inr (x1(''answer'' \<mapsto> VStr a))))"

text \<open>
  \<open>initialize_components\<close> (lines 33--146) formats the rewriting prompt with today's
  date, builds both chat prompts and the chains; the two constructors that check their
  prompt raise \<open>ValueError\<close> when \<open>input\<close> (history-aware retriever) or \<open>context\<close>
  (stuff-documents chain) is not among its input variables. The result is the pair of
  prompts the chain runs with.
\<close>

definition initialize_components :: "string \<Rightarrow> py_error + chat_prompt \<times> chat_prompt" where
  "initialize_components today =
     (case contextualize_q_prompt today of Inl e \<Rightarrow> Inl e
      | Inr cp \<Rightarrow>
          (case prompt_input_vars cp of Inl e \<Rightarrow> Inl e
           | Inr vs \<Rightarrow>
               (case prompt_input_vars qa_prompt of Inl e \<Rightarrow> Inl e
                | Inr ws \<Rightarrow>
                    if ''input'' \<notin> set vs then Inl ValueError
                    else if ''context'' \<notin> set ws then Inl ValueError
                    else Inr (cp, qa_prompt))))"

definition rag_chain ::
  "(msg list \<Rightarrow> string option) \<Rightarrow> (string \<Rightarrow> py_error + document list) \<Rightarrow> chat_prompt \<times> chat_prompt \<Rightarrow>
     pydict \<Rightarrow> py_error + pydict" where
  "rag_chain llm retr prompts =
     retrieval_chain (history_aware_retrieve llm (fst prompts) retr) (stuff_documents_chain llm (snd prompts))"

section \<open>RunnableWithMessageHistory\<close>

text \<open>
  \<open>conversational_rag_chain.invoke({"input": q}, config)\<close> (lines 155--161 and 180--182):
  the history of the session (here always the one \<open>chat_history\<close>, whatever the
  session id) is read into the key \<open>history\<close>, the chain runs, and when it returns, the
  question and the answer under \<open>answer\<close> are appended to the history as a human and
  an AI message. An exception propagates and leaves the history as it was.
\<close>

definition with_message_history ::
  "(pydict \<Rightarrow> py_error + pydict) \<Rightarrow> string \<Rightarrow> string \<Rightarrow> msg list \<Rightarrow> (py_error + pydict) \<times> msg list" where
  "with_message_history chain session_id q hist =
     (case chain [''input'' \<mapsto> VStr q, ''history'' \<mapsto> VMsgs hist] of
        Inl e \<Rightarrow> (Inl e, hist)
      | Inr out \<Rightarrow>
          (case out ''answer'' of
             Some (VStr a) \<Rightarrow> (Inr out, hist @ [HumanMessage q, AIMessage a])
           | Some (VMsgs ms) \<Rightarrow> (Inr out, hist @ HumanMessage q # ms)
           | Some (VDocs _) \<Rightarrow> (Inl ValueError, hist)
           | None \<Rightarrow> (Inl KeyError, hist)))"


section \<open>Lemmas: the retriever\<close>

lemma length_nearest [simp]: "length (nearest dist u k es) = min k (length es)"
  by (simp add: nearest_def)

lemma get_retriever_error: "get_retriever emb dist c q = Inl e \<Longrightarrow> e = APIError"
  by (simp add: get_retriever_def similarity_search_def split: option.splits)

section \<open>Lemmas: one turn of the conversational chain\<close>

text \<open>
  The dictionary \<open>RunnableWithMessageHistory\<close> passes in has the keys \<open>input\<close> and
  \<open>history\<close>, and no \<open>chat_history\<close>: the history-aware retriever takes its first
  branch and gives the raw question to the retriever.
\<close>

lemma history_aware_retrieve_turn:
  "history_aware_retrieve llm p retr [''input'' \<mapsto> VStr q, ''history'' \<mapsto> VMsgs h] = retr q"
  by (simp add: history_aware_retrieve_def get_truthy_def)

lemma stuff_documents_chain_qa:
  "stuff_documents_chain llm qa_prompt [''input'' \<mapsto> VStr q, ''history'' \<mapsto> VMsgs h, ''context'' \<mapsto> VDocs ds] =
     (case llm (SystemMessage (qa_system_prompt_head @ format_docs ds) # h @ [HumanMessage q]) of
        None \<Rightarrow> Inl APIError | Some a \<Rightarrow> Inr a)"
  by (simp add: stuff_documents_chain_def qa_prompt_def lc_format_qa_system_prompt lc_format_input
      str_vars_def msg_vars_def)

lemma rag_chain_turn:
  "rag_chain llm retr (cp, qp) [''input'' \<mapsto> VStr q, ''history'' \<mapsto> VMsgs h] =
     (case retr q of Inl e \<Rightarrow> Inl e
      | Inr ds \<Rightarrow>
          (case stuff_documents_chain llm qp [''input'' \<mapsto> VStr q, ''history'' \<mapsto> VMsgs h, ''context'' \<mapsto> VDocs ds] of
             Inl e \<Rightarrow> Inl e
           | Inr a \<Rightarrow> Inr [''input'' \<mapsto> VStr q, ''history'' \<mapsto> VMsgs h, ''context'' \<mapsto> VDocs ds, ''answer'' \<mapsto> VStr a]))"
  by (simp add: rag_chain_def retrieval_chain_def history_aware_retrieve_turn split: sum.splits)

text \<open>The history a turn of the app's chain leaves: unchanged, or one more turn.\<close>

lemma rag_history_step:
  "snd (with_message_history (rag_chain llm retr ps) sid q h) = h \<or>
   (\<exists>a. snd (with_message_history (rag_chain llm retr ps) sid q h) = h @ [HumanMessage q, AIMessage a])"
  by (cases ps) (auto simp: with_message_history_def rag_chain_turn split: sum.splits option.splits pyval.splits)

lemma rag_history_success:
  "retr q = Inr ds \<Longrightarrow> llm (SystemMessage (qa_system_prompt_head @ format_docs ds) # h @ [HumanMessage q]) = Some a \<Longrightarrow>
     snd (with_message_history (rag_chain llm retr (cp, qa_prompt)) sid q h) = h @ [HumanMessage q, AIMessage a]"
  by (simp add: with_message_history_def rag_chain_turn stuff_documents_chain_qa)

text \<open>
  C11. One question answered by the app's chain: the retriever receives the question
  exactly as typed, the chat model receives the answer prompt with the retrieved
  documents joined into it, then the whole history, then the question; on success the
  question and the answer are appended to the history, and on any failure the history is
  unchanged. This holds whatever the rewriting prompt, hence whatever today's date.
\<close>

theorem rag_turn:
  "with_message_history (rag_chain llm retr (cp, qa_prompt)) sid q h =
     (case retr q of Inl e \<Rightarrow> (Inl e, h)
      | Inr ds \<Rightarrow>
          (case llm (SystemMessage (qa_system_prompt_head @ format_docs ds) # h @ [HumanMessage q]) of
             None \<Rightarrow> (Inl APIError, h)
           | Some a \<Rightarrow> (Inr [''input'' \<mapsto> VStr q, ''history'' \<mapsto> VMsgs h, ''context'' \<mapsto> VDocs ds, ''answer'' \<mapsto> VStr a],
                        h @ [HumanMessage q, AIMessage a])))"
  by (simp add: with_message_history_def rag_chain_turn stuff_documents_chain_qa split: sum.splits option.splits)

text \<open>
  C12. The question-rewriting step never runs: the outcome of a turn, the history it
  leaves and the documents retrieved are the same for any two rewriting prompts, for
  every answer prompt and history. A follow-up question is searched as typed.
\<close>

theorem rag_turn_ignores_rewriting:
  "with_message_history (rag_chain llm retr (cp1, qp)) sid q h =
   with_message_history (rag_chain llm retr (cp2, qp)) sid q h"
  by (simp add: with_message_history_def rag_chain_turn)

lemma initialize_components_brace_free:
  "brace_free today \<Longrightarrow>
     \<exists>cp. initialize_components today = Inr (cp, qa_prompt) \<and> prompt_input_vars cp = Inr [''history'', ''input'']"
  using contextualize_q_prompt_vars [of today] qa_prompt_vars
  by (auto simp: initialize_components_def)

text \<open>
  C13. For every date, \<open>initialize_components\<close> run with
  \<open>today = strftime('%Y-%m-%d')\<close> builds the chain without raising: the rewriting prompt
  has the inputs \<open>history\<close> and \<open>input\<close>, the answer prompt is \<open>qa_prompt\<close>, and
  neither constructor check fails.
\<close>

theorem initialize_components_today:
  "\<exists>cp. initialize_components (strftime_ymd d) = Inr (cp, qa_prompt) \<and>
        prompt_input_vars cp = Inr [''history'', ''input'']"
  by (rule initialize_components_brace_free [OF brace_free_strftime_ymd])

end
