(* ===== verification/App.thy ===== *)
theory App
  imports Chain Config
begin

text \<open>
  The Streamlit script \<^verbatim>\<open>src/main.py\<close> (lines 150--185) as a step function: Streamlit
  runs the whole script again on every interaction, with the browser session's
  \<open>st.session_state\<close> kept between runs. One run renders the header, builds the chain
  (\<open>initialize_components\<close> with today's date), opens the chat history stored under
  \<open>st.session_state["chat_messages"]\<close> (creating it empty the first time), shows the
  greeting when \<open>"messages"\<close> is not in the session state, shows every stored message,
  and, when the chat input holds a question, shows it, runs the conversational chain and
  shows the answer. An exception stops the run and Streamlit shows it. The rendered page
  is a list of elements; the display texts are the source's, Korean as UTF-8 bytes.
\<close>

record app_state =
  chat_messages :: "msg list option"   \<comment> \<open>\<open>st.session_state.get("chat_messages")\<close>\<close>
  messages :: "msg list option"        \<comment> \<open>\<open>st.session_state.get("messages")\<close>\<close>

definition app_init :: app_state where
  "app_init = \<lparr>chat_messages = None, messages = None\<rparr>"

datatype elem =
    Header string           \<comment> \<open>\<open>st.header\<close>\<close>
  | Bubble string string    \<comment> \<open>\<open>st.chat_message(role).write(text)\<close>\<close>
  | Shown pyval             \<comment> \<open>\<open>st.write\<close> of a value that is not a string\<close>
  | Traceback py_error      \<comment> \<open>an uncaught exception, shown by Streamlit\<close>

definition header_text :: string where
  "header_text = [CHR 0xEC, CHR 0x97, CHR 0xAC, CHR 0xED, CHR 0x96, CHR 0x89, CHR 0xEC, CHR 0xA7, CHR 0x80, CHR 0xEC, CHR 0x9B, CHR 0x90, CHR 0xEA, CHR 0xB8, CHR 0x88] @ '' Q&A '' @ [CHR 0xEC, CHR 0xB1, CHR 0x97, CHR 0xEB, CHR 0xB4, CHR 0x87] @ '' '' @ [CHR 0xF0, CHR 0x9F, CHR 0x92, CHR 0xAC] @ '' '' @ [CHR 0xF0, CHR 0x9F, CHR 0x93, CHR 0x9A]"

definition greeting_text :: string where
  "greeting_text = [CHR 0xEC, CHR 0x97, CHR 0xAC, CHR 0xED, CHR 0x96, CHR 0x89, CHR 0xEC, CHR 0xA7, CHR 0x80, CHR 0xEC, CHR 0x9B, CHR 0x90, CHR 0xEA, CHR 0xB8, CHR 0x88, CHR 0xEC, CHR 0x9D, CHR 0x84] @ '' '' @ [CHR 0xEA, CHR 0xB2, CHR 0x80, CHR 0xEC, CHR 0x83, CHR 0x89, CHR 0xED, CHR 0x95, CHR 0x98, CHR 0xEC, CHR 0x84, CHR 0xB8, CHR 0xEC, CHR 0x9A, CHR 0x94] @ ''!''"

text \<open>\<open>msg.type\<close> of LangChain's message classes.\<close>

fun msg_type :: "msg \<Rightarrow> string" where
  "msg_type (SystemMessage _) = ''system''"
| "msg_type (HumanMessage _) = ''human''"
| "msg_type (AIMessage _) = ''ai''"

fun msg_content :: "msg \<Rightarrow> string" where
  "msg_content (SystemMessage s) = s"
| "msg_content (HumanMessage s) = s"
| "msg_content (AIMessage s) = s"

definition msg_bubble :: "msg \<Rightarrow> elem" where
  "msg_bubble m = Bubble (msg_type m) (msg_content m)"

text \<open>
  \<open>StreamlitChatMessageHistory(key="chat_messages")\<close>: the constructor stores an empty
  list under the key when it is absent; \<open>messages\<close> reads the list.
\<close>

definition open_history :: "app_state \<Rightarrow> app_state" where
  "open_history s = (case chat_messages s of None \<Rightarrow> s\<lparr>chat_messages := Some []\<rparr> | Some _ \<Rightarrow> s)"

definition stored_history :: "app_state \<Rightarrow> msg list" where
  "stored_history s = (case chat_messages s of None \<Rightarrow> [] | Some h \<Rightarrow> h)"

text \<open>
  One run of the script. \<open>llm\<close> and \<open>retr\<close> are the chat model and the retriever
  of this run (\<open>get_retriever\<close> over \<^verbatim>\<open>./db\<close>), \<open>today\<close> the date text and
  \<open>inp\<close> what \<open>st.chat_input\<close> returns (\<open>None\<close> when nothing was submitted; the
  walrus condition also skips an empty string). The result is the exception that
  stopped the run, if any, the rendered page and the session state afterwards.
\<close>

definition app_run ::
  "(msg list \<Rightarrow> string option) \<Rightarrow> (string \<Rightarrow> py_error + document list) \<Rightarrow> string \<Rightarrow> string option \<Rightarrow>
     app_state \<Rightarrow> py_error option \<times> elem list \<times> app_state" where
  "app_run llm retr today inp s =
     (let page0 = [Header header_text]
      in case initialize_components today of
           Inl e \<Rightarrow> (Some e, page0 @ [Traceback e], s)
         | Inr ps \<Rightarrow>
             (let s1 = open_history s;
                  hist = stored_history s1;
                  page1 = page0 @ (if messages s1 = None then [Bubble ''assistant'' greeting_text] else [])
                            @ map msg_bubble hist
              in case inp of
                   None \<Rightarrow> (None, page1, s1)
                 | Some q \<Rightarrow>
                     if q = [] then (None, page1, s1)
                     else
                       (let page2 = page1 @ [Bubble ''human'' q]
                        in case with_message_history (rag_chain llm retr ps) ''any'' q hist of
                             (Inl e, h') \<Rightarrow> (Some e, page2 @ [Traceback e], s1\<lparr>chat_messages := Some h'\<rparr>)
                           | (Inr out, h') \<Rightarrow>
                               (case out ''answer'' of
                                  Some (VStr a) \<Rightarrow> (None, page2 @ [Bubble ''assistant'' a], s1\<lparr>chat_messages := Some h'\<rparr>)
                                | Some v \<Rightarrow> (None, page2 @ [Shown v], s1\<lparr>chat_messages := Some h'\<rparr>)
                                | None \<Rightarrow> (Some KeyError, page2 @ [Traceback KeyError], s1\<lparr>chat_messages := Some h'\<rparr>)))))"

definition app_state_of :: "py_error option \<times> elem list \<times> app_state \<Rightarrow> app_state" where
  "app_state_of r = snd (snd r)"

definition app_page_of :: "py_error option \<times> elem list \<times> app_state \<Rightarrow> elem list" where
  "app_page_of r = fst (snd r)"

text \<open>
  The session states a browser session can reach: the empty one, and whatever a run
  leaves, for any chat model, retriever, date and input of that run.
\<close>

inductive app_reachable :: "app_state \<Rightarrow> bool" where
  init: "app_reachable app_init"
| run: "app_reachable s \<Longrightarrow> app_reachable (app_state_of (app_run llm retr today inp s))"

text \<open>A chat history of whole turns: a human question followed by an AI answer, repeated.\<close>

fun turns_wf :: "msg list \<Rightarrow> bool" where
  "turns_wf [] = True"
| "turns_wf (HumanMessage _ # AIMessage _ # h) = turns_wf h"
| "turns_wf _ = False"

text \<open>
  A browser session in which the user submits the inputs one after another: each
  submission reruns the script on the session state the previous run left.
\<close>

fun app_session ::
  "(msg list \<Rightarrow> string option) \<Rightarrow> (string \<Rightarrow> py_error + document list) \<Rightarrow> string \<Rightarrow> string option list \<Rightarrow>
     app_state \<Rightarrow> app_state" where
  "app_session llm retr today [] s = s"
| "app_session llm retr today (i # is) s = app_session llm retr today is (app_state_of (app_run llm retr today i s))"

text \<open>
  One run of the whole module under Streamlit (lines 16--185). The module body first
  loads the \<^verbatim>\<open>.env\<close> file and builds the two OpenAI clients (\<open>main_module\<close>);
  an exception there stops the run before \<open>st.header\<close>, and the page shows only the
  traceback. Otherwise the run goes on with the script proper (\<open>app_run\<close>). The
  state is the process environment, which the Streamlit server keeps between reruns,
  with the browser session's \<open>st.session_state\<close>; \<open>binds\<close> is the \<^verbatim>\<open>.env\<close> file,
  read again on every rerun.
\<close>

definition main_script ::
  "dotenv_bindings \<Rightarrow> (msg list \<Rightarrow> string option) \<Rightarrow> (string \<Rightarrow> py_error + document list) \<Rightarrow> string \<Rightarrow>
     string option \<Rightarrow> environ \<times> app_state \<Rightarrow> py_error option \<times> elem list \<times> (environ \<times> app_state)" where
  "main_script binds llm retr today inp st =
     (case main_module binds (fst st) of
        (Inl e, env1) \<Rightarrow> (Some e, [Traceback e], (env1, snd st))
      | (Inr _, env1) \<Rightarrow>
          (case app_run llm retr today inp (snd st) of (err, page, s') \<Rightarrow> (err, page, (env1, s'))))"

section \<open>Lemmas\<close>

lemma stored_open_history [simp]: "stored_history (open_history s) = stored_history s"
  by (simp add: open_history_def stored_history_def split: option.splits)

lemma messages_open_history [simp]: "messages (open_history s) = messages s"
  by (simp add: open_history_def split: option.splits)

lemma app_run_state:
  "app_state_of (app_run llm retr today inp s) =
     (case initialize_components today of Inl e \<Rightarrow> s
      | Inr ps \<Rightarrow>
          (case inp of None \<Rightarrow> open_history s
           | Some q \<Rightarrow> if q = [] then open_history s
               else (open_history s)\<lparr>chat_messages :=
                      Some (snd (with_message_history (rag_chain llm retr ps) ''any'' q (stored_history s)))\<rparr>))"
  by (auto simp: app_run_def app_state_of_def Let_def split: sum.splits option.splits prod.splits pyval.splits)

lemma messages_app_run [simp]: "messages (app_state_of (app_run llm retr today inp s)) = messages s"
  by (simp add: app_run_state split: sum.splits option.splits)

lemma stored_history_set [simp]: "stored_history (s\<lparr>chat_messages := Some h\<rparr>) = h"
  by (simp add: stored_history_def)

lemma stored_history_app_run:
  "stored_history (app_state_of (app_run llm retr today inp s)) = stored_history s \<or>
   (\<exists>q ps. stored_history (app_state_of (app_run llm retr today inp s)) =
            snd (with_message_history (rag_chain llm retr ps) ''any'' q (stored_history s)))"
  by (cases "initialize_components today"; cases inp) (auto simp: app_run_state)

lemma turns_wf_append_turn: "turns_wf h \<Longrightarrow> turns_wf (h @ [HumanMessage q, AIMessage a])"
  by (induction h rule: turns_wf.induct) simp_all

text \<open>
  C19. In every session state a browser session can reach, the stored chat history is a
  sequence of whole turns: a human question, then the AI answer, repeated.
\<close>

theorem app_reachable_turns_wf: "app_reachable s \<Longrightarrow> turns_wf (stored_history s)"
proof (induction rule: app_reachable.induct)
  case init
  then show ?case by (simp add: app_init_def stored_history_def)
next
  case (run s llm retr today inp)
  then show ?case
    using stored_history_app_run [of llm retr today inp s] rag_history_step turns_wf_append_turn
    by metis
qed

text \<open>
  C20. A run never reorders or deletes stored messages: the history after a run extends
  the history before it.
\<close>

theorem app_run_history_prefix:
  "\<exists>ext. stored_history (app_state_of (app_run llm retr today inp s)) = stored_history s @ ext"
  using stored_history_app_run [of llm retr today inp s] rag_history_step by (metis append_Nil2)

lemma app_reachable_messages: "app_reachable s \<Longrightarrow> messages s = None"
  by (induction rule: app_reachable.induct) (simp_all add: app_init_def)

text \<open>
  C21. The key \<open>"messages"\<close> is never stored, so in every reachable state the greeting
  is shown again at the top of every run that builds the chain, above the stored history.
\<close>

theorem app_reachable_greeting:
  "app_reachable s \<Longrightarrow> initialize_components today = Inr ps \<Longrightarrow>
     take 2 (app_page_of (app_run llm retr today inp s)) = [Header header_text, Bubble ''assistant'' greeting_text]"
  using app_reachable_messages [of s]
  by (auto simp: app_run_def app_page_of_def Let_def split: option.splits prod.splits sum.splits pyval.splits)

text \<open>
  C22. A run that stops with an exception leaves the stored chat history as it was.
\<close>

theorem app_run_error_keeps_history:
  "app_run llm retr today inp s = (Some e, page, s') \<Longrightarrow> stored_history s' = stored_history s"
  by (auto simp: app_run_def Let_def stored_history_def open_history_def with_message_history_def
      split: option.splits prod.splits sum.splits pyval.splits if_splits)


text \<open>
  C23. Progress: when the chat model and the retriever always answer, every non-empty
  question of a session is answered, in order; the stored history grows by one human and
  one AI message per question.
\<close>

theorem app_session_answers:
  assumes llm: "\<And>ms. llm ms \<noteq> None" and retr: "\<And>q. \<exists>ds. retr q = Inr ds"
    and qs: "list_all (\<lambda>q. q \<noteq> []) qs"
  shows "\<exists>as. length as = length qs \<and>
           stored_history (app_session llm retr (strftime_ymd d) (map Some qs) s) =
             stored_history s @ concat (map2 (\<lambda>q a. [HumanMessage q, AIMessage a]) qs as)"
  using qs
proof (induction qs arbitrary: s)
  case Nil
  then show ?case by simp
next
  case (Cons q qs)
  obtain cp where i: "initialize_components (strftime_ymd d) = Inr (cp, qa_prompt)"
    using initialize_components_brace_free [OF brace_free_strftime_ymd] by blast
  obtain ds where r: "retr q = Inr ds" using retr by blast
  obtain a where l: "llm (SystemMessage (qa_system_prompt_head @ format_docs ds) # stored_history s @ [HumanMessage q]) = Some a"
    using llm by blast
  let ?s1 = "app_state_of (app_run llm retr (strftime_ymd d) (Some q) s)"
  have s1: "stored_history ?s1 = stored_history s @ [HumanMessage q, AIMessage a]"
    using Cons.prems i rag_history_success [where cp = cp and sid = "''any''" and retr = retr and llm = llm and h = "stored_history s", OF r l] by (simp add: app_run_state)
  obtain as where "length as = length qs"
    "stored_history (app_session llm retr (strftime_ymd d) (map Some qs) ?s1) =
       stored_history ?s1 @ concat (map2 (\<lambda>q a. [HumanMessage q, AIMessage a]) qs as)"
    using Cons.IH Cons.prems by auto
  then show ?case using s1 by (intro exI [of _ "a # as"]) simp
qed

text \<open>
  C24. With the app's retriever, whose only failure is the embedding request, a run
  that stops with an exception stops with \<open>APIError\<close>: building the chain, formatting
  the prompts and reading the answer never raise, whatever the date, the chat model,
  the collection and the input.
\<close>

theorem app_run_only_api_errors:
  "fst (app_run llm (get_retriever emb dist c) (strftime_ymd d) inp s) \<in> {None, Some APIError}"
proof -
  obtain cp where i: "initialize_components (strftime_ymd d) = Inr (cp, qa_prompt)"
    using initialize_components_brace_free [OF brace_free_strftime_ymd] by blast
  show ?thesis
    using i get_retriever_error [of emb dist c]
    by (auto simp: app_run_def Let_def with_message_history_def rag_chain_turn stuff_documents_chain_qa
        split: option.splits sum.splits prod.splits pyval.splits)
qed

lemma main_script_key:
  "key_supplied binds env \<Longrightarrow>
   main_script binds llm retr today inp (env, s) =
     (fst (app_run llm retr today inp s), app_page_of (app_run llm retr today inp s),
      (dotenv_environ binds env, app_state_of (app_run llm retr today inp s)))"
  by (simp add: main_script_def main_module_key app_page_of_def app_state_of_def split: prod.split)

text \<open>
  C17. Without a non-empty API key after loading the \<^verbatim>\<open>.env\<close> file, every run stops in
  the module body with \<open>ValueError\<close> from \<open>OpenAIEmbeddings\<close>: the page shows only the
  traceback, not even the header, no chat model or retriever is called, and the session
  state is untouched. Since \<open>load_dotenv\<close> does not override, an empty
  \<open>OPENAI_API_KEY\<close> in the shell hides the key of the \<^verbatim>\<open>.env\<close> file.
\<close>

theorem main_script_no_key:
  "\<not> key_supplied binds env \<Longrightarrow>
   main_script binds llm retr today inp (env, s) =
     (Some ValueError, [Traceback ValueError], (dotenv_environ binds env, s))"
  by (simp add: main_script_def main_module_no_key)

section \<open>Witnesses\<close>

theorem app_session_answers_witness:
  "\<exists>as. length as = length [''a'', ''b''] \<and>
     stored_history (app_session (\<lambda>_. Some ''ok'') (\<lambda>_. Inr []) (strftime_ymd \<lparr>year = 2024, month = 1, day = 1\<rparr>)
        (map Some [''a'', ''b'']) app_init) =
       stored_history app_init @ concat (map2 (\<lambda>q a. [HumanMessage q, AIMessage a]) [''a'', ''b''] as)"
  by (rule app_session_answers) simp_all


theorem app_reachable_turns_wf_witness:
  "app_reachable (app_state_of (app_run (\<lambda>_. Some ''ok'') (\<lambda>_. Inr []) (strftime_ymd \<lparr>year = 2024, month = 1, day = 1\<rparr>) (Some ''q'') app_init)) \<and>
   turns_wf (stored_history (app_state_of (app_run (\<lambda>_. Some ''ok'') (\<lambda>_. Inr []) (strftime_ymd \<lparr>year = 2024, month = 1, day = 1\<rparr>) (Some ''q'') app_init)))"
proof -
  have r: "app_reachable (app_state_of (app_run (\<lambda>_. Some ''ok'') (\<lambda>_. Inr []) (strftime_ymd \<lparr>year = 2024, month = 1, day = 1\<rparr>) (Some ''q'') app_init))"
    by (rule app_reachable.run [OF app_reachable.init])
  show ?thesis using r app_reachable_turns_wf [OF r] by simp
qed

theorem app_reachable_greeting_witness:
  "\<exists>ps. initialize_components (strftime_ymd \<lparr>year = 2024, month = 1, day = 1\<rparr>) = Inr ps \<and>
     take 2 (app_page_of (app_run (\<lambda>_. None) (\<lambda>_. Inr []) (strftime_ymd \<lparr>year = 2024, month = 1, day = 1\<rparr>) None app_init)) =
       [Header header_text, Bubble ''assistant'' greeting_text]"
proof -
  obtain cp where i: "initialize_components (strftime_ymd \<lparr>year = 2024, month = 1, day = 1\<rparr>) = Inr (cp, qa_prompt)"
    using initialize_components_brace_free [OF brace_free_strftime_ymd] by blast
  show ?thesis using app_reachable_greeting [OF app_reachable.init i] i by blast
qed

theorem app_run_error_keeps_history_witness:
  "\<exists>page s'. app_run (\<lambda>_. None) (\<lambda>_. Inr []) (strftime_ymd \<lparr>year = 2024, month = 1, day = 1\<rparr>) (Some ''q'') app_init =
      (Some APIError, page, s') \<and> stored_history s' = []"
proof -
  obtain cp where i: "initialize_components (strftime_ymd \<lparr>year = 2024, month = 1, day = 1\<rparr>) = Inr (cp, qa_prompt)"
    using initialize_components_brace_free [OF brace_free_strftime_ymd] by blast
  obtain page s' where run: "app_run (\<lambda>_. None) (\<lambda>_. Inr []) (strftime_ymd \<lparr>year = 2024, month = 1, day = 1\<rparr>) (Some ''q'') app_init =
      (Some APIError, page, s')"
    using i by (simp add: app_run_def Let_def with_message_history_def rag_chain_turn stuff_documents_chain_qa)
  show ?thesis using run app_run_error_keeps_history [OF run] by (simp add: app_init_def stored_history_def)
qed


theorem main_script_no_key_witness:
  "\<not> key_supplied [(openai_api_key, Some ''sk-test'')] [openai_api_key \<mapsto> []] \<and>
   main_script [(openai_api_key, Some ''sk-test'')] (\<lambda>_. Some ''ok'') (\<lambda>_. Inr []) ''2024-01-01'' (Some ''q'')
     ([openai_api_key \<mapsto> []], app_init) =
   (Some ValueError, [Traceback ValueError],
    (dotenv_environ [(openai_api_key, Some ''sk-test'')] [openai_api_key \<mapsto> []], app_init))"
proof -
  have k: "\<not> key_supplied [(openai_api_key, Some ''sk-test'')] [openai_api_key \<mapsto> []]"
    by (simp add: key_supplied_def)
  show ?thesis using main_script_no_key [OF k] k by blast
qed

end
