(* ===== verification/Refine.thy ===== *)
theory Refine
  imports Prelude
begin

text \<open>
  The offline refinement script \<^verbatim>\<open>src/refineData.py\<close>: it reads the raw program
  table, keeps 35 columns, strips HTML from \<open>detail_text\<close>, replaces the values of
  twelve yes/no columns by the Korean words for "possible" and "impossible", renames
  the columns to Korean labels and writes the table. A table is the list of its columns
  in order, each a name and the list of its cells; \<open>read_csv\<close> and \<open>to_csv\<close> are
  not modelled (the table is given as parsed, and \<open>read_csv\<close> makes column names
  distinct). A cell is one of the values pandas produces: a string, an integer, a
  boolean or a missing value (NaN). BeautifulSoup's \<open>get_text\<close> is a parameter.
  Korean text is written as its UTF-8 bytes, which compare equal exactly when the
  Python strings do.
\<close>

datatype cell = CStr string | CInt int | CBool bool | CNaN

type_synonym frame = "(string \<times> cell list) list"

text \<open>Python truthiness of a cell; \<open>bool(float('nan'))\<close> is \<open>True\<close>.\<close>

fun cell_truthy :: "cell \<Rightarrow> bool" where
  "cell_truthy (CStr s) = (s \<noteq> [])"
| "cell_truthy (CInt n) = (n \<noteq> 0)"
| "cell_truthy (CBool b) = b"
| "cell_truthy CNaN = True"

section \<open>remove_html_tags\<close>

definition remove_html_tags :: "(string \<Rightarrow> string) \<Rightarrow> cell \<Rightarrow> cell" where
  "remove_html_tags get_text text =
     (case text of
        CStr s \<Rightarrow> if CHR ''<'' \<in> set s \<and> CHR ''>'' \<in> set s then CStr (get_text s) else CStr s
      | _ \<Rightarrow> text)"

section \<open>The table operations the script uses\<close>

text \<open>\<open>df.loc[:, cols]\<close>: the columns in the order given; a missing one raises \<open>KeyError\<close>.\<close>

definition loc_columns :: "frame \<Rightarrow> string list \<Rightarrow> py_error + frame" where
  "loc_columns df cols =
     (case those (map (map_of df) cols) of
        None \<Rightarrow> Inl KeyError
      | Some vss \<Rightarrow> Inr (zip cols vss))"

text \<open>\<open>df[cols] = f(df[cols])\<close> for an elementwise \<open>f\<close>: the listed columns are mapped.\<close>

definition map_columns :: "string list \<Rightarrow> (cell \<Rightarrow> cell) \<Rightarrow> frame \<Rightarrow> frame" where
  "map_columns cols f df = map (\<lambda>(n, vs). if n \<in> set cols then (n, map f vs) else (n, vs)) df"

text \<open>\<open>df.rename(columns=m)\<close>: names not in \<open>m\<close> are kept.\<close>

definition rename_columns :: "(string \<times> string) list \<Rightarrow> frame \<Rightarrow> frame" where
  "rename_columns m df = map (\<lambda>(n, vs). (case map_of m n of Some n' \<Rightarrow> n' | None \<Rightarrow> n, vs)) df"

section \<open>The script's constants\<close>

definition selected_columns :: "string list" where
  "selected_columns = [''title'', ''activity_start_date'', ''activity_end_date'', ''detail_text'', ''main_text'', ''max_activity_day'', ''max_per_team'', ''min_activity_day'', ''min_per_team'', ''notice_end_at'', ''notice_start_at'', ''person_number'', ''possible_child'', ''team_number'', ''participation_fee'', ''supportive_child'', ''pet'', ''is_paid_program'', ''fcfs'', ''participation_fee_by_team'', ''sido_name'', ''sigg_name'', ''is_full_subsidy'', ''subsidy_for_1'', ''subsidy_for_2'', ''subsidy_for_3'', ''subsidy_for_4'', ''subsidy_for_5'', ''transportation_subsidy'', ''accommodation_subsidy'', ''experience_subsidy'', ''meal_subsidy'', ''travel_subsidy'', ''etc_subsidy'', ''monthler_url'']"

definition bool_columns :: "string list" where
  "bool_columns = [''possible_child'', ''supportive_child'', ''pet'', ''is_paid_program'', ''fcfs'',
     ''participation_fee_by_team'', ''is_full_subsidy'', ''transportation_subsidy'',
     ''accommodation_subsidy'', ''experience_subsidy'', ''meal_subsidy'', ''travel_subsidy'']"

text \<open>The Korean words for "possible" and "impossible" (lines 40--41), in UTF-8.\<close>

definition possible_label :: string where
  "possible_label = [CHR 0xEA, CHR 0xB0, CHR 0x80, CHR 0xEB, CHR 0x8A, CHR 0xA5]"

definition impossible_label :: string where
  "impossible_label = [CHR 0xEB, CHR 0xB6, CHR 0x88, CHR 0xEA, CHR 0xB0, CHR 0x80, CHR 0xEB, CHR 0x8A, CHR 0xA5]"

definition to_label :: "cell \<Rightarrow> cell" where
  "to_label x = CStr (if cell_truthy x then possible_label else impossible_label)"

text \<open>
  The renaming of lines 44--89, in the order of the source (commented-out entries
  omitted). In English: \<open>monthler_url\<close> (Monthler link), \<open>title\<close> (program title), \<open>activity_start_date\<close> (activity start time), \<open>activity_end_date\<close> (activity end time), \<open>detail_text\<close> (program detailed description), \<open>main_text\<close> (program summary), \<open>max_activity_day\<close> (maximum activity (travel) days), \<open>min_activity_day\<close> (minimum activity (travel) days), \<open>max_per_team\<close> (maximum people per team), \<open>min_per_team\<close> (minimum people per team), \<open>notice_end_at\<close> (notice (application) deadline), \<open>notice_start_at\<close> (notice (application) start time), \<open>person_number\<close> (number of people recruited), \<open>possible_child\<close> (children allowed (go with a child)), \<open>team_number\<close> (number of teams recruited), \<open>participation_fee\<close> (participation fee), \<open>supportive_child\<close> (child subsidy provided), \<open>pet\<close> (pets allowed), \<open>is_paid_program\<close> (paid program), \<open>fcfs\<close> (first come, first served), \<open>participation_fee_by_team\<close> (fee needed per team), \<open>sido_name\<close> (metropolitan city/province name), \<open>sigg_name\<close> (city/county/district name), \<open>is_full_subsidy\<close> (full subsidy), \<open>subsidy_for_1\<close> (subsidy for 1 person), \<open>subsidy_for_2\<close> (subsidy for 2 people), \<open>subsidy_for_3\<close> (subsidy for 3 people), \<open>subsidy_for_4\<close> (subsidy for 4 people), \<open>subsidy_for_5\<close> (subsidy for 5 people), \<open>transportation_subsidy\<close> (transportation subsidy provided), \<open>accommodation_subsidy\<close> (accommodation subsidy provided), \<open>experience_subsidy\<close> (experience subsidy provided), \<open>meal_subsidy\<close> (meal subsidy provided), \<open>travel_subsidy\<close> (travel subsidy provided), \<open>etc_subsidy\<close> (other subsidy items).
\<close>

definition rename_map :: "(string \<times> string) list" where
  "rename_map =
   [
     (''monthler_url'', [CHR 0xED, CHR 0x95, CHR 0x9C, CHR 0xEB, CHR 0x8B, CHR 0xAC, CHR 0xEC, CHR 0x82, CHR 0xB4, CHR 0xEB, CHR 0x9F, CHR 0xAC, CHR '' '', CHR 0xEB, CHR 0xA7, CHR 0x81, CHR 0xED, CHR 0x81, CHR 0xAC])
   , (''title'', [CHR 0xED, CHR 0x94, CHR 0x84, CHR 0xEB, CHR 0xA1, CHR 0x9C, CHR 0xEA, CHR 0xB7, CHR 0xB8, CHR 0xEB, CHR 0x9E, CHR 0xA8, CHR '' '', CHR 0xEC, CHR 0xA0, CHR 0x9C, CHR 0xEB, CHR 0xAA, CHR 0xA9])
   , (''activity_start_date'', [CHR 0xED, CHR 0x99, CHR 0x9C, CHR 0xEB, CHR 0x8F, CHR 0x99, CHR '' '', CHR 0xEC, CHR 0x8B, CHR 0x9C, CHR 0xEC, CHR 0x9E, CHR 0x91, CHR '' '', CHR 0xEC, CHR 0x8B, CHR 0x9C, CHR 0xEA, CHR 0xB0, CHR 0x84])
   , (''activity_end_date'', [CHR 0xED, CHR 0x99, CHR 0x9C, CHR 0xEB, CHR 0x8F, CHR 0x99, CHR '' '', CHR 0xEC, CHR 0xA2, CHR 0x85, CHR 0xEB, CHR 0xA3, CHR 0x8C, CHR '' '', CHR 0xEC, CHR 0x8B, CHR 0x9C, CHR 0xEA, CHR 0xB0, CHR 0x84])
   , (''detail_text'', [CHR 0xED, CHR 0x94, CHR 0x84, CHR 0xEB, CHR 0xA1, CHR 0x9C, CHR 0xEA, CHR 0xB7, CHR 0xB8, CHR 0xEB, CHR 0x9E, CHR 0xA8, CHR '' '', CHR 0xEC, CHR 0x83, CHR 0x81, CHR 0xEC, CHR 0x84, CHR 0xB8, CHR '' '', CHR 0xEC, CHR 0x84, CHR 0xA4, CHR 0xEB, CHR 0xAA, CHR 0x85])
   , (''main_text'', [CHR 0xED, CHR 0x94, CHR 0x84, CHR 0xEB, CHR 0xA1, CHR 0x9C, CHR 0xEA, CHR 0xB7, CHR 0xB8, CHR 0xEB, CHR 0x9E, CHR 0xA8, CHR '' '', CHR 0xEC, CHR 0x9A, CHR 0x94, CHR 0xEC, CHR 0x95, CHR 0xBD, CHR '' '', CHR 0xEC, CHR 0x84, CHR 0xA4, CHR 0xEB, CHR 0xAA, CHR 0x85])
   , (''max_activity_day'', [CHR 0xEC, CHR 0xB5, CHR 0x9C, CHR 0xEB, CHR 0x8C, CHR 0x80, CHR '' '', CHR 0xED, CHR 0x99, CHR 0x9C, CHR 0xEB, CHR 0x8F, CHR 0x99, CHR ''('', CHR 0xEC, CHR 0x97, CHR 0xAC, CHR 0xED, CHR 0x96, CHR 0x89, CHR '')'', CHR 0xEC, CHR 0x9D, CHR 0xBC, CHR 0xEC, CHR 0x88, CHR 0x98])
   , (''min_activity_day'', [CHR 0xEC, CHR 0xB5, CHR 0x9C, CHR 0xEC, CHR 0x86, CHR 0x8C, CHR '' '', CHR 0xED, CHR 0x99, CHR 0x9C, CHR 0xEB, CHR 0x8F, CHR 0x99, CHR ''('', CHR 0xEC, CHR 0x97, CHR 0xAC, CHR 0xED, CHR 0x96, CHR 0x89, CHR '')'', CHR 0xEC, CHR 0x9D, CHR 0xBC, CHR 0xEC, CHR 0x88, CHR 0x98])
   , (''max_per_team'', [CHR 0xED, CHR 0x8C, CHR 0x80, CHR 0xEB, CHR 0x8B, CHR 0xB9, CHR '' '', CHR 0xEC, CHR 0xB5, CHR 0x9C, CHR 0xEB, CHR 0x8C, CHR 0x80, CHR '' '', CHR 0xEC, CHR 0x9D, CHR 0xB8, CHR 0xEC, CHR 0x9B, CHR 0x90])
   , (''min_per_team'', [CHR 0xED, CHR 0x8C, CHR 0x80, CHR 0xEB, CHR 0x8B, CHR 0xB9, CHR '' '', CHR 0xEC, CHR 0xB5, CHR 0x9C, CHR 0xEC, CHR 0x86, CHR 0x8C, CHR '' '', CHR 0xEC, CHR 0x9D, CHR 0xB8, CHR 0xEC, CHR 0x9B, CHR 0x90])
   , (''notice_end_at'', [CHR 0xEA, CHR 0xB3, CHR 0xB5, CHR 0xEA, CHR 0xB3, CHR 0xA0, CHR ''('', CHR 0xEC, CHR 0xA7, CHR 0x80, CHR 0xEC, CHR 0x9B, CHR 0x90, CHR '')'', CHR '' '', CHR 0xEB, CHR 0xA7, CHR 0x88, CHR 0xEA, CHR 0xB0, CHR 0x90, CHR '' '', CHR 0xEC, CHR 0x8B, CHR 0x9C, CHR 0xEA, CHR 0xB0, CHR 0x84])
   , (''notice_start_at'', [CHR 0xEA, CHR 0xB3, CHR 0xB5, CHR 0xEA, CHR 0xB3, CHR 0xA0, CHR ''('', CHR 0xEC, CHR 0xA7, CHR 0x80, CHR 0xEC, CHR 0x9B, CHR 0x90, CHR '')'', CHR '' '', CHR 0xEC, CHR 0x8B, CHR 0x9C, CHR 0xEC, CHR 0x9E, CHR 0x91, CHR '' '', CHR 0xEC, CHR 0x8B, CHR 0x9C, CHR 0xEA, CHR 0xB0, CHR 0x84])
   , (''person_number'', [CHR 0xEB, CHR 0xAA, CHR 0xA8, CHR 0xEC, CHR 0xA7, CHR 0x91, CHR '' '', CHR 0xEC, CHR 0x9D, CHR 0xB8, CHR 0xEC, CHR 0x9B, CHR 0x90, CHR '' '', CHR 0xEC, CHR 0x88, CHR 0x98])
   , (''possible_child'', [CHR 0xEC, CHR 0x95, CHR 0x84, CHR 0xEC, CHR 0x9D, CHR 0xB4, CHR '' '', CHR 0xEB, CHR 0x8F, CHR 0x99, CHR 0xEB, CHR 0xB0, CHR 0x98, CHR '' '', CHR 0xEA, CHR 0xB0, CHR 0x80, CHR 0xEB, CHR 0x8A, CHR 0xA5, CHR ''('', CHR 0xEC, CHR 0x95, CHR 0x84, CHR 0xEC, CHR 0x9D, CHR 0xB4, CHR '' '', CHR 0xED, CHR 0x95, CHR 0xA8, CHR 0xEA, CHR 0xBB, CHR 0x98, CHR '' '', CHR 0xEA, CHR 0xB0, CHR 0x80, CHR 0xEA, CHR 0xB8, CHR 0xB0, CHR '')''])
   , (''team_number'', [CHR 0xEB, CHR 0xAA, CHR 0xA8, CHR 0xEC, CHR 0xA7, CHR 0x91, CHR '' '', CHR 0xED, CHR 0x8C, CHR 0x80, CHR '' '', CHR 0xEC, CHR 0x88, CHR 0x98])
   , (''participation_fee'', [CHR 0xEC, CHR 0xB0, CHR 0xB8, CHR 0xEA, CHR 0xB0, CHR 0x80, CHR 0xEB, CHR 0xB9, CHR 0x84])
   , (''supportive_child'', [CHR 0xEC, CHR 0x95, CHR 0x84, CHR 0xEC, CHR 0x9D, CHR 0xB4, CHR '' '', CHR 0xEC, CHR 0xA7, CHR 0x80, CHR 0xEC, CHR 0x9B, CHR 0x90, CHR 0xEA, CHR 0xB8, CHR 0x88, CHR '' '', CHR 0xEC, CHR 0xA7, CHR 0x80, CHR 0xEC, CHR 0x9B, CHR 0x90, CHR '' '', CHR 0xEC, CHR 0x97, CHR 0xAC, CHR 0xEB, CHR 0xB6, CHR 0x80])
   , (''pet'', [CHR 0xEB, CHR 0xB0, CHR 0x98, CHR 0xEB, CHR 0xA0, CHR 0xA4, CHR 0xEB, CHR 0x8F, CHR 0x99, CHR 0xEB, CHR 0xAC, CHR 0xBC, CHR '' '', CHR 0xEB, CHR 0x8F, CHR 0x99, CHR 0xEB, CHR 0xB0, CHR 0x98, CHR '' '', CHR 0xEA, CHR 0xB0, CHR 0x80, CHR 0xEB, CHR 0x8A, CHR 0xA5, CHR '' '', CHR 0xEC, CHR 0x97, CHR 0xAC, CHR 0xEB, CHR 0xB6, CHR 0x80])
   , (''is_paid_program'', [CHR 0xEC, CHR 0x9C, CHR 0xA0, CHR 0xEB, CHR 0xA3, CHR 0x8C, CHR '' '', CHR 0xED, CHR 0x94, CHR 0x84, CHR 0xEB, CHR 0xA1, CHR 0x9C, CHR 0xEA, CHR 0xB7, CHR 0xB8, CHR 0xEB, CHR 0x9E, CHR 0xA8, CHR '' '', CHR 0xEC, CHR 0x97, CHR 0xAC, CHR 0xEB, CHR 0xB6, CHR 0x80])
   , (''fcfs'', [CHR 0xEC, CHR 0x84, CHR 0xA0, CHR 0xEC, CHR 0xB0, CHR 0xA9, CHR 0xEC, CHR 0x88, CHR 0x9C, CHR '' '', CHR 0xEC, CHR 0x97, CHR 0xAC, CHR 0xEB, CHR 0xB6, CHR 0x80])
   , (''participation_fee_by_team'', [CHR 0xEC, CHR 0xB0, CHR 0xB8, CHR 0xEA, CHR 0xB0, CHR 0x80, CHR 0xEB, CHR 0xB9, CHR 0x84, CHR 0xEA, CHR 0xB0, CHR 0x80, CHR '' '', CHR 0xED, CHR 0x8C, CHR 0x80, CHR '' '', CHR 0xEB, CHR 0x8B, CHR 0xB9, CHR '' '', CHR 0xED, CHR 0x95, CHR 0x84, CHR 0xEC, CHR 0x9A, CHR 0x94, CHR 0xED, CHR 0x95, CHR 0x9C, CHR 0xEC, CHR 0xA7, CHR 0x80, CHR '' '', CHR 0xEC, CHR 0x97, CHR 0xAC, CHR 0xEB, CHR 0xB6, CHR 0x80])
   , (''sido_name'', [CHR 0xEA, CHR 0xB4, CHR 0x91, CHR 0xEC, CHR 0x97, CHR 0xAD, CHR 0xEC, CHR 0x8B, CHR 0x9C, CHR ''/'', CHR 0xEB, CHR 0x8F, CHR 0x84, CHR '' '', CHR 0xEC, CHR 0x9D, CHR 0xB4, CHR 0xEB, CHR 0xA6, CHR 0x84])
   , (''sigg_name'', [CHR 0xEC, CHR 0x8B, CHR 0x9C, CHR ''/'', CHR 0xEA, CHR 0xB5, CHR 0xB0, CHR ''/'', CHR 0xEA, CHR 0xB5, CHR 0xAC, CHR '' '', CHR 0xEC, CHR 0x9D, CHR 0xB4, CHR 0xEB, CHR 0xA6, CHR 0x84])
   , (''is_full_subsidy'', [CHR 0xEC, CHR 0xA0, CHR 0x84, CHR 0xEC, CHR 0x95, CHR 0xA1, CHR '' '', CHR 0xEC, CHR 0xA7, CHR 0x80, CHR 0xEC, CHR 0x9B, CHR 0x90, CHR '' '', CHR 0xEC, CHR 0x97, CHR 0xAC, CHR 0xEB, CHR 0xB6, CHR 0x80])
   , (''subsidy_for_1'', [CHR ''1'', CHR 0xEC, CHR 0x9D, CHR 0xB8, CHR 0xEB, CHR 0x8B, CHR 0xB9, CHR '' '', CHR 0xEC, CHR 0xA7, CHR 0x80, CHR 0xEC, CHR 0x9B, CHR 0x90, CHR 0xEA, CHR 0xB8, CHR 0x88])
   , (''subsidy_for_2'', [CHR ''2'', CHR 0xEC, CHR 0x9D, CHR 0xB8, CHR 0xEB, CHR 0x8B, CHR 0xB9, CHR '' '', CHR 0xEC, CHR 0xA7, CHR 0x80, CHR 0xEC, CHR 0x9B, CHR 0x90, CHR 0xEA, CHR 0xB8, CHR 0x88])
   , (''subsidy_for_3'', [CHR ''3'', CHR 0xEC, CHR 0x9D, CHR 0xB8, CHR 0xEB, CHR 0x8B, CHR 0xB9, CHR '' '', CHR 0xEC, CHR 0xA7, CHR 0x80, CHR 0xEC, CHR 0x9B, CHR 0x90, CHR 0xEA, CHR 0xB8, CHR 0x88])
   , (''subsidy_for_4'', [CHR ''4'', CHR 0xEC, CHR 0x9D, CHR 0xB8, CHR 0xEB, CHR 0x8B, CHR 0xB9, CHR '' '', CHR 0xEC, CHR 0xA7, CHR 0x80, CHR 0xEC, CHR 0x9B, CHR 0x90, CHR 0xEA, CHR 0xB8, CHR 0x88])
   , (''subsidy_for_5'', [CHR ''5'', CHR 0xEC, CHR 0x9D, CHR 0xB8, CHR 0xEB, CHR 0x8B, CHR 0xB9, CHR '' '', CHR 0xEC, CHR 0xA7, CHR 0x80, CHR 0xEC, CHR 0x9B, CHR 0x90, CHR 0xEA, CHR 0xB8, CHR 0x88])
   , (''transportation_subsidy'', [CHR 0xEA, CHR 0xB5, CHR 0x90, CHR 0xED, CHR 0x86, CHR 0xB5, CHR 0xEB, CHR 0xB9, CHR 0x84, CHR '' '', CHR 0xEC, CHR 0xA7, CHR 0x80, CHR 0xEC, CHR 0x9B, CHR 0x90, CHR '' '', CHR 0xEC, CHR 0x97, CHR 0xAC, CHR 0xEB, CHR 0xB6, CHR 0x80])
   , (''accommodation_subsidy'', [CHR 0xEC, CHR 0x88, CHR 0x99, CHR 0xEB, CHR 0xB0, CHR 0x95, CHR 0xEB, CHR 0xB9, CHR 0x84, CHR '' '', CHR 0xEC, CHR 0xA7, CHR 0x80, CHR 0xEC, CHR 0x9B, CHR 0x90, CHR '' '', CHR 0xEC, CHR 0x97, CHR 0xAC, CHR 0xEB, CHR 0xB6, CHR 0x80])
   , (''experience_subsidy'', [CHR 0xEC, CHR 0xB2, CHR 0xB4, CHR 0xED, CHR 0x97, CHR 0x98, CHR 0xEB, CHR 0xB9, CHR 0x84, CHR '' '', CHR 0xEC, CHR 0xA7, CHR 0x80, CHR 0xEC, CHR 0x9B, CHR 0x90, CHR '' '', CHR 0xEC, CHR 0x97, CHR 0xAC, CHR 0xEB, CHR 0xB6, CHR 0x80])
   , (''meal_subsidy'', [CHR 0xEC, CHR 0x8B, CHR 0x9D, CHR 0xEB, CHR 0xB9, CHR 0x84, CHR '' '', CHR 0xEC, CHR 0xA7, CHR 0x80, CHR 0xEC, CHR 0x9B, CHR 0x90, CHR '' '', CHR 0xEC, CHR 0x97, CHR 0xAC, CHR 0xEB, CHR 0xB6, CHR 0x80])
   , (''travel_subsidy'', [CHR 0xEC, CHR 0x97, CHR 0xAC, CHR 0xED, CHR 0x96, CHR 0x89, CHR 0xEB, CHR 0xB9, CHR 0x84, CHR '' '', CHR 0xEC, CHR 0xA7, CHR 0x80, CHR 0xEC, CHR 0x9B, CHR 0x90, CHR '' '', CHR 0xEC, CHR 0x97, CHR 0xAC, CHR 0xEB, CHR 0xB6, CHR 0x80])
   , (''etc_subsidy'', [CHR 0xEA, CHR 0xB8, CHR 0xB0, CHR 0xED, CHR 0x83, CHR 0x80, CHR '' '', CHR 0xEC, CHR 0xA7, CHR 0x80, CHR 0xEC, CHR 0x9B, CHR 0x90, CHR 0xEA, CHR 0xB8, CHR 0x88, CHR '' '', CHR 0xED, CHR 0x95, CHR 0xAD, CHR 0xEB, CHR 0xAA, CHR 0xA9])
   ]"

text \<open>
  The label \<open>rename\<close> gives a column, and the transformation lines 33--41 apply to
  the cells of a column: HTML stripping for \<open>detail_text\<close>, then the yes/no words for
  the columns of \<open>bool_columns\<close>.
\<close>

definition rename_label :: "string \<Rightarrow> string" where
  "rename_label c = (case map_of rename_map c of Some n \<Rightarrow> n | None \<Rightarrow> c)"

definition column_transform :: "(string \<Rightarrow> string) \<Rightarrow> string \<Rightarrow> cell \<Rightarrow> cell" where
  "column_transform g c =
     (\<lambda>x. let y = (if c = ''detail_text'' then remove_html_tags g x else x)
          in if c \<in> set bool_columns then to_label y else y)"

section \<open>The script\<close>

definition refine_data :: "(string \<Rightarrow> string) \<Rightarrow> frame \<Rightarrow> py_error + frame" where
  "refine_data get_text df =
     (case loc_columns df selected_columns of
        Inl e \<Rightarrow> Inl e
      | Inr df1 \<Rightarrow>
          (let df2 = map_columns [''detail_text''] (remove_html_tags get_text) df1;
               df3 = map_columns bool_columns to_label df2
           in Inr (rename_columns rename_map df3)))"


section \<open>Lemmas\<close>

lemma refine_data_eq:
  "refine_data g df =
     (if list_all (\<lambda>c. map_of df c \<noteq> None) selected_columns
      then Inr (map (\<lambda>c. (rename_label c, map (column_transform g c) (the (map_of df c)))) selected_columns)
      else Inl KeyError)"
proof (cases "those (map (map_of df) selected_columns)")
  case None
  then show ?thesis using those_map_None [of "map_of df" selected_columns]
    by (simp add: refine_data_def loc_columns_def)
next
  case (Some vss)
  then have ok: "list_all (\<lambda>c. map_of df c \<noteq> None) selected_columns"
    and v: "vss = map (\<lambda>c. the (map_of df c)) selected_columns"
    using those_map_Some [of "map_of df" selected_columns vss] by auto
  have "refine_data g df = Inr (rename_columns rename_map (map_columns bool_columns to_label
        (map_columns [''detail_text''] (remove_html_tags g) (zip selected_columns vss))))"
    using Some by (simp add: refine_data_def loc_columns_def)
  also have "\<dots> = Inr (map (\<lambda>c. (rename_label c, map (column_transform g c) (the (map_of df c)))) selected_columns)"
    unfolding v zip_map2 zip_same_conv_map map_columns_def rename_columns_def map_map
    by (intro arg_cong [where f = Inr] list.map_cong0)
       (auto simp: column_transform_def rename_label_def bool_columns_def Let_def)
  finally show ?thesis using ok by simp
qed

lemma refined_labels_distinct: "distinct (map rename_label selected_columns)"
  by (simp add: rename_label_def selected_columns_def rename_map_def)

lemma selected_renamed: "list_all (\<lambda>c. map_of rename_map c \<noteq> None) selected_columns"
  by (simp add: selected_columns_def rename_map_def)

lemma refine_data_lookup:
  assumes "refine_data g df = Inr df'" "c \<in> set selected_columns" "map_of df c = Some vs"
  shows "map_of df' (rename_label c) = Some (map (column_transform g c) vs)"
proof -
  have inj: "inj_on rename_label (set selected_columns)"
    using refined_labels_distinct by (simp add: distinct_map)
  have "df' = map (\<lambda>c. (rename_label c, map (column_transform g c) (the (map_of df c)))) selected_columns"
    using assms(1) by (simp add: refine_data_eq split: if_splits)
  then show ?thesis
    using map_of_map_inj [OF inj assms(2), of "\<lambda>c. map (column_transform g c) (the (map_of df c))"] assms(3)
    by simp
qed

text \<open>
  C25. The refined table has the 35 selected columns, in the order of the selection, each under its Korean label; the labels are distinct and no selected column keeps its English name.
\<close>

theorem refine_data_columns:
  "refine_data g df = Inr df' \<Longrightarrow>
     map fst df' = map rename_label selected_columns \<and> distinct (map fst df') \<and>
     list_all (\<lambda>c. map_of rename_map c \<noteq> None) selected_columns"
  using refined_labels_distinct selected_renamed by (auto simp: refine_data_eq comp_def split: if_splits)

text \<open>
  C26. The script fails, with \<open>KeyError\<close>, exactly when a selected column is missing from the raw table.
\<close>

theorem refine_data_error:
  "refine_data g df = Inl KeyError \<longleftrightarrow> \<not> list_all (\<lambda>c. map_of df c \<noteq> None) selected_columns"
  by (simp add: refine_data_eq)

text \<open>
  C27. Each of the twelve yes/no columns holds, for every row, the word for "possible" when the raw value is truthy and "impossible" otherwise; a missing value (NaN) is truthy and becomes "possible".
\<close>

theorem refine_data_bool:
  "refine_data g df = Inr df' \<Longrightarrow> b \<in> set bool_columns \<Longrightarrow> map_of df b = Some vs \<Longrightarrow>
     map_of df' (rename_label b) =
       Some (map (\<lambda>x. CStr (if cell_truthy x then possible_label else impossible_label)) vs)"
proof -
  assume r: "refine_data g df = Inr df'" and b: "b \<in> set bool_columns" and v: "map_of df b = Some vs"
  have "b \<in> set selected_columns" "b \<noteq> ''detail_text''"
    using b by (auto simp: bool_columns_def selected_columns_def)
  then show ?thesis using refine_data_lookup [OF r _ v] b by (simp add: column_transform_def to_label_def)
qed

text \<open>
  C28. Every selected column that is not a yes/no column keeps its cells under its new
  label, except the detail text, which is passed cellwise through \<open>remove_html_tags\<close>
  (a string containing both \<open><\<close> and \<open>>\<close> is replaced by its text, any other value is
  kept); \<open>main_text\<close> is copied unchanged.
\<close>

theorem refine_data_text_columns:
  "refine_data g df = Inr df' \<Longrightarrow> c \<in> set selected_columns \<Longrightarrow> c \<notin> set bool_columns \<Longrightarrow>
     map_of df c = Some vs \<Longrightarrow>
     map_of df' (rename_label c) = Some (if c = ''detail_text'' then map (remove_html_tags g) vs else vs)"
  using refine_data_lookup [of g df df' c vs] by (simp add: column_transform_def)

section \<open>Witnesses\<close>

lemma refine_data_frame:
  "\<exists>df'. refine_data g (map (\<lambda>c. (c, v c)) selected_columns) = Inr df'"
proof -
  have "list_all (\<lambda>c. map_of (map (\<lambda>c. (c, v c)) selected_columns) c \<noteq> None) selected_columns"
    by (simp add: list_all_iff map_of_frame)
  then show ?thesis by (simp add: refine_data_eq)
qed

theorem refine_data_columns_witness:
  "\<exists>df'. refine_data (\<lambda>s. s) (map (\<lambda>c. (c, [CNaN])) selected_columns) = Inr df' \<and> distinct (map fst df')"
proof -
  obtain df' where r: "refine_data (\<lambda>s. s) (map (\<lambda>c. (c, [CNaN])) selected_columns) = Inr df'"
    using refine_data_frame [of "\<lambda>s. s" "\<lambda>_. [CNaN]"] by blast
  show ?thesis using refine_data_columns [OF r] r by blast
qed

theorem refine_data_bool_witness:
  "\<exists>df'. refine_data (\<lambda>s. s) (map (\<lambda>c. (c, [CNaN, CBool False])) selected_columns) = Inr df' \<and>
     map_of df' (rename_label ''possible_child'') = Some [CStr possible_label, CStr impossible_label]"
proof -
  obtain df' where r: "refine_data (\<lambda>s. s) (map (\<lambda>c. (c, [CNaN, CBool False])) selected_columns) = Inr df'"
    using refine_data_frame [of "\<lambda>s. s" "\<lambda>_. [CNaN, CBool False]"] by blast
  have b: "''possible_child'' \<in> set bool_columns" by (simp add: bool_columns_def)
  have v: "map_of (map (\<lambda>c. (c, [CNaN, CBool False])) selected_columns) ''possible_child'' = Some [CNaN, CBool False]"
    by (rule map_of_frame) (simp add: selected_columns_def)
  show ?thesis using refine_data_bool [OF r b v] r by simp
qed

theorem refine_data_text_columns_witness:
  "\<exists>df'. refine_data (\<lambda>_. ''x'') (map (\<lambda>c. (c, [CStr ''<b>x</b>'', CInt 3])) selected_columns) = Inr df' \<and>
     map_of df' (rename_label ''detail_text'') = Some [CStr ''x'', CInt 3] \<and>
     map_of df' (rename_label ''main_text'') = Some [CStr ''<b>x</b>'', CInt 3]"
proof -
  obtain df' where r: "refine_data (\<lambda>_. ''x'') (map (\<lambda>c. (c, [CStr ''<b>x</b>'', CInt 3])) selected_columns) = Inr df'"
    using refine_data_frame [of "\<lambda>_. ''x''" "\<lambda>_. [CStr ''<b>x</b>'', CInt 3]"] by blast
  have c: "''detail_text'' \<in> set selected_columns" "''detail_text'' \<notin> set bool_columns"
    "''main_text'' \<in> set selected_columns" "''main_text'' \<notin> set bool_columns"
    by (simp_all add: selected_columns_def bool_columns_def)
  have v: "map_of (map (\<lambda>c. (c, [CStr ''<b>x</b>'', CInt 3])) selected_columns) ''detail_text'' = Some [CStr ''<b>x</b>'', CInt 3]"
    "map_of (map (\<lambda>c. (c, [CStr ''<b>x</b>'', CInt 3])) selected_columns) ''main_text'' = Some [CStr ''<b>x</b>'', CInt 3]"
    by (rule map_of_frame, simp add: selected_columns_def)+
  show ?thesis
    using refine_data_text_columns [OF r c(1,2) v(1)] refine_data_text_columns [OF r c(3,4) v(2)] r
    by (simp add: remove_html_tags_def)
qed

end
