(* ===== verification/Spec2Isabelle.thy ===== *)
theory Spec2Isabelle
  imports Ingestion Prompts Dates Config Chain App Refine
begin

text \<open>
  \<^bold>\<open>A verification model of the travel-subsidy Q\&A chatbot.\<close>

  The repository has three Python scripts.
  \<^item> \<^verbatim>\<open>src/refineData.py\<close> (offline ETL): selects 35 columns of the raw program
    table, strips HTML from the detail text, turns twelve yes/no columns into the words
    for "possible" / "impossible", renames the columns to Korean labels and writes
    \<^verbatim>\<open>refined_data.csv\<close>.
  \<^item> \<^verbatim>\<open>src/embeddingPrograms.py\<close> (offline ingestion): loads the refined CSV with
    \<open>CSVLoader\<close>, and \<open>create_vector_store\<close> embeds the documents in batches of 150,
    adding each batch to the Chroma collection persisted under \<^verbatim>\<open>./db\<close> and
    sleeping 61 seconds between batches to stay under the embedding quota.
  \<^item> \<^verbatim>\<open>src/main.py\<close> (the Streamlit app): builds a retriever over \<^verbatim>\<open>./db\<close>
    (\<open>k = 5\<close>), a history-aware retriever with a question-rewriting prompt anchored
    at today's date, an answer chain with the business-rule prompt, wraps it with the
    chat history, and answers one question per script run.
  The components interact through files (the refined CSV, read by ingestion), the
  persisted collection (written by ingestion, read by the app) and, inside the app, the
  LangChain runnables, which pass a dictionary of inputs (\<open>input\<close>, \<open>history\<close>,
  \<open>context\<close>, \<open>answer\<close>) along.

  \<^bold>\<open>Theories.\<close>
  \<^item> \<open>Prelude\<close>: Python built-ins written as they behave: \<open>range\<close> with CPython's
    length formula and \<open>ValueError\<close> on a zero step (\<open>py_range\<close>), slicing with
    clamped and negative bounds (\<open>py_slice\<close>), \<open>str.join\<close>, and \<open>str.strip\<close> on
    code points (\<open>utf8_chars\<close> splits the UTF-8 bytes of a string into characters,
    \<open>py_isspace\<close> is \<open>str.isspace\<close>, non-breaking and ideographic spaces included);
    exceptions as values of \<open>py_error\<close>, with \<open>Unmodelled\<close> for results the model
    does not compute; the reference chunking \<open>chunks\<close>, ceiling division, and the list
    and association-list lemmas the components share.
  \<^item> \<open>Refine\<close> (\<^verbatim>\<open>refineData.py\<close>): a table is its list of columns; \<open>loc_columns\<close>,
    \<open>map_columns\<close>, \<open>rename_columns\<close> are the pandas operations the script uses,
    \<open>remove_html_tags\<close> its helper (BeautifulSoup's \<open>get_text\<close> a parameter),
    \<open>refine_data\<close> the script. \<open>refine_data_eq\<close> shows it equal to a per-column
    description; C25--C28 give the columns, the error, the yes/no conversion (NaN is
    truthy), and the HTML stripping of the detail text with every other column untouched.
  \<^item> \<open>Ingestion\<close> (\<^verbatim>\<open>embeddingPrograms.py\<close>): documents (\<open>csv_loader\<close>,
    \<open>csv_row_content\<close> with \<open>py_strip\<close>), the Chroma collection (\<open>chroma\<close>,
    \<open>chroma_add\<close>; \<open>uuid4\<close> ids are a counter), the state \<open>ingest_state\<close> (the
    \<open>vectorstore\<close> variable, the persisted collection, the trace of prints, requests and
    sleeps), one iteration \<open>ingest_batch\<close>, the loop \<open>ingest_loop\<close>,
    \<open>create_vector_store\<close> and \<open>ingest_main\<close>. The embedding service is a parameter
    \<open>emb\<close>; a failed request is \<open>Inl (APIError, st)\<close> with the state at the exception.
    C1--C9: refinement by a single insertion of all documents, request and sleep counts,
    rate-limit safety of every trace, request sizes, the state a failure leaves and
    resumption from it, duplication on a re-run, zero and negative batch sizes; C10: on
    every path, returning or raising, a run ends within \<open>ceil(n / B)\<close> requests and
    \<open>ceil(n / B) - 1\<close> sleeps.
  \<^item> \<open>Prompts\<close> (\<^verbatim>\<open>main.py\<close>, lines 33--142): CPython 3.11's format-string
    scanner (\<open>scan_fmt\<close>, \<open>parse_field\<close>, \<open>name_scan\<close>, \<open>spec_scan\<close>,
    \<open>get_integer\<close>) and field lookup (\<open>field_value\<close>, \<open>access_chain\<close>,
    \<open>convert_spec\<close>) with the two entry points the program reaches: \<open>py_format\<close>,
    \<open>str.format\<close> at line 61, and \<open>lc_format\<close>, the \<open>string.Formatter\<close> of
    LangChain's prompt templates; \<open>parse_fmt\<close> is \<open>Formatter().parse\<close>. Chat prompt
    templates (\<open>format_chat\<close>, \<open>prompt_input_vars\<close>) and the two prompts of
    \<open>initialize_components\<close> (the source strings exactly, Korean text as UTF-8
    bytes). C14: line 61 substitutes both \<open>{today}\<close> fields and nothing else, for any
    value; C15: what the answer prompt gives the chat model.
  \<^item> \<open>Dates\<close>: \<open>strftime('%Y-%m-%d')\<close> of a valid date (C18).
  \<^item> \<open>Chain\<close> (\<^verbatim>\<open>main.py\<close>, lines 19--161): the retriever (\<open>similarity_search\<close>,
    \<open>get_retriever\<close>; the search itself, \<open>nearest\<close>, is the index contract of the
    spec), \<open>history_aware_retrieve\<close>, \<open>stuff_documents_chain\<close>, \<open>retrieval_chain\<close>,
    \<open>initialize_components\<close>, \<open>rag_chain\<close> and \<open>with_message_history\<close>.
    C11--C13: one turn exactly, with its effect on the history on success and failure;
    the rewriting step that never runs; initialisation succeeds for every date.
  \<^item> \<open>Config\<close> (\<^verbatim>\<open>main.py\<close>, lines 16--30): \<open>os.environ\<close> as a map
    \<open>environ\<close>; python-dotenv's \<open>load_dotenv\<close> (\<open>dotenv_dict\<close>, then
    \<open>set_as_environment_variables\<close> without \<open>override\<close>); the API-key checks of
    the \<open>OpenAIEmbeddings\<close> and \<open>ChatOpenAI\<close> constructors; the module body
    \<open>main_module\<close>. C16: the loop of \<open>load_dotenv\<close> equals the per-variable rule
    \<open>dotenv_environ\<close> (set variables are kept, unset ones take the file's last value).
  \<^item> \<open>App\<close> (\<^verbatim>\<open>main.py\<close>, lines 150--185): one Streamlit script run \<open>app_run\<close>
    on the session state and the rendered page, the reachable states
    \<open>app_reachable\<close> (an inductive predicate over runs with arbitrary services, dates
    and inputs) and a session of reruns \<open>app_session\<close>; \<open>main_script\<close> is one run of
    the whole module (lines 16--185), the start-up of \<open>Config\<close> followed by
    \<open>app_run\<close>, on the process environment and the session state. C19--C24: whole
    turns in every reachable history, append-only history, the greeting on every run, a
    failed run keeps the history, every question of a session answered, and the only
    exception a run with the app's retriever can stop with. C17: without a non-empty key
    after loading, every run shows only the \<open>ValueError\<close> traceback.
  \<^item> This theory: C29, ingestion followed by retrieval over the persisted collection.

  \<^bold>\<open>Bounds and loops.\<close> Every loop of the sources is a \<open>for\<close> over a finite
  list (\<open>range(0, n, b)\<close>, the stored messages, the rows): they are structural
  recursion or \<open>map\<close> over that list, so no fuel is needed, and the number of iterations
  is a theorem (C2 on success, C10 on every path). The other recursive functions of the
  model (\<open>chunks\<close>, \<open>utf8_chars\<close>, \<open>name_scan\<close>, \<open>scan_fmt\<close>, \<open>access_chain\<close>,
  \<open>digits\<close>) have termination proofs by a length or value measure; \<open>scan_fmt\<close>'s
  uses that a parsed field is never empty.

  \<^bold>\<open>Not modelled.\<close> The embedding and chat models themselves (opaque function
  parameters, so the business rules the answer prompt asks for cannot be proved of the
  code), pandas' and the CSV module's parsing and writing (tables and rows are given as
  parsed; cells are strings, integers, booleans or NaN, not floats), BeautifulSoup's HTML
  parser (a parameter), Streamlit's layout and widgets beyond the elements a run renders
  (the spinner and the avatars), the parsing and variable interpolation of the
  \<^verbatim>\<open>.env\<close> file and the directory search of \<open>find_dotenv\<close> (the file is given as
  its parsed bindings), the wall clock beyond the recorded sleeps, and Chroma's
  approximate (HNSW) nearest-neighbour index: the search is the exact \<open>k\<close>-nearest
  contract of the spec, and no property depends on which documents it returns. In the
  format machinery, the text of method objects, \<open>!r\<close>, \<open>!a\<close> and non-empty format
  specs is \<open>Unmodelled\<close>; the program's own templates use none of them. \<open>strftime\<close>
  prints a year below 1000 without padding, as the C library does, so the ten-character
  shape of C18 is stated from the year 1000 on. In
  \<^verbatim>\<open>embeddingPrograms.py\<close> the \<open>OpenAIEmbeddings\<close> constructor of the first batch
  (line 35) would raise \<open>ValueError\<close> without a key, after the first progress line
  and before any request; the ingestion model assumes the key is present, so
  \<open>load_dotenv\<close> there (line 14) is not composed with the ingestion run.
\<close>

section \<open>Properties across components\<close>

lemma length_entries_chroma_add: "length (entries (chroma_add c dvs)) = length (entries c) + length dvs"
  by (simp add: chroma_add_def)

lemma get_retriever_docs:
  "get_retriever emb dist c q = Inr ds \<Longrightarrow> set ds \<subseteq> set (docs_of c)"
proof -
  assume r: "get_retriever emb dist c q = Inr ds"
  then obtain u where ds: "ds = map (\<lambda>(_, _, d). d) (nearest dist u 5 (entries c))"
    by (auto simp: get_retriever_def similarity_search_def split: option.splits)
  have "set (nearest dist u 5 (entries c)) \<subseteq> set (entries c)"
    unfolding nearest_def by (metis set_sort set_take_subset)
  then show ?thesis unfolding ds docs_of_def set_map by (rule image_mono)
qed

text \<open>
  C29. Ingestion then retrieval: after a successful ingestion run over a collection,
  the app's retriever (with the same embedding service) returns \<open>min 5 n\<close> documents,
  \<open>n\<close> the number of entries the collection then has, each of them one that was
  stored before or one of the documents just ingested.
\<close>

theorem ingest_then_retrieve:
  assumes bs: "0 < bs"
    and ing: "create_vector_store (\<lambda>d. E (page_content d)) docs bs db0 = Inr (r, st)"
    and ret: "get_retriever E dist (db st) q = Inr ds"
  shows "length ds = min 5 (length (entries db0) + length docs) \<and> set ds \<subseteq> set (docs_of db0) \<union> set docs"
proof -
  have db: "db st = chroma_add db0 (embedded (\<lambda>d. E (page_content d)) docs)"
    using create_vector_store_Inr [OF bs ing] by blast
  have "length ds = min 5 (length (entries (db st)))"
    using ret by (auto simp: get_retriever_def similarity_search_def split: option.splits)
  moreover have "set ds \<subseteq> set (docs_of (db st))" by (rule get_retriever_docs [OF ret])
  ultimately show ?thesis
    by (simp add: db length_entries_chroma_add docs_of_chroma_add map_fst_embedded embedded_def)
qed

theorem ingest_then_retrieve_witness:
  "\<exists>r st ds. create_vector_store (\<lambda>d. Some (int (length (page_content d))))
        [\<lparr>page_content = ''ab'', source = ''f'', row = 0\<rparr>] 150 \<lparr>entries = [], next_id = 0\<rparr> = Inr (r, st) \<and>
      get_retriever (\<lambda>s. Some (int (length s))) (\<lambda>u v. \<bar>u - v\<bar>) (db st) ''x'' = Inr ds \<and>
      length ds = 1 \<and> set ds \<subseteq> {\<lparr>page_content = ''ab'', source = ''f'', row = 0\<rparr>}"
proof -
  let ?E = "\<lambda>s. Some (int (length s))"
  let ?docs = "[\<lparr>page_content = ''ab'', source = ''f'', row = 0\<rparr>]"
  let ?db0 = "\<lparr>entries = [], next_id = 0\<rparr> :: (document, int) chroma"
  have bs: "0 < (150::int)" by simp
  obtain r st where ing: "create_vector_store (\<lambda>d. ?E (page_content d)) ?docs 150 ?db0 = Inr (r, st)"
    using create_vector_store_returns [OF bs, of "\<lambda>d. ?E (page_content d)" ?docs ?db0] by auto
  have "db st = chroma_add ?db0 (embedded (\<lambda>d. ?E (page_content d)) ?docs)"
    using create_vector_store_Inr [OF bs ing] by blast
  then have ret: "get_retriever ?E (\<lambda>u v. \<bar>u - v\<bar>) (db st) ''x'' = Inr ?docs"
    by (simp add: get_retriever_def similarity_search_def nearest_def chroma_add_def embedded_def)
  show ?thesis using ingest_then_retrieve [OF bs ing ret] ing ret by (simp add: docs_of_def)
qed

end
